theory Spec2Isabelle
  imports Main "HOL-Library.Word"
begin

unbundle bit_operations_syntax

section \<open>Operand model\<close>

text \<open>
  The emitters of \<^verbatim>\<open>SVEOps.inl\<close> are member functions of the AArch64 code emitter.
  The operand classes, the assertion macros and the register field helpers are declared
  in other headers of the emitter; they are modelled here from the specification
  (sections 3, 4.1 and 7), each under a comment that says so.
\<close>

type_synonym uint32_t = "32 word"

text \<open>\<^verbatim>\<open>int32_t\<close>: the same 32 bits, read as two's complement by \<^const>\<open>sint\<close>; the implicit
  conversion to \<^verbatim>\<open>uint32_t\<close> keeps the bit pattern.\<close>

type_synonym int32_t = "32 word"

type_synonym uint8_t = "8 word"

text \<open>Modelled from the spec: the element size enumeration (section 3), a closed
  enumeration over 8, 16, 32, 64 and 128 bits.\<close>

datatype SubRegSize = i8Bit | i16Bit | i32Bit | i64Bit | i128Bit

text \<open>Modelled from the spec: the underlying value of an element size is its size code
  (\<open>0b11\<close> for 64-bit elements, section 8 scenario (a)).\<close>

fun ToUnderlying :: "SubRegSize \<Rightarrow> uint32_t" where
  "ToUnderlying i8Bit = 0b000"
| "ToUnderlying i16Bit = 0b001"
| "ToUnderlying i32Bit = 0b010"
| "ToUnderlying i64Bit = 0b011"
| "ToUnderlying i128Bit = 0b100"

text \<open>Modelled from the spec: the size-to-bit-width mapping of the operand model
  (section 4.1).\<close>

fun SubRegSizeInBits :: "SubRegSize \<Rightarrow> uint32_t" where
  "SubRegSizeInBits i8Bit = 8"
| "SubRegSizeInBits i16Bit = 16"
| "SubRegSizeInBits i32Bit = 32"
| "SubRegSizeInBits i64Bit = 64"
| "SubRegSizeInBits i128Bit = 128"

text \<open>Modelled from the spec: the rotation enumeration (section 3).\<close>

datatype Rotation = ROTATE_0 | ROTATE_90 | ROTATE_180 | ROTATE_270

fun ToUnderlying_Rotation :: "Rotation \<Rightarrow> uint32_t" where
  "ToUnderlying_Rotation ROTATE_0 = 0"
| "ToUnderlying_Rotation ROTATE_90 = 1"
| "ToUnderlying_Rotation ROTATE_180 = 2"
| "ToUnderlying_Rotation ROTATE_270 = 3"

text \<open>Modelled from the spec: registers are pure value types identified by their index
  (section 3); equality is register identity. The index is the \<^verbatim>\<open>uint32_t\<close> that
  \<^verbatim>\<open>Idx()\<close> returns. A vector register has index 0 to 31, a predicate register 0 to 15;
  the range is an invariant of the caller, and a hypothesis of the theorems that need it.\<close>

datatype ZRegister = ZRegister (Idx: uint32_t)

datatype Register = Register (Idx: uint32_t)

datatype VRegister = VRegister (Idx: uint32_t)

datatype DRegister = DRegister (Idx: uint32_t)

text \<open>A D register is a view of the SIMD and floating-point register with the same index.\<close>

definition VRegister_of_D :: "DRegister \<Rightarrow> VRegister" where
  "VRegister_of_D d = VRegister (DRegister.Idx d)"

datatype PRegister = PRegister (Idx: uint32_t)

datatype PRegisterZero = PRegisterZero (Idx: uint32_t)

datatype PRegisterMerge = PRegisterMerge (Idx: uint32_t)

definition Zeroing :: "PRegister \<Rightarrow> PRegisterZero" where
  "Zeroing p = PRegisterZero (PRegister.Idx p)"

definition Merging :: "PRegister \<Rightarrow> PRegisterMerge" where
  "Merging p = PRegisterMerge (PRegister.Idx p)"

text \<open>The implicit conversions of a qualified predicate to a plain predicate register.\<close>

definition PRegister_of_Zero :: "PRegisterZero \<Rightarrow> PRegister" where
  "PRegister_of_Zero p = PRegister (PRegisterZero.Idx p)"

definition PRegister_of_Merge :: "PRegisterMerge \<Rightarrow> PRegister" where
  "PRegister_of_Merge p = PRegister (PRegisterMerge.Idx p)"

text \<open>The predicate registers that the source names: \<^verbatim>\<open>PReg::p0\<close>, \<^verbatim>\<open>PReg::p7\<close> (the last
  one a three-bit field can hold) and \<^verbatim>\<open>PReg::p8\<close>.\<close>

definition PReg_p0 :: PRegister where
  "PReg_p0 = PRegister 0"

definition PReg_p7 :: PRegister where
  "PReg_p7 = PRegister 7"

definition PReg_p8 :: PRegister where
  "PReg_p8 = PRegister 8"

text \<open>Modelled from the spec: the comparison of predicate registers compares indices
  ("is this predicate within p0-p7", section 4.1).\<close>

definition PRegister_le :: "PRegister \<Rightarrow> PRegister \<Rightarrow> bool" where
  "PRegister_le a b = (PRegister.Idx a \<le> PRegister.Idx b)"

definition PRegisterZero_le :: "PRegisterZero \<Rightarrow> PRegisterZero \<Rightarrow> bool" where
  "PRegisterZero_le a b = (PRegisterZero.Idx a \<le> PRegisterZero.Idx b)"

definition PRegisterMerge_le :: "PRegisterMerge \<Rightarrow> PRegisterMerge \<Rightarrow> bool" where
  "PRegisterMerge_le a b = (PRegisterMerge.Idx a \<le> PRegisterMerge.Idx b)"

text \<open>Modelled from the spec: a group of registers is sequential when it occupies
  consecutive register indices (section 4.4). The source calls \<^verbatim>\<open>AreVectorsSequential\<close>
  and does not define it.\<close>

definition AreVectorsSequential :: "ZRegister \<Rightarrow> ZRegister \<Rightarrow> bool" where
  "AreVectorsSequential zn zn2 = (ZRegister.Idx zn2 = ZRegister.Idx zn + 1)"

section \<open>The output stream and the assertion macros\<close>

text \<open>
  The code buffer is the list of the words emitted so far. An emitter takes the buffer and
  returns the buffer it leaves behind, with the fault that ended the call when there was
  one: an abort does not return, and the buffer is then as it was when the abort happened.
\<close>

datatype fault = Abort string | Unreachable | Ill_formed string

type_synonym code_buffer = "uint32_t list"

type_synonym emitter = "code_buffer \<Rightarrow> fault option \<times> code_buffer"

text \<open>\<^verbatim>\<open>dc32\<close>, the output primitive (section 6): appends one 32-bit word.\<close>

definition dc32 :: "uint32_t \<Rightarrow> emitter" where
  "dc32 w buf = (None, buf @ [w])"

text \<open>Modelled from the spec: the source states its contracts with the two macros
  \<^verbatim>\<open>LOGMAN_THROW_AA_FMT\<close> and \<^verbatim>\<open>LOGMAN_THROW_A_FMT\<close>, whose definitions are in the
  logging header. Both are the fatal assertion of sections 7 and 9: when the predicate is
  false the call aborts with the message, and nothing after it runs. The third argument is
  the rest of the function body.\<close>

definition LOGMAN_THROW_AA_FMT :: "bool \<Rightarrow> string \<Rightarrow> emitter \<Rightarrow> emitter" where
  "LOGMAN_THROW_AA_FMT pred msg rest buf = (if pred then rest buf else (Some (Abort msg), buf))"

definition LOGMAN_THROW_A_FMT :: "bool \<Rightarrow> string \<Rightarrow> emitter \<Rightarrow> emitter" where
  "LOGMAN_THROW_A_FMT pred msg rest buf = (if pred then rest buf else (Some (Abort msg), buf))"

text \<open>Modelled from the spec: \<^verbatim>\<open>FEX_UNREACHABLE\<close> marks a state that prior validation
  excludes; reaching it is signalled distinctly from a failed assertion (section 7).\<close>

definition FEX_UNREACHABLE :: emitter where
  "FEX_UNREACHABLE buf = (Some Unreachable, buf)"

text \<open>A \<^verbatim>\<open>static_assert\<close> on a template argument is checked when the template is
  instantiated: an instantiation it rejects does not compile and is never called. The model
  keeps the function total and marks such an instantiation \<^const>\<open>Ill_formed\<close>, before any
  run-time check.\<close>

definition static_assert :: "bool \<Rightarrow> string \<Rightarrow> emitter \<Rightarrow> emitter" where
  "static_assert pred msg rest buf = (if pred then rest buf else (Some (Ill_formed msg), buf))"

text \<open>Returning from an emitter without emitting.\<close>

definition return_void :: emitter where
  "return_void buf = (None, buf)"

text \<open>Modelled from the spec: the register field helpers of the emitter, generic in the
  register class and so applied to the register's index here. A destination register is
  encoded in bits 4:0, a first source register in bits 9:5 and a second source register
  in bits 20:16 (section 8, scenario (a)).\<close>

definition Encode_rd :: "uint32_t \<Rightarrow> uint32_t" where
  "Encode_rd idx = idx"

definition Encode_rn :: "uint32_t \<Rightarrow> uint32_t" where
  "Encode_rn idx = push_bit 5 idx"

definition Encode_rm :: "uint32_t \<Rightarrow> uint32_t" where
  "Encode_rm idx = push_bit 16 idx"

text \<open>Modelled from the spec: the memory operand of the load/store helpers (section 4.5),
  a tagged description of one of four addressing modes. The helpers read the tag, the
  scalar base and, by mode, the scalar offset or the immediate offset.\<close>

datatype SVEMemOperand_Type =
  TYPE_SCALAR_SCALAR | TYPE_SCALAR_IMM | TYPE_SCALAR_VECTOR | TYPE_VECTOR_IMM

record SVEMemOperand =
  MemType :: SVEMemOperand_Type
  Operand_rn :: Register
  ScalarScalarType_rm :: Register
  ScalarImmType_Imm :: int32_t

section \<open>Bitfield composition primitives\<close>

text \<open>
  One definition for each private encoder of the source that the verified mnemonics use,
  statement by statement: the assertions in their order, then the template and the field
  writes, then \<^verbatim>\<open>dc32\<close>. The format arguments of an assertion message are not modelled.
\<close>

text \<open>\<^verbatim>\<open>SVEDup\<close> (source line 2915).\<close>

definition SVEDup ::
  "uint32_t \<Rightarrow> uint32_t \<Rightarrow> uint32_t \<Rightarrow> ZRegister \<Rightarrow> ZRegister \<Rightarrow> emitter" where
  "SVEDup Op imm2 tsz zn zd =
     (let Instr = Op;
          Instr = Instr OR push_bit 22 imm2;
          Instr = Instr OR push_bit 16 tsz;
          Instr = Instr OR Encode_rn (ZRegister.Idx zn);
          Instr = Instr OR Encode_rd (ZRegister.Idx zd)
      in dc32 Instr)"

text \<open>\<^verbatim>\<open>SVEBitwiseShiftbyVector\<close> (source line 2960).\<close>

definition SVEBitwiseShiftbyVector ::
  "uint32_t \<Rightarrow> uint32_t \<Rightarrow> uint32_t \<Rightarrow> SubRegSize \<Rightarrow> PRegister \<Rightarrow> ZRegister \<Rightarrow> ZRegister \<Rightarrow> ZRegister \<Rightarrow> emitter" where
  "SVEBitwiseShiftbyVector R L U size' pg zd zn zm =
     LOGMAN_THROW_AA_FMT (size' \<noteq> i128Bit) ''Can't use 128-bit size''
     (LOGMAN_THROW_A_FMT (zd = zn) ''Dest needs to equal zn''
      (LOGMAN_THROW_A_FMT (PRegister_le pg PReg_p7) ''Can only use p0-p7 as a governing predicate''
       (let Instr = 0b00000100000100001000000000000000;
            Instr = Instr OR push_bit 22 (ToUnderlying size');
            Instr = Instr OR push_bit 18 R;
            Instr = Instr OR push_bit 17 L;
            Instr = Instr OR push_bit 16 U;
            Instr = Instr OR push_bit 10 (PRegister.Idx pg);
            Instr = Instr OR push_bit 5 (ZRegister.Idx zm);
            Instr = Instr OR ZRegister.Idx zd
        in dc32 Instr)))"

text \<open>\<^verbatim>\<open>SVEIntegerAddSubUnpredicated\<close> (source line 2978).\<close>

definition SVEIntegerAddSubUnpredicated ::
  "uint32_t \<Rightarrow> uint32_t \<Rightarrow> SubRegSize \<Rightarrow> ZRegister \<Rightarrow> ZRegister \<Rightarrow> ZRegister \<Rightarrow> emitter" where
  "SVEIntegerAddSubUnpredicated Op opc size' zm zn zd =
     LOGMAN_THROW_AA_FMT (size' \<noteq> i128Bit) ''Can't use 128-bit size''
     (let Instr = Op;
          Instr = Instr OR push_bit 22 (ToUnderlying size');
          Instr = Instr OR push_bit 16 (ZRegister.Idx zm);
          Instr = Instr OR push_bit 10 opc;
          Instr = Instr OR push_bit 5 (ZRegister.Idx zn);
          Instr = Instr OR ZRegister.Idx zd
      in dc32 Instr)"

text \<open>\<^verbatim>\<open>SVEFloatPairwiseArithmetic\<close> (source line 3043).\<close>

definition SVEFloatPairwiseArithmetic ::
  "uint32_t \<Rightarrow> SubRegSize \<Rightarrow> PRegister \<Rightarrow> ZRegister \<Rightarrow> ZRegister \<Rightarrow> ZRegister \<Rightarrow> emitter" where
  "SVEFloatPairwiseArithmetic opc size' pg zd zn zm =
     LOGMAN_THROW_A_FMT (zd = zn) ''zd needs to equal zn''
     (LOGMAN_THROW_A_FMT (size' = i16Bit \<or> size' = i32Bit \<or> size' = i64Bit) ''Invalid float size''
      (LOGMAN_THROW_A_FMT (PRegister_le pg PReg_p7) ''Can only use p0-p7 as a governing predicate''
       (let Instr = 0b01100100000100001000000000000000;
            Instr = Instr OR push_bit 22 (ToUnderlying size');
            Instr = Instr OR push_bit 16 opc;
            Instr = Instr OR push_bit 10 (PRegister.Idx pg);
            Instr = Instr OR push_bit 5 (ZRegister.Idx zm);
            Instr = Instr OR ZRegister.Idx zd
        in dc32 Instr)))"

text \<open>\<^verbatim>\<open>SVEBitwiseLogicalPredicated\<close> (source line 3071).\<close>

definition SVEBitwiseLogicalPredicated ::
  "uint32_t \<Rightarrow> uint32_t \<Rightarrow> SubRegSize \<Rightarrow> PRegister \<Rightarrow> ZRegister \<Rightarrow> ZRegister \<Rightarrow> emitter" where
  "SVEBitwiseLogicalPredicated Op opc size' pg zm zd =
     (let Instr = Op;
          Instr = Instr OR push_bit 22 (ToUnderlying size');
          Instr = Instr OR push_bit 16 opc;
          Instr = Instr OR push_bit 10 (PRegister.Idx pg);
          Instr = Instr OR push_bit 5 (ZRegister.Idx zm);
          Instr = Instr OR ZRegister.Idx zd
      in dc32 Instr)"

text \<open>\<^verbatim>\<open>SVE2IntegerHalvingPredicated\<close> (source line 3156).\<close>

definition SVE2IntegerHalvingPredicated ::
  "uint32_t \<Rightarrow> uint32_t \<Rightarrow> uint32_t \<Rightarrow> SubRegSize \<Rightarrow> PRegister \<Rightarrow> ZRegister \<Rightarrow> ZRegister \<Rightarrow> ZRegister \<Rightarrow> emitter" where
  "SVE2IntegerHalvingPredicated R S U size' pg zd zn zm =
     LOGMAN_THROW_AA_FMT (size' \<noteq> i128Bit) ''Can't use 128-bit size''
     (LOGMAN_THROW_A_FMT (zd = zn) ''zd needs to equal zn''
      (LOGMAN_THROW_A_FMT (PRegister_le pg PReg_p7) ''Can only use p0-p7 as a governing predicate''
       (let Instr = 0b01000100000100001000000000000000;
            Instr = Instr OR push_bit 22 (ToUnderlying size');
            Instr = Instr OR push_bit 18 R;
            Instr = Instr OR push_bit 17 S;
            Instr = Instr OR push_bit 16 U;
            Instr = Instr OR push_bit 10 (PRegister.Idx pg);
            Instr = Instr OR push_bit 5 (ZRegister.Idx zm);
            Instr = Instr OR ZRegister.Idx zd
        in dc32 Instr)))"

text \<open>\<^verbatim>\<open>SVEIntegerPairwiseArithmetic\<close> (source line 3173).\<close>

definition SVEIntegerPairwiseArithmetic ::
  "uint32_t \<Rightarrow> uint32_t \<Rightarrow> SubRegSize \<Rightarrow> PRegister \<Rightarrow> ZRegister \<Rightarrow> ZRegister \<Rightarrow> ZRegister \<Rightarrow> emitter" where
  "SVEIntegerPairwiseArithmetic opc U size' pg zd zn zm =
     LOGMAN_THROW_AA_FMT (size' \<noteq> i128Bit) ''Can't use 128-bit size''
     (LOGMAN_THROW_A_FMT (zd = zn) ''zd needs to equal zn''
      (LOGMAN_THROW_A_FMT (PRegister_le pg PReg_p7) ''Can only use p0-p7 as a governing predicate''
       (let Instr = 0b01000100000100001010000000000000;
            Instr = Instr OR push_bit 22 (ToUnderlying size');
            Instr = Instr OR push_bit 17 opc;
            Instr = Instr OR push_bit 16 U;
            Instr = Instr OR push_bit 10 (PRegister.Idx pg);
            Instr = Instr OR push_bit 5 (ZRegister.Idx zm);
            Instr = Instr OR ZRegister.Idx zd
        in dc32 Instr)))"

text \<open>\<^verbatim>\<open>SVEFloatArithmeticPredicated\<close> (source line 3189).\<close>

definition SVEFloatArithmeticPredicated ::
  "uint32_t \<Rightarrow> SubRegSize \<Rightarrow> PRegister \<Rightarrow> ZRegister \<Rightarrow> ZRegister \<Rightarrow> ZRegister \<Rightarrow> emitter" where
  "SVEFloatArithmeticPredicated opc size' pg zd zn zm =
     LOGMAN_THROW_A_FMT (zd = zn) ''zn needs to equal zd''
     (LOGMAN_THROW_A_FMT (size' = i16Bit \<or> size' = i32Bit \<or> size' = i64Bit) ''Invalid float size''
      (LOGMAN_THROW_A_FMT (PRegister_le pg PReg_p7) ''Can only use p0-p7 as a governing predicate''
       (let Instr = 0b01100101000000001000000000000000;
            Instr = Instr OR push_bit 22 (ToUnderlying size');
            Instr = Instr OR push_bit 16 opc;
            Instr = Instr OR push_bit 10 (PRegister.Idx pg);
            Instr = Instr OR push_bit 5 (ZRegister.Idx zm);
            Instr = Instr OR ZRegister.Idx zd
        in dc32 Instr)))"

text \<open>\<^verbatim>\<open>SVECharacterMatch\<close> (source line 3204).\<close>

definition SVECharacterMatch ::
  "uint32_t \<Rightarrow> uint32_t \<Rightarrow> SubRegSize \<Rightarrow> PRegister \<Rightarrow> PRegisterZero \<Rightarrow> ZRegister \<Rightarrow> ZRegister \<Rightarrow> emitter" where
  "SVECharacterMatch op opc size' pd pg zn zm =
     LOGMAN_THROW_AA_FMT (size' = i8Bit \<or> size' = i16Bit) ''match/nmatch can only use 8-bit or 16-bit element sizes''
     (LOGMAN_THROW_A_FMT (PRegisterZero_le pg (Zeroing PReg_p7)) ''match/nmatch can only use p0-p7 as a governing predicate''
      (let Instr = op;
           Instr = Instr OR push_bit 22 (ToUnderlying size');
           Instr = Instr OR push_bit 4 opc;
           Instr = Instr OR push_bit 16 (ZRegister.Idx zm);
           Instr = Instr OR push_bit 10 (PRegisterZero.Idx pg);
           Instr = Instr OR push_bit 5 (ZRegister.Idx zn);
           Instr = Instr OR PRegister.Idx pd
       in dc32 Instr))"

text \<open>\<^verbatim>\<open>SVEFPRecursiveReduction\<close> (source line 3219).\<close>

definition SVEFPRecursiveReduction ::
  "uint32_t \<Rightarrow> uint32_t \<Rightarrow> SubRegSize \<Rightarrow> VRegister \<Rightarrow> PRegister \<Rightarrow> ZRegister \<Rightarrow> emitter" where
  "SVEFPRecursiveReduction op opc size' vd pg zn =
     LOGMAN_THROW_AA_FMT (size' = i16Bit \<or> size' = i32Bit \<or> size' = i64Bit) ''FP reduction operation can only use 16-bit, 32-bit, or 64-bit element sizes''
     (LOGMAN_THROW_A_FMT (PRegister_le pg PReg_p7) ''FP reduction operation can only use p0-p7 as a governing predicate''
      (let Instr = op;
           Instr = Instr OR push_bit 22 (ToUnderlying size');
           Instr = Instr OR push_bit 16 opc;
           Instr = Instr OR push_bit 10 (PRegister.Idx pg);
           Instr = Instr OR push_bit 5 (ZRegister.Idx zn);
           Instr = Instr OR VRegister.Idx vd
       in dc32 Instr))"

text \<open>\<^verbatim>\<open>SVEAddSubVectorsPredicated\<close> (source line 3233).\<close>

definition SVEAddSubVectorsPredicated ::
  "uint32_t \<Rightarrow> uint32_t \<Rightarrow> SubRegSize \<Rightarrow> ZRegister \<Rightarrow> PRegisterMerge \<Rightarrow> ZRegister \<Rightarrow> ZRegister \<Rightarrow> emitter" where
  "SVEAddSubVectorsPredicated op opc size' zd pg zn zm =
     LOGMAN_THROW_A_FMT (zd = zn) ''zd and zn must be the same register''
     (LOGMAN_THROW_A_FMT (PRegisterMerge_le pg (Merging PReg_p7)) ''Add/Sub operation can only use p0-p7 as a governing predicate''
      (let Instr = op;
           Instr = Instr OR push_bit 22 (ToUnderlying size');
           Instr = Instr OR push_bit 16 opc;
           Instr = Instr OR push_bit 10 (PRegisterMerge.Idx pg);
           Instr = Instr OR push_bit 5 (ZRegister.Idx zm);
           Instr = Instr OR ZRegister.Idx zd
       in dc32 Instr))"

text \<open>\<^verbatim>\<open>SVEIntegerMulDivVectorsPredicated\<close> (source line 3246).\<close>

definition SVEIntegerMulDivVectorsPredicated ::
  "uint32_t \<Rightarrow> uint32_t \<Rightarrow> SubRegSize \<Rightarrow> ZRegister \<Rightarrow> PRegisterMerge \<Rightarrow> ZRegister \<Rightarrow> ZRegister \<Rightarrow> emitter" where
  "SVEIntegerMulDivVectorsPredicated op opc size' zd pg zn zm =
     LOGMAN_THROW_A_FMT (zd = zn) ''zd and zn must be the same register''
     (LOGMAN_THROW_A_FMT (PRegisterMerge_le pg (Merging PReg_p7)) ''Mul/Div operation can only use p0-p7 as a governing predicate''
      (let Instr = op;
           Instr = Instr OR push_bit 22 (ToUnderlying size');
           Instr = Instr OR push_bit 16 opc;
           Instr = Instr OR push_bit 10 (PRegisterMerge.Idx pg);
           Instr = Instr OR push_bit 5 (ZRegister.Idx zm);
           Instr = Instr OR ZRegister.Idx zd
       in dc32 Instr))"

text \<open>\<^verbatim>\<open>SVEIntegerReductionOperation\<close> (source line 3259).\<close>

definition SVEIntegerReductionOperation ::
  "uint32_t \<Rightarrow> uint32_t \<Rightarrow> SubRegSize \<Rightarrow> VRegister \<Rightarrow> PRegister \<Rightarrow> ZRegister \<Rightarrow> emitter" where
  "SVEIntegerReductionOperation op opc size' vd pg zn =
     LOGMAN_THROW_AA_FMT (size' \<noteq> i128Bit) ''Can't use 128-bit element size for reduction operation''
     (LOGMAN_THROW_A_FMT (PRegister_le pg PReg_p7) ''Integer reduction operation can only use p0-p7 as a governing predicate''
      (let Instr = op;
           Instr = Instr OR push_bit 22 (ToUnderlying size');
           Instr = Instr OR push_bit 16 opc;
           Instr = Instr OR push_bit 10 (PRegister.Idx pg);
           Instr = Instr OR push_bit 5 (ZRegister.Idx zn);
           Instr = Instr OR VRegister.Idx vd
       in dc32 Instr))"

text \<open>\<^verbatim>\<open>SVEIntegerMultiplyAddSubPredicated\<close> (source line 3272).\<close>

definition SVEIntegerMultiplyAddSubPredicated ::
  "uint32_t \<Rightarrow> uint32_t \<Rightarrow> SubRegSize \<Rightarrow> ZRegister \<Rightarrow> PRegister \<Rightarrow> ZRegister \<Rightarrow> ZRegister \<Rightarrow> emitter" where
  "SVEIntegerMultiplyAddSubPredicated op opc size' zd pg zn zm =
     LOGMAN_THROW_AA_FMT (size' \<noteq> i128Bit) ''Can't use 128-bit element size''
     (LOGMAN_THROW_A_FMT (PRegister_le pg PReg_p7) ''Can only use p0-p7 as a governing predicate''
      (let Instr = op;
           Instr = Instr OR push_bit 22 (ToUnderlying size');
           Instr = Instr OR push_bit 13 opc;
           Instr = Instr OR push_bit 16 (ZRegister.Idx zm);
           Instr = Instr OR push_bit 10 (PRegister.Idx pg);
           Instr = Instr OR push_bit 5 (ZRegister.Idx zn);
           Instr = Instr OR ZRegister.Idx zd
       in dc32 Instr))"

text \<open>\<^verbatim>\<open>SVE2IntegerSaturatingAddSub\<close> (source line 3298).\<close>

definition SVE2IntegerSaturatingAddSub ::
  "SubRegSize \<Rightarrow> uint32_t \<Rightarrow> ZRegister \<Rightarrow> PRegisterMerge \<Rightarrow> ZRegister \<Rightarrow> ZRegister \<Rightarrow> emitter" where
  "SVE2IntegerSaturatingAddSub size' opc zd pg zn zm =
     LOGMAN_THROW_A_FMT (size' \<noteq> i128Bit) ''Can't use 128-bit element size''
     (LOGMAN_THROW_A_FMT (zd = zn) ''zd and zn must be the same register''
      (LOGMAN_THROW_A_FMT (PRegisterMerge_le pg (Merging PReg_p7)) ''Saturing add/subtract can only use p0-p7 as a governing predicate''
       (let Instr = 0b01000100000110001000000000000000;
            Instr = Instr OR push_bit 22 (ToUnderlying size');
            Instr = Instr OR push_bit 16 opc;
            Instr = Instr OR push_bit 10 (PRegisterMerge.Idx pg);
            Instr = Instr OR push_bit 5 (ZRegister.Idx zm);
            Instr = Instr OR ZRegister.Idx zd
        in dc32 Instr)))"

text \<open>\<^verbatim>\<open>SVEBitwiseShiftByWideElementPredicated\<close> (source line 3312).\<close>

definition SVEBitwiseShiftByWideElementPredicated ::
  "SubRegSize \<Rightarrow> uint32_t \<Rightarrow> ZRegister \<Rightarrow> PRegisterMerge \<Rightarrow> ZRegister \<Rightarrow> ZRegister \<Rightarrow> emitter" where
  "SVEBitwiseShiftByWideElementPredicated size' opc zd pg zn zm =
     LOGMAN_THROW_A_FMT (size' \<noteq> i64Bit \<and> size' \<noteq> i128Bit) ''Can't use 64-bit or 128-bit element size''
     (LOGMAN_THROW_A_FMT (zd = zn) ''zd and zn must be the same register''
      (LOGMAN_THROW_A_FMT (PRegisterMerge_le pg (Merging PReg_p7)) ''Wide shift can only use p0-p7 as a governing predicate''
       (let Instr = 0b00000100000110001000000000000000;
            Instr = Instr OR push_bit 22 (ToUnderlying size');
            Instr = Instr OR push_bit 16 opc;
            Instr = Instr OR push_bit 10 (PRegisterMerge.Idx pg);
            Instr = Instr OR push_bit 5 (ZRegister.Idx zm);
            Instr = Instr OR ZRegister.Idx zd
        in dc32 Instr)))"

text \<open>\<^verbatim>\<open>SVE2ComplexIntAdd\<close> (source line 3540).\<close>

definition SVE2ComplexIntAdd ::
  "SubRegSize \<Rightarrow> uint32_t \<Rightarrow> Rotation \<Rightarrow> ZRegister \<Rightarrow> ZRegister \<Rightarrow> ZRegister \<Rightarrow> emitter" where
  "SVE2ComplexIntAdd size' opc rot zd zn zm =
     LOGMAN_THROW_A_FMT (size' \<noteq> i128Bit) ''Complex add cannot use 128-bit element size''
     (LOGMAN_THROW_A_FMT (zd = zn) ''zd and zn must be the same register''
      (LOGMAN_THROW_A_FMT (rot = ROTATE_90 \<or> rot = ROTATE_270) ''Rotation must be 90 or 270 degrees''
       (let SanitizedRot = (if rot = ROTATE_90 then 0 else 1);
            Instr = 0b01000101000000001101100000000000;
            Instr = Instr OR push_bit 22 (ToUnderlying size');
            Instr = Instr OR push_bit 16 opc;
            Instr = Instr OR push_bit 10 SanitizedRot;
            Instr = Instr OR push_bit 5 (ZRegister.Idx zm);
            Instr = Instr OR ZRegister.Idx zd
        in dc32 Instr)))"

text \<open>\<^verbatim>\<open>SVEContiguousLoadImm\<close> (source line 3651).\<close>

definition SVEContiguousLoadImm ::
  "uint32_t \<Rightarrow> uint32_t \<Rightarrow> uint32_t \<Rightarrow> PRegister \<Rightarrow> Register \<Rightarrow> ZRegister \<Rightarrow> emitter" where
  "SVEContiguousLoadImm Op dtype Imm pg rn zt =
     (let Instr = Op;
          Instr = Instr OR push_bit 21 dtype;
          Instr = Instr OR push_bit 16 (Imm AND 0xF);
          Instr = Instr OR push_bit 10 (PRegister.Idx pg);
          Instr = Instr OR Encode_rn (Register.Idx rn);
          Instr = Instr OR ZRegister.Idx zt
      in dc32 Instr)"

text \<open>\<^verbatim>\<open>SVEContiguousLoadStore\<close> (source line 3663).\<close>

definition SVEContiguousLoadStore ::
  "uint32_t \<Rightarrow> uint32_t \<Rightarrow> Register \<Rightarrow> PRegister \<Rightarrow> Register \<Rightarrow> ZRegister \<Rightarrow> emitter" where
  "SVEContiguousLoadStore Op dtype rm pg rn zt =
     (let Instr = Op;
          Instr = Instr OR push_bit 21 dtype;
          Instr = Instr OR Encode_rm (Register.Idx rm);
          Instr = Instr OR push_bit 10 (PRegister.Idx pg);
          Instr = Instr OR Encode_rn (Register.Idx rn);
          Instr = Instr OR ZRegister.Idx zt
      in dc32 Instr)"

text \<open>\<^verbatim>\<open>SVEIntegerCompareImm\<close> (source line 3686).\<close>

definition SVEIntegerCompareImm ::
  "uint32_t \<Rightarrow> uint32_t \<Rightarrow> uint32_t \<Rightarrow> SubRegSize \<Rightarrow> PRegister \<Rightarrow> ZRegister \<Rightarrow> PRegister \<Rightarrow> emitter" where
  "SVEIntegerCompareImm lt ne imm7 size' pg zn pd =
     (let Op = push_bit 12 0b00100100001000000000;
          Instr = Op;
          Instr = Instr OR push_bit 22 (ToUnderlying size');
          Instr = Instr OR push_bit 14 imm7;
          Instr = Instr OR push_bit 13 lt;
          Instr = Instr OR push_bit 10 (PRegister.Idx pg);
          Instr = Instr OR push_bit 5 (ZRegister.Idx zn);
          Instr = Instr OR push_bit 4 ne;
          Instr = Instr OR PRegister.Idx pd
      in dc32 Instr)"

text \<open>\<^verbatim>\<open>SVEIntegerCompareSignedImm\<close> (source line 3700).\<close>

definition SVEIntegerCompareSignedImm ::
  "uint32_t \<Rightarrow> uint32_t \<Rightarrow> uint32_t \<Rightarrow> uint32_t \<Rightarrow> SubRegSize \<Rightarrow> PRegister \<Rightarrow> ZRegister \<Rightarrow> PRegister \<Rightarrow> emitter" where
  "SVEIntegerCompareSignedImm op o2 ne imm5 size' pg zn pd =
     (let Op = push_bit 13 0b0010010100000000000;
          Instr = Op;
          Instr = Instr OR push_bit 22 (ToUnderlying size');
          Instr = Instr OR push_bit 16 (imm5 AND 0b11111);
          Instr = Instr OR push_bit 15 op;
          Instr = Instr OR push_bit 13 o2;
          Instr = Instr OR push_bit 10 (PRegister.Idx pg);
          Instr = Instr OR push_bit 5 (ZRegister.Idx zn);
          Instr = Instr OR push_bit 4 ne;
          Instr = Instr OR PRegister.Idx pd
      in dc32 Instr)"

text \<open>\<^verbatim>\<open>SVEFloatCompareVector\<close> (source line 3715).\<close>

definition SVEFloatCompareVector ::
  "uint32_t \<Rightarrow> uint32_t \<Rightarrow> uint32_t \<Rightarrow> SubRegSize \<Rightarrow> ZRegister \<Rightarrow> PRegister \<Rightarrow> ZRegister \<Rightarrow> PRegister \<Rightarrow> emitter" where
  "SVEFloatCompareVector op o2 o3 size' zm pg zn pd =
     LOGMAN_THROW_AA_FMT (size' \<noteq> i128Bit) ''Can't use 128-bit size''
     (LOGMAN_THROW_AA_FMT (size' \<noteq> i8Bit) ''Can't use 8-bit size''
      (LOGMAN_THROW_A_FMT (PRegister_le pg PReg_p7) ''Can only use p0-p7 as a governing predicate''
       (let Instr = 0b01100101000000000100000000000000;
            Instr = Instr OR push_bit 22 (ToUnderlying size');
            Instr = Instr OR push_bit 16 (ZRegister.Idx zm);
            Instr = Instr OR push_bit 15 op;
            Instr = Instr OR push_bit 13 o2;
            Instr = Instr OR push_bit 10 (PRegister.Idx pg);
            Instr = Instr OR push_bit 5 (ZRegister.Idx zn);
            Instr = Instr OR push_bit 4 o3;
            Instr = Instr OR PRegister.Idx pd
        in dc32 Instr)))"

text \<open>\<^verbatim>\<open>SVEIntegerMinMaxDifferencePredicated\<close> (source line 3732).\<close>

definition SVEIntegerMinMaxDifferencePredicated ::
  "uint32_t \<Rightarrow> uint32_t \<Rightarrow> SubRegSize \<Rightarrow> PRegister \<Rightarrow> ZRegister \<Rightarrow> ZRegister \<Rightarrow> emitter" where
  "SVEIntegerMinMaxDifferencePredicated opc U size' pg zm zd =
     (let Op = push_bit 13 0b0000010000001000000;
          Instr = Op;
          Instr = Instr OR push_bit 22 (ToUnderlying size');
          Instr = Instr OR push_bit 17 opc;
          Instr = Instr OR push_bit 16 U;
          Instr = Instr OR push_bit 10 (PRegister.Idx pg);
          Instr = Instr OR push_bit 5 (ZRegister.Idx zm);
          Instr = Instr OR ZRegister.Idx zd
      in dc32 Instr)"

text \<open>\<^verbatim>\<open>SVE2BitwiseTernary\<close> (source line 3845).\<close>

definition SVE2BitwiseTernary ::
  "uint32_t \<Rightarrow> uint32_t \<Rightarrow> ZRegister \<Rightarrow> ZRegister \<Rightarrow> ZRegister \<Rightarrow> emitter" where
  "SVE2BitwiseTernary opc o2 zm zk zdn =
     (let Op = push_bit 11 0b000001000010000000111;
          Instr = Op;
          Instr = Instr OR push_bit 22 opc;
          Instr = Instr OR push_bit 16 (ZRegister.Idx zm);
          Instr = Instr OR push_bit 10 o2;
          Instr = Instr OR push_bit 5 (ZRegister.Idx zk);
          Instr = Instr OR ZRegister.Idx zdn
      in dc32 Instr)"

text \<open>\<^verbatim>\<open>SVEPermuteVector\<close> (source line 3857).\<close>

definition SVEPermuteVector ::
  "uint32_t \<Rightarrow> ZRegister \<Rightarrow> ZRegister \<Rightarrow> uint32_t \<Rightarrow> emitter" where
  "SVEPermuteVector op0 zd zm Imm =
     (let Op = push_bit 13 0b0000010100100000000;
          Instr = Op;
          Instr = Instr OR push_bit 22 op0;
          Instr = Instr OR push_bit 16 (drop_bit 3 Imm);
          Instr = Instr OR push_bit 10 (Imm AND 0b111);
          Instr = Instr OR push_bit 5 (ZRegister.Idx zm);
          Instr = Instr OR ZRegister.Idx zd
      in dc32 Instr)"

text \<open>\<^verbatim>\<open>SVEIntegerCompareVector\<close> (source line 3869).\<close>

definition SVEIntegerCompareVector ::
  "uint32_t \<Rightarrow> uint32_t \<Rightarrow> uint32_t \<Rightarrow> SubRegSize \<Rightarrow> ZRegister \<Rightarrow> PRegister \<Rightarrow> ZRegister \<Rightarrow> PRegister \<Rightarrow> emitter" where
  "SVEIntegerCompareVector op o2 ne size' zm pg zn pd =
     LOGMAN_THROW_A_FMT (size' \<noteq> i128Bit) ''Can't use 128-bit element size''
     (LOGMAN_THROW_A_FMT (PRegister_le pg PReg_p7) ''Can only use p0-p7 as a governing predicate''
      (let Op = push_bit 13 0b0010010000000000000;
           Instr = Op;
           Instr = Instr OR push_bit 22 (ToUnderlying size');
           Instr = Instr OR push_bit 16 (ZRegister.Idx zm);
           Instr = Instr OR push_bit 15 op;
           Instr = Instr OR push_bit 13 o2;
           Instr = Instr OR push_bit 10 (PRegister.Idx pg);
           Instr = Instr OR push_bit 5 (ZRegister.Idx zn);
           Instr = Instr OR push_bit 4 ne;
           Instr = Instr OR PRegister.Idx pd
       in dc32 Instr))"

text \<open>\<^verbatim>\<open>SVEIntegerCompareVectorWide\<close> (source line 3887).\<close>

definition SVEIntegerCompareVectorWide ::
  "uint32_t \<Rightarrow> uint32_t \<Rightarrow> uint32_t \<Rightarrow> SubRegSize \<Rightarrow> PRegister \<Rightarrow> PRegister \<Rightarrow> ZRegister \<Rightarrow> ZRegister \<Rightarrow> emitter" where
  "SVEIntegerCompareVectorWide op o2 ne size' pd pg zn zm =
     LOGMAN_THROW_A_FMT (size' \<noteq> i64Bit) ''Can't use 64-bit element size''
     (SVEIntegerCompareVector op o2 ne size' zm pg zn pd)"

text \<open>\<^verbatim>\<open>SVEPermuteVectorPredicated\<close> (source line 4018).\<close>

definition SVEPermuteVectorPredicated ::
  "uint32_t \<Rightarrow> uint32_t \<Rightarrow> SubRegSize \<Rightarrow> ZRegister \<Rightarrow> PRegister \<Rightarrow> ZRegister \<Rightarrow> emitter" where
  "SVEPermuteVectorPredicated opc1 opc2 size' zd pg zn =
     LOGMAN_THROW_A_FMT (size' \<noteq> i128Bit) ''Can't use 128-bit size''
     (LOGMAN_THROW_A_FMT (PRegister_le pg PReg_p7) ''Can only use p0-p7 as a governing predicate''
      (let Instr = 0b00000101001000001000000000000000;
           Instr = Instr OR push_bit 22 (ToUnderlying size');
           Instr = Instr OR push_bit 16 opc1;
           Instr = Instr OR push_bit 13 opc2;
           Instr = Instr OR push_bit 10 (PRegister.Idx pg);
           Instr = Instr OR push_bit 5 (ZRegister.Idx zn);
           Instr = Instr OR ZRegister.Idx zd
       in dc32 Instr))"

text \<open>\<^verbatim>\<open>SVEPropagateBreak\<close> (source line 4032).\<close>

definition SVEPropagateBreak ::
  "uint32_t \<Rightarrow> uint32_t \<Rightarrow> uint32_t \<Rightarrow> PRegister \<Rightarrow> PRegister \<Rightarrow> PRegister \<Rightarrow> PRegister \<Rightarrow> emitter" where
  "SVEPropagateBreak opc op2 op3 pd pg pn pm =
     (let Instr = 0b00100101000000000000000000000000;
          Instr = Instr OR push_bit 20 opc;
          Instr = Instr OR push_bit 14 op2;
          Instr = Instr OR push_bit 4 op3;
          Instr = Instr OR push_bit 16 (PRegister.Idx pm);
          Instr = Instr OR push_bit 10 (PRegister.Idx pg);
          Instr = Instr OR push_bit 5 (PRegister.Idx pn);
          Instr = Instr OR PRegister.Idx pd
      in dc32 Instr)"

text \<open>\<^verbatim>\<open>SVEPredicateMisc\<close> (source line 4044).\<close>

definition SVEPredicateMisc ::
  "uint32_t \<Rightarrow> uint32_t \<Rightarrow> uint32_t \<Rightarrow> SubRegSize \<Rightarrow> PRegister \<Rightarrow> emitter" where
  "SVEPredicateMisc op0 op2 op3 size' pd =
     LOGMAN_THROW_A_FMT (size' \<noteq> i128Bit) ''Can't use 128-bit size''
     (let Instr = 0b00100101000100001100000000000000;
          Instr = Instr OR push_bit 22 (ToUnderlying size');
          Instr = Instr OR push_bit 16 op0;
          Instr = Instr OR push_bit 9 op2;
          Instr = Instr OR push_bit 5 op3;
          Instr = Instr OR PRegister.Idx pd
      in dc32 Instr)"

text \<open>\<^verbatim>\<open>SVEFPSerialReductionPredicated\<close> (source line 4092).\<close>

definition SVEFPSerialReductionPredicated ::
  "uint32_t \<Rightarrow> SubRegSize \<Rightarrow> VRegister \<Rightarrow> PRegister \<Rightarrow> VRegister \<Rightarrow> ZRegister \<Rightarrow> emitter" where
  "SVEFPSerialReductionPredicated opc size' vd pg vn zm =
     LOGMAN_THROW_AA_FMT (size' = i16Bit \<or> size' = i32Bit \<or> size' = i64Bit) ''SubRegSize must be 16-bit, 32-bit, or 64-bit''
     (LOGMAN_THROW_A_FMT (PRegister_le pg PReg_p7) ''Can only use p0-p7 as a governing predicate''
      (LOGMAN_THROW_A_FMT (vd = vn) ''vn must be the same as vd''
       (let Instr = 0b01100101000110000010000000000000;
            Instr = Instr OR push_bit 22 (ToUnderlying size');
            Instr = Instr OR push_bit 16 opc;
            Instr = Instr OR push_bit 10 (PRegister.Idx pg);
            Instr = Instr OR push_bit 5 (ZRegister.Idx zm);
            Instr = Instr OR VRegister.Idx vd
        in dc32 Instr)))"

text \<open>\<^verbatim>\<open>SVEFPCompareWithZero\<close> (source line 4107).\<close>

definition SVEFPCompareWithZero ::
  "uint32_t \<Rightarrow> uint32_t \<Rightarrow> SubRegSize \<Rightarrow> PRegister \<Rightarrow> PRegister \<Rightarrow> ZRegister \<Rightarrow> emitter" where
  "SVEFPCompareWithZero eqlt ne size' pd pg zn =
     LOGMAN_THROW_AA_FMT (size' = i16Bit \<or> size' = i32Bit \<or> size' = i64Bit) ''SubRegSize must be 16-bit, 32-bit, or 64-bit''
     (LOGMAN_THROW_A_FMT (PRegister_le pg PReg_p7) ''Can only use p0-p7 as a governing predicate''
      (let Instr = 0b01100101000100000010000000000000;
           Instr = Instr OR push_bit 22 (ToUnderlying size');
           Instr = Instr OR push_bit 16 eqlt;
           Instr = Instr OR push_bit 10 (PRegister.Idx pg);
           Instr = Instr OR push_bit 5 (ZRegister.Idx zn);
           Instr = Instr OR push_bit 4 ne;
           Instr = Instr OR PRegister.Idx pd
       in dc32 Instr))"

text \<open>\<^verbatim>\<open>SVEBitWiseShiftImmediatePred\<close> (source line 3745). The three fields are computed by
  the chain of tests on the element size; \<open>None\<close> stands for its last branch, which is
  \<^verbatim>\<open>FEX_UNREACHABLE\<close>.\<close>

definition SVEBitWiseShiftImmediatePred ::
  "SubRegSize \<Rightarrow> uint32_t \<Rightarrow> uint32_t \<Rightarrow> uint32_t \<Rightarrow> PRegister \<Rightarrow> ZRegister \<Rightarrow> ZRegister \<Rightarrow> uint32_t \<Rightarrow> emitter" where
  "SVEBitWiseShiftImmediatePred size' opc L U pg zd zdn Shift =
     LOGMAN_THROW_AA_FMT (size' \<noteq> i128Bit) ''Can't use 128-bit element size''
     (LOGMAN_THROW_A_FMT (zd = zdn) ''zd needs to equal zdn''
      (LOGMAN_THROW_A_FMT (PRegister_le pg PReg_p7) ''Can only use p0-p7 as a governing predicate''
       (let ElementSize = SubRegSizeInBits size';
            IsLeftShift = (L \<noteq> 0)
        in (if IsLeftShift
            then LOGMAN_THROW_A_FMT (0 \<le> Shift \<and> Shift < ElementSize) ''Incorrect left shift: {}''
            else LOGMAN_THROW_A_FMT (0 < Shift \<and> Shift \<le> ElementSize) ''Incorrect right shift: {}'')
           (let InverseShift = (if IsLeftShift then Shift else (2 * ElementSize) - Shift)
            in case (if size' = i8Bit then
                       Some (0b00, 0b01, InverseShift AND 0b111)
                     else if size' = i16Bit then
                       Some (0b00, 0b10 OR (drop_bit 3 InverseShift AND 0b1), InverseShift AND 0b111)
                     else if size' = i32Bit then
                       Some (0b01, drop_bit 3 InverseShift AND 0b11, InverseShift AND 0b111)
                     else if size' = i64Bit then
                       Some (0b10 OR (drop_bit 5 InverseShift AND 1), drop_bit 3 InverseShift AND 0b11,
                             InverseShift AND 0b111)
                     else None) of
                 None \<Rightarrow> FEX_UNREACHABLE
               | Some (tszh, tszl, imm3) \<Rightarrow>
                  (let Op = push_bit 13 0b0000010000000000100;
                       Instr = Op;
                       Instr = Instr OR push_bit 22 tszh;
                       Instr = Instr OR push_bit 18 opc;
                       Instr = Instr OR push_bit 17 L;
                       Instr = Instr OR push_bit 16 U;
                       Instr = Instr OR push_bit 10 (PRegister.Idx pg);
                       Instr = Instr OR push_bit 8 tszl;
                       Instr = Instr OR push_bit 5 imm3;
                       Instr = Instr OR ZRegister.Idx zd
                   in dc32 Instr)))))"

text \<open>\<^verbatim>\<open>SVEBitWiseShiftImmediateUnpred\<close> (source line 3798).\<close>

definition SVEBitWiseShiftImmediateUnpred ::
  "SubRegSize \<Rightarrow> uint32_t \<Rightarrow> ZRegister \<Rightarrow> ZRegister \<Rightarrow> uint32_t \<Rightarrow> emitter" where
  "SVEBitWiseShiftImmediateUnpred size' opc zd zn Shift =
     LOGMAN_THROW_AA_FMT (size' \<noteq> i128Bit) ''Can't use 128-bit element size''
     (let ElementSize = SubRegSizeInBits size';
          IsLeftShift = (opc = 0b11)
      in (if IsLeftShift
          then LOGMAN_THROW_A_FMT (0 \<le> Shift \<and> Shift < ElementSize) ''Incorrect left shift: {}''
          else LOGMAN_THROW_A_FMT (0 < Shift \<and> Shift \<le> ElementSize) ''Incorrect right shift: {}'')
         (let InverseShift = (if IsLeftShift then Shift else (2 * ElementSize) - Shift)
          in case (if size' = i8Bit then
                     Some (0b00, 0b01, InverseShift AND 0b111)
                   else if size' = i16Bit then
                     Some (0b00, 0b10 OR (drop_bit 3 InverseShift AND 0b1), InverseShift AND 0b111)
                   else if size' = i32Bit then
                     Some (0b01, drop_bit 3 InverseShift AND 0b11, InverseShift AND 0b111)
                   else if size' = i64Bit then
                     Some (0b10 OR (drop_bit 5 InverseShift AND 1), drop_bit 3 InverseShift AND 0b11,
                           InverseShift AND 0b111)
                   else None) of
               None \<Rightarrow> FEX_UNREACHABLE
             | Some (tszh, tszl, imm3) \<Rightarrow>
                (let Instr = 0b00000100001000001001000000000000;
                     Instr = Instr OR push_bit 22 tszh;
                     Instr = Instr OR push_bit 19 tszl;
                     Instr = Instr OR push_bit 16 imm3;
                     Instr = Instr OR push_bit 10 opc;
                     Instr = Instr OR push_bit 5 (ZRegister.Idx zn);
                     Instr = Instr OR ZRegister.Idx zd
                 in dc32 Instr)))"

section \<open>Public mnemonic layer\<close>

text \<open>
  The mnemonics that the verified properties are about, in the order of the source. C++
  overloads of one name are told apart by a suffix: \<open>_imm\<close> for an immediate operand,
  \<open>_pred\<close> for the predicated form, \<open>_reg\<close> for a scalar register offset, \<open>_v\<close> and
  \<open>_r\<close> for a SIMD and floating-point or general register operand, \<open>_zero\<close> for the
  compare with zero. A template argument is the first argument of the definition.
\<close>

text \<open>\<^verbatim>\<open>dup\<close> (source line 21). \<^verbatim>\<open>imm2\<close> and \<^verbatim>\<open>tsz\<close> start as zero and are set by the
  branch of the element size, after its index check.\<close>

definition dup :: "SubRegSize \<Rightarrow> ZRegister \<Rightarrow> ZRegister \<Rightarrow> uint32_t \<Rightarrow> emitter" where
  "dup size' zd zn Index =
     (let Op = push_bit 10 0b0000010100100000001000
      in if size' = i8Bit then
           LOGMAN_THROW_AA_FMT (Index < 64) ''Index too large''
           (let tsz = 0b00001 OR push_bit 1 (Index AND 0b1111);
                imm2 = drop_bit 4 Index
            in SVEDup Op imm2 tsz zn zd)
         else if size' = i16Bit then
           LOGMAN_THROW_AA_FMT (Index < 32) ''Index too large''
           (let tsz = 0b00010 OR push_bit 2 (Index AND 0b111);
                imm2 = drop_bit 3 Index
            in SVEDup Op imm2 tsz zn zd)
         else if size' = i32Bit then
           LOGMAN_THROW_AA_FMT (Index < 16) ''Index too large''
           (let tsz = 0b00100 OR push_bit 3 (Index AND 0b11);
                imm2 = drop_bit 2 Index
            in SVEDup Op imm2 tsz zn zd)
         else if size' = i64Bit then
           LOGMAN_THROW_AA_FMT (Index < 8) ''Index too large''
           (let tsz = 0b01000 OR push_bit 4 (Index AND 0b1);
                imm2 = drop_bit 1 Index
            in SVEDup Op imm2 tsz zn zd)
         else if size' = i128Bit then
           LOGMAN_THROW_AA_FMT (Index < 4) ''Index too large''
           (let tsz = 0b10000;
                imm2 = Index
            in SVEDup Op imm2 tsz zn zd)
         else SVEDup Op 0 0 zn zd)"

text \<open>\<^verbatim>\<open>histcnt\<close> (source line 69).\<close>

definition histcnt ::
  "SubRegSize \<Rightarrow> ZRegister \<Rightarrow> PRegisterZero \<Rightarrow> ZRegister \<Rightarrow> ZRegister \<Rightarrow> emitter" where
  "histcnt size' zd pv zn zm =
     LOGMAN_THROW_AA_FMT (size' = i32Bit \<or> size' = i64Bit) ''SubRegSize must be 32-bit or 64-bit''
     (LOGMAN_THROW_A_FMT (PRegisterZero_le pv (Zeroing PReg_p7)) ''histcnt can only use p0 to p7''
      (let Op = 0b01000101001000001100000000000000;
           Op = Op OR push_bit 22 (ToUnderlying size');
           Op = Op OR push_bit 16 (ZRegister.Idx zm);
           Op = Op OR push_bit 10 (PRegisterZero.Idx pv);
           Op = Op OR push_bit 5 (ZRegister.Idx zn);
           Op = Op OR ZRegister.Idx zd
       in dc32 Op))"

text \<open>\<^verbatim>\<open>fcmla\<close> (source line 115).\<close>

definition fcmla_pred ::
  "SubRegSize \<Rightarrow> ZRegister \<Rightarrow> PRegisterMerge \<Rightarrow> ZRegister \<Rightarrow> ZRegister \<Rightarrow> Rotation \<Rightarrow> emitter" where
  "fcmla_pred size' zda pv zn zm rot =
     LOGMAN_THROW_AA_FMT (size' = i16Bit \<or> size' = i32Bit \<or> size' = i64Bit) ''SubRegSize must be 16-bit, 32-bit, or 64-bit''
     (LOGMAN_THROW_A_FMT (PRegisterMerge_le pv (Merging PReg_p7)) ''fcmla can only use p0 to p7''
      (let Op = 0b01100100000000000000000000000000;
           Op = Op OR push_bit 22 (ToUnderlying size');
           Op = Op OR push_bit 16 (ZRegister.Idx zm);
           Op = Op OR push_bit 13 (ToUnderlying_Rotation rot);
           Op = Op OR push_bit 10 (PRegisterMerge.Idx pv);
           Op = Op OR push_bit 5 (ZRegister.Idx zn);
           Op = Op OR ZRegister.Idx zda
       in dc32 Op))"

text \<open>\<^verbatim>\<open>fcadd\<close> (source line 131).\<close>

definition fcadd ::
  "SubRegSize \<Rightarrow> ZRegister \<Rightarrow> PRegisterMerge \<Rightarrow> ZRegister \<Rightarrow> ZRegister \<Rightarrow> Rotation \<Rightarrow> emitter" where
  "fcadd size' zd pv zn zm rot =
     LOGMAN_THROW_AA_FMT (size' = i16Bit \<or> size' = i32Bit \<or> size' = i64Bit) ''SubRegSize must be 16-bit, 32-bit, or 64-bit''
     (LOGMAN_THROW_A_FMT (PRegisterMerge_le pv (Merging PReg_p7)) ''fcadd can only use p0 to p7''
      (LOGMAN_THROW_AA_FMT (rot = ROTATE_90 \<or> rot = ROTATE_270) ''fcadd rotation may only be 90 or 270 degrees''
       (LOGMAN_THROW_A_FMT (zd = zn) ''fcadd zd and zn must be the same register''
        (let ConvertedRotation = (if rot = ROTATE_90 then 0 else 1);
             Op = 0b01100100000000001000000000000000;
             Op = Op OR push_bit 22 (ToUnderlying size');
             Op = Op OR push_bit 16 ConvertedRotation;
             Op = Op OR push_bit 10 (PRegisterMerge.Idx pv);
             Op = Op OR push_bit 5 (ZRegister.Idx zm);
             Op = Op OR ZRegister.Idx zd
         in dc32 Op))))"

text \<open>\<^verbatim>\<open>add\<close> (source line 152).\<close>

definition add ::
  "SubRegSize \<Rightarrow> ZRegister \<Rightarrow> ZRegister \<Rightarrow> ZRegister \<Rightarrow> emitter" where
  "add size' zd zn zm =
     (let Op = push_bit 13 0b0000010000100000000
      in SVEIntegerAddSubUnpredicated Op 0b000 size' zm zn zd)"

text \<open>\<^verbatim>\<open>cmphi\<close> (source line 221).\<close>

definition cmphi_imm ::
  "SubRegSize \<Rightarrow> PRegister \<Rightarrow> PRegisterZero \<Rightarrow> ZRegister \<Rightarrow> uint32_t \<Rightarrow> emitter" where
  "cmphi_imm size' pd pg zn imm =
     LOGMAN_THROW_AA_FMT (size' \<noteq> i128Bit) ''Can't use 128-bit size''
     (LOGMAN_THROW_AA_FMT (imm < 128) ''Invalid imm''
      (SVEIntegerCompareImm 0 1 imm size' (PRegister_of_Zero pg) zn pd))"

text \<open>\<^verbatim>\<open>cmphs\<close> (source line 227).\<close>

definition cmphs_imm ::
  "SubRegSize \<Rightarrow> PRegister \<Rightarrow> PRegisterZero \<Rightarrow> ZRegister \<Rightarrow> uint32_t \<Rightarrow> emitter" where
  "cmphs_imm size' pd pg zn imm =
     LOGMAN_THROW_AA_FMT (size' \<noteq> i128Bit) ''Can't use 128-bit size''
     (LOGMAN_THROW_AA_FMT (imm < 128) ''Invalid imm''
      (SVEIntegerCompareImm 0 0 imm size' (PRegister_of_Zero pg) zn pd))"

text \<open>\<^verbatim>\<open>cmplo\<close> (source line 233).\<close>

definition cmplo_imm ::
  "SubRegSize \<Rightarrow> PRegister \<Rightarrow> PRegisterZero \<Rightarrow> ZRegister \<Rightarrow> uint32_t \<Rightarrow> emitter" where
  "cmplo_imm size' pd pg zn imm =
     LOGMAN_THROW_AA_FMT (size' \<noteq> i128Bit) ''Can't use 128-bit size''
     (LOGMAN_THROW_AA_FMT (imm < 128) ''Invalid imm''
      (SVEIntegerCompareImm 1 0 imm size' (PRegister_of_Zero pg) zn pd))"

text \<open>\<^verbatim>\<open>cmpls\<close> (source line 239).\<close>

definition cmpls_imm ::
  "SubRegSize \<Rightarrow> PRegister \<Rightarrow> PRegisterZero \<Rightarrow> ZRegister \<Rightarrow> uint32_t \<Rightarrow> emitter" where
  "cmpls_imm size' pd pg zn imm =
     LOGMAN_THROW_AA_FMT (size' \<noteq> i128Bit) ''Can't use 128-bit size''
     (LOGMAN_THROW_AA_FMT (imm < 128) ''Invalid imm''
      (SVEIntegerCompareImm 1 1 imm size' (PRegister_of_Zero pg) zn pd))"

text \<open>\<^verbatim>\<open>cmpeq\<close> (source line 246).\<close>

definition cmpeq_imm ::
  "SubRegSize \<Rightarrow> PRegister \<Rightarrow> PRegisterZero \<Rightarrow> ZRegister \<Rightarrow> int32_t \<Rightarrow> emitter" where
  "cmpeq_imm size' pd pg zn imm =
     LOGMAN_THROW_AA_FMT (size' \<noteq> i128Bit) ''Can't use 128-bit size''
     (LOGMAN_THROW_AA_FMT ((- 16) \<le> sint imm \<and> sint imm \<le> 15) ''Invalid imm''
      (SVEIntegerCompareSignedImm 1 0 0 imm size' (PRegister_of_Zero pg) zn pd))"

text \<open>\<^verbatim>\<open>cmpgt\<close> (source line 252).\<close>

definition cmpgt_imm ::
  "SubRegSize \<Rightarrow> PRegister \<Rightarrow> PRegisterZero \<Rightarrow> ZRegister \<Rightarrow> int32_t \<Rightarrow> emitter" where
  "cmpgt_imm size' pd pg zn imm =
     LOGMAN_THROW_AA_FMT (size' \<noteq> i128Bit) ''Can't use 128-bit size''
     (LOGMAN_THROW_AA_FMT ((- 16) \<le> sint imm \<and> sint imm \<le> 15) ''Invalid imm''
      (SVEIntegerCompareSignedImm 0 0 1 imm size' (PRegister_of_Zero pg) zn pd))"

text \<open>\<^verbatim>\<open>cmpge\<close> (source line 258).\<close>

definition cmpge_imm ::
  "SubRegSize \<Rightarrow> PRegister \<Rightarrow> PRegisterZero \<Rightarrow> ZRegister \<Rightarrow> int32_t \<Rightarrow> emitter" where
  "cmpge_imm size' pd pg zn imm =
     LOGMAN_THROW_AA_FMT (size' \<noteq> i128Bit) ''Can't use 128-bit size''
     (LOGMAN_THROW_AA_FMT ((- 16) \<le> sint imm \<and> sint imm \<le> 15) ''Invalid imm''
      (SVEIntegerCompareSignedImm 0 0 0 imm size' (PRegister_of_Zero pg) zn pd))"

text \<open>\<^verbatim>\<open>cmplt\<close> (source line 264).\<close>

definition cmplt_imm ::
  "SubRegSize \<Rightarrow> PRegister \<Rightarrow> PRegisterZero \<Rightarrow> ZRegister \<Rightarrow> int32_t \<Rightarrow> emitter" where
  "cmplt_imm size' pd pg zn imm =
     LOGMAN_THROW_AA_FMT (size' \<noteq> i128Bit) ''Can't use 128-bit size''
     (LOGMAN_THROW_AA_FMT ((- 16) \<le> sint imm \<and> sint imm \<le> 15) ''Invalid imm''
      (SVEIntegerCompareSignedImm 0 1 0 imm size' (PRegister_of_Zero pg) zn pd))"

text \<open>\<^verbatim>\<open>cmple\<close> (source line 270).\<close>

definition cmple_imm ::
  "SubRegSize \<Rightarrow> PRegister \<Rightarrow> PRegisterZero \<Rightarrow> ZRegister \<Rightarrow> int32_t \<Rightarrow> emitter" where
  "cmple_imm size' pd pg zn imm =
     LOGMAN_THROW_AA_FMT (size' \<noteq> i128Bit) ''Can't use 128-bit size''
     (LOGMAN_THROW_AA_FMT ((- 16) \<le> sint imm \<and> sint imm \<le> 15) ''Invalid imm''
      (SVEIntegerCompareSignedImm 0 1 1 imm size' (PRegister_of_Zero pg) zn pd))"

text \<open>\<^verbatim>\<open>match\<close> (source line 374).\<close>

definition match ::
  "SubRegSize \<Rightarrow> PRegister \<Rightarrow> PRegisterZero \<Rightarrow> ZRegister \<Rightarrow> ZRegister \<Rightarrow> emitter" where
  "match size' pd pg zn zm =
     (let Op = 0b01000101001000001000000000000000
      in SVECharacterMatch Op 0 size' pd pg zn zm)"

text \<open>\<^verbatim>\<open>nmatch\<close> (source line 378).\<close>

definition nmatch ::
  "SubRegSize \<Rightarrow> PRegister \<Rightarrow> PRegisterZero \<Rightarrow> ZRegister \<Rightarrow> ZRegister \<Rightarrow> emitter" where
  "nmatch size' pd pg zn zm =
     (let Op = 0b01000101001000001000000000000000
      in SVECharacterMatch Op 1 size' pd pg zn zm)"

text \<open>\<^verbatim>\<open>faddp\<close> (source line 427).\<close>

definition faddp ::
  "SubRegSize \<Rightarrow> ZRegister \<Rightarrow> PRegisterMerge \<Rightarrow> ZRegister \<Rightarrow> ZRegister \<Rightarrow> emitter" where
  "faddp size' zd pg zn zm =
     SVEFloatPairwiseArithmetic 0b000 size' (PRegister_of_Merge pg) zd zn zm"

text \<open>\<^verbatim>\<open>fmaxnmp\<close> (source line 430).\<close>

definition fmaxnmp ::
  "SubRegSize \<Rightarrow> ZRegister \<Rightarrow> PRegisterMerge \<Rightarrow> ZRegister \<Rightarrow> ZRegister \<Rightarrow> emitter" where
  "fmaxnmp size' zd pg zn zm =
     SVEFloatPairwiseArithmetic 0b100 size' (PRegister_of_Merge pg) zd zn zm"

text \<open>\<^verbatim>\<open>fminnmp\<close> (source line 433).\<close>

definition fminnmp ::
  "SubRegSize \<Rightarrow> ZRegister \<Rightarrow> PRegisterMerge \<Rightarrow> ZRegister \<Rightarrow> ZRegister \<Rightarrow> emitter" where
  "fminnmp size' zd pg zn zm =
     SVEFloatPairwiseArithmetic 0b101 size' (PRegister_of_Merge pg) zd zn zm"

text \<open>\<^verbatim>\<open>fmaxp\<close> (source line 436).\<close>

definition fmaxp ::
  "SubRegSize \<Rightarrow> ZRegister \<Rightarrow> PRegisterMerge \<Rightarrow> ZRegister \<Rightarrow> ZRegister \<Rightarrow> emitter" where
  "fmaxp size' zd pg zn zm =
     SVEFloatPairwiseArithmetic 0b110 size' (PRegister_of_Merge pg) zd zn zm"

text \<open>\<^verbatim>\<open>fminp\<close> (source line 439).\<close>

definition fminp ::
  "SubRegSize \<Rightarrow> ZRegister \<Rightarrow> PRegisterMerge \<Rightarrow> ZRegister \<Rightarrow> ZRegister \<Rightarrow> emitter" where
  "fminp size' zd pg zn zm =
     SVEFloatPairwiseArithmetic 0b111 size' (PRegister_of_Merge pg) zd zn zm"

text \<open>\<^verbatim>\<open>fcmeq\<close> (source line 453).\<close>

definition fcmeq ::
  "SubRegSize \<Rightarrow> PRegister \<Rightarrow> PRegisterZero \<Rightarrow> ZRegister \<Rightarrow> ZRegister \<Rightarrow> emitter" where
  "fcmeq size' pd pg zn zm =
     SVEFloatCompareVector 0 1 0 size' zm (PRegister_of_Zero pg) zn pd"

text \<open>\<^verbatim>\<open>fcmgt\<close> (source line 456).\<close>

definition fcmgt ::
  "SubRegSize \<Rightarrow> PRegister \<Rightarrow> PRegisterZero \<Rightarrow> ZRegister \<Rightarrow> ZRegister \<Rightarrow> emitter" where
  "fcmgt size' pd pg zn zm =
     SVEFloatCompareVector 0 0 1 size' zm (PRegister_of_Zero pg) zn pd"

text \<open>\<^verbatim>\<open>fcmge\<close> (source line 459).\<close>

definition fcmge ::
  "SubRegSize \<Rightarrow> PRegister \<Rightarrow> PRegisterZero \<Rightarrow> ZRegister \<Rightarrow> ZRegister \<Rightarrow> emitter" where
  "fcmge size' pd pg zn zm =
     SVEFloatCompareVector 0 0 0 size' zm (PRegister_of_Zero pg) zn pd"

text \<open>\<^verbatim>\<open>fcmne\<close> (source line 462).\<close>

definition fcmne ::
  "SubRegSize \<Rightarrow> PRegister \<Rightarrow> PRegisterZero \<Rightarrow> ZRegister \<Rightarrow> ZRegister \<Rightarrow> emitter" where
  "fcmne size' pd pg zn zm =
     SVEFloatCompareVector 0 1 1 size' zm (PRegister_of_Zero pg) zn pd"

text \<open>\<^verbatim>\<open>fcmuo\<close> (source line 465).\<close>

definition fcmuo ::
  "SubRegSize \<Rightarrow> PRegister \<Rightarrow> PRegisterZero \<Rightarrow> ZRegister \<Rightarrow> ZRegister \<Rightarrow> emitter" where
  "fcmuo size' pd pg zn zm =
     SVEFloatCompareVector 1 0 0 size' zm (PRegister_of_Zero pg) zn pd"

text \<open>\<^verbatim>\<open>facge\<close> (source line 468).\<close>

definition facge ::
  "SubRegSize \<Rightarrow> PRegister \<Rightarrow> PRegisterZero \<Rightarrow> ZRegister \<Rightarrow> ZRegister \<Rightarrow> emitter" where
  "facge size' pd pg zn zm =
     SVEFloatCompareVector 1 0 1 size' zm (PRegister_of_Zero pg) zn pd"

text \<open>\<^verbatim>\<open>facgt\<close> (source line 471).\<close>

definition facgt ::
  "SubRegSize \<Rightarrow> PRegister \<Rightarrow> PRegisterZero \<Rightarrow> ZRegister \<Rightarrow> ZRegister \<Rightarrow> emitter" where
  "facgt size' pd pg zn zm =
     SVEFloatCompareVector 1 1 1 size' zm (PRegister_of_Zero pg) zn pd"

text \<open>\<^verbatim>\<open>facle\<close> (source line 474).\<close>

definition facle ::
  "SubRegSize \<Rightarrow> PRegister \<Rightarrow> PRegisterZero \<Rightarrow> ZRegister \<Rightarrow> ZRegister \<Rightarrow> emitter" where
  "facle size' pd pg zm zn =
     facge size' pd pg zn zm"

text \<open>\<^verbatim>\<open>faclt\<close> (source line 477).\<close>

definition faclt ::
  "SubRegSize \<Rightarrow> PRegister \<Rightarrow> PRegisterZero \<Rightarrow> ZRegister \<Rightarrow> ZRegister \<Rightarrow> emitter" where
  "faclt size' pd pg zm zn =
     facgt size' pd pg zn zm"

text \<open>\<^verbatim>\<open>faddv\<close> (source line 514).\<close>

definition faddv ::
  "SubRegSize \<Rightarrow> VRegister \<Rightarrow> PRegister \<Rightarrow> ZRegister \<Rightarrow> emitter" where
  "faddv size' vd pg zn =
     (let Op = 0b01100101000000000010000000000000
      in SVEFPRecursiveReduction Op 0b000 size' vd pg zn)"

text \<open>\<^verbatim>\<open>fmaxnmv\<close> (source line 518).\<close>

definition fmaxnmv ::
  "SubRegSize \<Rightarrow> VRegister \<Rightarrow> PRegister \<Rightarrow> ZRegister \<Rightarrow> emitter" where
  "fmaxnmv size' vd pg zn =
     (let Op = 0b01100101000000000010000000000000
      in SVEFPRecursiveReduction Op 0b100 size' vd pg zn)"

text \<open>\<^verbatim>\<open>fminnmv\<close> (source line 522).\<close>

definition fminnmv ::
  "SubRegSize \<Rightarrow> VRegister \<Rightarrow> PRegister \<Rightarrow> ZRegister \<Rightarrow> emitter" where
  "fminnmv size' vd pg zn =
     (let Op = 0b01100101000000000010000000000000
      in SVEFPRecursiveReduction Op 0b101 size' vd pg zn)"

text \<open>\<^verbatim>\<open>fmaxv\<close> (source line 526).\<close>

definition fmaxv ::
  "SubRegSize \<Rightarrow> VRegister \<Rightarrow> PRegister \<Rightarrow> ZRegister \<Rightarrow> emitter" where
  "fmaxv size' vd pg zn =
     (let Op = 0b01100101000000000010000000000000
      in SVEFPRecursiveReduction Op 0b110 size' vd pg zn)"

text \<open>\<^verbatim>\<open>fminv\<close> (source line 530).\<close>

definition fminv ::
  "SubRegSize \<Rightarrow> VRegister \<Rightarrow> PRegister \<Rightarrow> ZRegister \<Rightarrow> emitter" where
  "fminv size' vd pg zn =
     (let Op = 0b01100101000000000010000000000000
      in SVEFPRecursiveReduction Op 0b111 size' vd pg zn)"

text \<open>\<^verbatim>\<open>mla\<close> (source line 537).\<close>

definition mla ::
  "SubRegSize \<Rightarrow> ZRegister \<Rightarrow> PRegisterMerge \<Rightarrow> ZRegister \<Rightarrow> ZRegister \<Rightarrow> emitter" where
  "mla size' zda pg zn zm =
     (let Op = 0b00000100000000000100000000000000
      in SVEIntegerMultiplyAddSubPredicated Op 0b0 size' zda (PRegister_of_Merge pg) zn zm)"

text \<open>\<^verbatim>\<open>mls\<close> (source line 541).\<close>

definition mls ::
  "SubRegSize \<Rightarrow> ZRegister \<Rightarrow> PRegisterMerge \<Rightarrow> ZRegister \<Rightarrow> ZRegister \<Rightarrow> emitter" where
  "mls size' zda pg zn zm =
     (let Op = 0b00000100000000000100000000000000
      in SVEIntegerMultiplyAddSubPredicated Op 0b1 size' zda (PRegister_of_Merge pg) zn zm)"

text \<open>\<^verbatim>\<open>mad\<close> (source line 547).\<close>

definition mad ::
  "SubRegSize \<Rightarrow> ZRegister \<Rightarrow> PRegisterMerge \<Rightarrow> ZRegister \<Rightarrow> ZRegister \<Rightarrow> emitter" where
  "mad size' zdn pg zm za =
     (let Op = 0b00000100000000001100000000000000
      in SVEIntegerMultiplyAddSubPredicated Op 0b0 size' zdn (PRegister_of_Merge pg) za zm)"

text \<open>\<^verbatim>\<open>msb\<close> (source line 551).\<close>

definition msb ::
  "SubRegSize \<Rightarrow> ZRegister \<Rightarrow> PRegisterMerge \<Rightarrow> ZRegister \<Rightarrow> ZRegister \<Rightarrow> emitter" where
  "msb size' zdn pg zm za =
     (let Op = 0b00000100000000001100000000000000
      in SVEIntegerMultiplyAddSubPredicated Op 0b1 size' zdn (PRegister_of_Merge pg) za zm)"

text \<open>\<^verbatim>\<open>add\<close> (source line 558).\<close>

definition add_pred ::
  "SubRegSize \<Rightarrow> ZRegister \<Rightarrow> PRegisterMerge \<Rightarrow> ZRegister \<Rightarrow> ZRegister \<Rightarrow> emitter" where
  "add_pred size' zd pg zn zm =
     (let Op = 0b00000100000000000000000000000000
      in SVEAddSubVectorsPredicated Op 0b000 size' zd pg zn zm)"

text \<open>\<^verbatim>\<open>sub\<close> (source line 562).\<close>

definition sub_pred ::
  "SubRegSize \<Rightarrow> ZRegister \<Rightarrow> PRegisterMerge \<Rightarrow> ZRegister \<Rightarrow> ZRegister \<Rightarrow> emitter" where
  "sub_pred size' zd pg zn zm =
     (let Op = 0b00000100000000000000000000000000
      in SVEAddSubVectorsPredicated Op 0b001 size' zd pg zn zm)"

text \<open>\<^verbatim>\<open>subr\<close> (source line 566).\<close>

definition subr ::
  "SubRegSize \<Rightarrow> ZRegister \<Rightarrow> PRegisterMerge \<Rightarrow> ZRegister \<Rightarrow> ZRegister \<Rightarrow> emitter" where
  "subr size' zd pg zn zm =
     (let Op = 0b00000100000000000000000000000000
      in SVEAddSubVectorsPredicated Op 0b011 size' zd pg zn zm)"

text \<open>\<^verbatim>\<open>smax\<close> (source line 572).\<close>

definition smax ::
  "SubRegSize \<Rightarrow> ZRegister \<Rightarrow> PRegisterMerge \<Rightarrow> ZRegister \<Rightarrow> ZRegister \<Rightarrow> emitter" where
  "smax size' zd pg zdn zm =
     LOGMAN_THROW_AA_FMT (size' \<noteq> i128Bit) ''Can't use 128-bit size''
     (LOGMAN_THROW_A_FMT (zd = zdn) ''Dest needs to equal zdn''
      (SVEIntegerMinMaxDifferencePredicated 0b00 0 size' (PRegister_of_Merge pg) zm zd))"

text \<open>\<^verbatim>\<open>umax\<close> (source line 577).\<close>

definition umax ::
  "SubRegSize \<Rightarrow> ZRegister \<Rightarrow> PRegisterMerge \<Rightarrow> ZRegister \<Rightarrow> ZRegister \<Rightarrow> emitter" where
  "umax size' zd pg zdn zm =
     LOGMAN_THROW_AA_FMT (size' \<noteq> i128Bit) ''Can't use 128-bit size''
     (LOGMAN_THROW_A_FMT (zd = zdn) ''Dest needs to equal zdn''
      (SVEIntegerMinMaxDifferencePredicated 0b00 1 size' (PRegister_of_Merge pg) zm zd))"

text \<open>\<^verbatim>\<open>smin\<close> (source line 582).\<close>

definition smin ::
  "SubRegSize \<Rightarrow> ZRegister \<Rightarrow> PRegisterMerge \<Rightarrow> ZRegister \<Rightarrow> ZRegister \<Rightarrow> emitter" where
  "smin size' zd pg zdn zm =
     LOGMAN_THROW_AA_FMT (size' \<noteq> i128Bit) ''Can't use 128-bit size''
     (LOGMAN_THROW_A_FMT (zd = zdn) ''Dest needs to equal zdn''
      (SVEIntegerMinMaxDifferencePredicated 0b01 0 size' (PRegister_of_Merge pg) zm zd))"

text \<open>\<^verbatim>\<open>umin\<close> (source line 587).\<close>

definition umin ::
  "SubRegSize \<Rightarrow> ZRegister \<Rightarrow> PRegisterMerge \<Rightarrow> ZRegister \<Rightarrow> ZRegister \<Rightarrow> emitter" where
  "umin size' zd pg zdn zm =
     LOGMAN_THROW_AA_FMT (size' \<noteq> i128Bit) ''Can't use 128-bit size''
     (LOGMAN_THROW_A_FMT (zd = zdn) ''Dest needs to equal zdn''
      (SVEIntegerMinMaxDifferencePredicated 0b01 1 size' (PRegister_of_Merge pg) zm zd))"

text \<open>\<^verbatim>\<open>sabd\<close> (source line 592).\<close>

definition sabd ::
  "SubRegSize \<Rightarrow> ZRegister \<Rightarrow> PRegisterMerge \<Rightarrow> ZRegister \<Rightarrow> ZRegister \<Rightarrow> emitter" where
  "sabd size' zd pg zdn zm =
     LOGMAN_THROW_AA_FMT (size' \<noteq> i128Bit) ''Can't use 128-bit size''
     (LOGMAN_THROW_A_FMT (zd = zdn) ''Dest needs to equal zdn''
      (SVEIntegerMinMaxDifferencePredicated 0b10 0 size' (PRegister_of_Merge pg) zm zd))"

text \<open>\<^verbatim>\<open>uabd\<close> (source line 597).\<close>

definition uabd ::
  "SubRegSize \<Rightarrow> ZRegister \<Rightarrow> PRegisterMerge \<Rightarrow> ZRegister \<Rightarrow> ZRegister \<Rightarrow> emitter" where
  "uabd size' zd pg zdn zm =
     LOGMAN_THROW_AA_FMT (size' \<noteq> i128Bit) ''Can't use 128-bit size''
     (LOGMAN_THROW_A_FMT (zd = zdn) ''Dest needs to equal zdn''
      (SVEIntegerMinMaxDifferencePredicated 0b10 1 size' (PRegister_of_Merge pg) zm zd))"

text \<open>\<^verbatim>\<open>mul\<close> (source line 604).\<close>

definition mul_pred ::
  "SubRegSize \<Rightarrow> ZRegister \<Rightarrow> PRegisterMerge \<Rightarrow> ZRegister \<Rightarrow> ZRegister \<Rightarrow> emitter" where
  "mul_pred size' zd pg zn zm =
     (let Op = 0b00000100000100000000000000000000
      in SVEIntegerMulDivVectorsPredicated Op 0b00 size' zd pg zn zm)"

text \<open>\<^verbatim>\<open>smulh\<close> (source line 608).\<close>

definition smulh_pred ::
  "SubRegSize \<Rightarrow> ZRegister \<Rightarrow> PRegisterMerge \<Rightarrow> ZRegister \<Rightarrow> ZRegister \<Rightarrow> emitter" where
  "smulh_pred size' zd pg zn zm =
     (let Op = 0b00000100000100000000000000000000
      in SVEIntegerMulDivVectorsPredicated Op 0b10 size' zd pg zn zm)"

text \<open>\<^verbatim>\<open>umulh\<close> (source line 612).\<close>

definition umulh_pred ::
  "SubRegSize \<Rightarrow> ZRegister \<Rightarrow> PRegisterMerge \<Rightarrow> ZRegister \<Rightarrow> ZRegister \<Rightarrow> emitter" where
  "umulh_pred size' zd pg zn zm =
     (let Op = 0b00000100000100000000000000000000
      in SVEIntegerMulDivVectorsPredicated Op 0b11 size' zd pg zn zm)"

text \<open>\<^verbatim>\<open>sdiv\<close> (source line 618).\<close>

definition sdiv ::
  "SubRegSize \<Rightarrow> ZRegister \<Rightarrow> PRegisterMerge \<Rightarrow> ZRegister \<Rightarrow> ZRegister \<Rightarrow> emitter" where
  "sdiv size' zd pg zn zm =
     LOGMAN_THROW_AA_FMT (size' = i32Bit \<or> size' = i64Bit) ''Predicated divide only handles 32-bit or 64-bit elements''
     (let Op = 0b00000100000101000000000000000000
      in SVEIntegerMulDivVectorsPredicated Op 0b00 size' zd pg zn zm)"

text \<open>\<^verbatim>\<open>udiv\<close> (source line 624).\<close>

definition udiv ::
  "SubRegSize \<Rightarrow> ZRegister \<Rightarrow> PRegisterMerge \<Rightarrow> ZRegister \<Rightarrow> ZRegister \<Rightarrow> emitter" where
  "udiv size' zd pg zn zm =
     LOGMAN_THROW_AA_FMT (size' = i32Bit \<or> size' = i64Bit) ''Predicated divide only handles 32-bit or 64-bit elements''
     (let Op = 0b00000100000101000000000000000000
      in SVEIntegerMulDivVectorsPredicated Op 0b01 size' zd pg zn zm)"

text \<open>\<^verbatim>\<open>sdivr\<close> (source line 630).\<close>

definition sdivr ::
  "SubRegSize \<Rightarrow> ZRegister \<Rightarrow> PRegisterMerge \<Rightarrow> ZRegister \<Rightarrow> ZRegister \<Rightarrow> emitter" where
  "sdivr size' zd pg zn zm =
     LOGMAN_THROW_AA_FMT (size' = i32Bit \<or> size' = i64Bit) ''Predicated divide only handles 32-bit or 64-bit elements''
     (let Op = 0b00000100000101000000000000000000
      in SVEIntegerMulDivVectorsPredicated Op 0b10 size' zd pg zn zm)"

text \<open>\<^verbatim>\<open>udivr\<close> (source line 636).\<close>

definition udivr ::
  "SubRegSize \<Rightarrow> ZRegister \<Rightarrow> PRegisterMerge \<Rightarrow> ZRegister \<Rightarrow> ZRegister \<Rightarrow> emitter" where
  "udivr size' zd pg zn zm =
     LOGMAN_THROW_AA_FMT (size' = i32Bit \<or> size' = i64Bit) ''Predicated divide only handles 32-bit or 64-bit elements''
     (let Op = 0b00000100000101000000000000000000
      in SVEIntegerMulDivVectorsPredicated Op 0b11 size' zd pg zn zm)"

text \<open>\<^verbatim>\<open>orr\<close> (source line 644).\<close>

definition orr_pred ::
  "SubRegSize \<Rightarrow> ZRegister \<Rightarrow> PRegisterMerge \<Rightarrow> ZRegister \<Rightarrow> ZRegister \<Rightarrow> emitter" where
  "orr_pred size' zd pg zdn zm =
     LOGMAN_THROW_AA_FMT (size' \<noteq> i128Bit) ''Can't use 128-bit size''
     (LOGMAN_THROW_A_FMT (zd = zdn) ''Dest needs to equal zdn''
      (let Op = push_bit 13 0b0000010000011000000
       in SVEBitwiseLogicalPredicated Op 0b000 size' (PRegister_of_Merge pg) zm zd))"

text \<open>\<^verbatim>\<open>eor\<close> (source line 650).\<close>

definition eor_pred ::
  "SubRegSize \<Rightarrow> ZRegister \<Rightarrow> PRegisterMerge \<Rightarrow> ZRegister \<Rightarrow> ZRegister \<Rightarrow> emitter" where
  "eor_pred size' zd pg zdn zm =
     LOGMAN_THROW_AA_FMT (size' \<noteq> i128Bit) ''Can't use 128-bit size''
     (LOGMAN_THROW_A_FMT (zd = zdn) ''Dest needs to equal zdn''
      (let Op = push_bit 13 0b0000010000011000000
       in SVEBitwiseLogicalPredicated Op 0b001 size' (PRegister_of_Merge pg) zm zd))"

text \<open>\<^verbatim>\<open>and_\<close> (source line 656).\<close>

definition and_pred ::
  "SubRegSize \<Rightarrow> ZRegister \<Rightarrow> PRegisterMerge \<Rightarrow> ZRegister \<Rightarrow> ZRegister \<Rightarrow> emitter" where
  "and_pred size' zd pg zdn zm =
     LOGMAN_THROW_AA_FMT (size' \<noteq> i128Bit) ''Can't use 128-bit size''
     (LOGMAN_THROW_A_FMT (zd = zdn) ''Dest needs to equal zdn''
      (let Op = push_bit 13 0b0000010000011000000
       in SVEBitwiseLogicalPredicated Op 0b010 size' (PRegister_of_Merge pg) zm zd))"

text \<open>\<^verbatim>\<open>bic\<close> (source line 662).\<close>

definition bic_pred ::
  "SubRegSize \<Rightarrow> ZRegister \<Rightarrow> PRegisterMerge \<Rightarrow> ZRegister \<Rightarrow> ZRegister \<Rightarrow> emitter" where
  "bic_pred size' zd pg zdn zm =
     LOGMAN_THROW_AA_FMT (size' \<noteq> i128Bit) ''Can't use 128-bit size''
     (LOGMAN_THROW_A_FMT (zd = zdn) ''Dest needs to equal zdn''
      (let Op = push_bit 13 0b0000010000011000000
       in SVEBitwiseLogicalPredicated Op 0b011 size' (PRegister_of_Merge pg) zm zd))"

text \<open>\<^verbatim>\<open>saddv\<close> (source line 671).\<close>

definition saddv ::
  "SubRegSize \<Rightarrow> DRegister \<Rightarrow> PRegister \<Rightarrow> ZRegister \<Rightarrow> emitter" where
  "saddv size' vd pg zn =
     LOGMAN_THROW_A_FMT (size' = i8Bit \<or> size' = i16Bit \<or> size' = i32Bit) ''saddv may only use 8-bit, 16-bit, or 32-bit elements.''
     (let Op = 0b00000100000000000010000000000000
      in SVEIntegerReductionOperation Op 0b00 size' (VRegister_of_D vd) pg zn)"

text \<open>\<^verbatim>\<open>uaddv\<close> (source line 677).\<close>

definition uaddv ::
  "SubRegSize \<Rightarrow> DRegister \<Rightarrow> PRegister \<Rightarrow> ZRegister \<Rightarrow> emitter" where
  "uaddv size' vd pg zn =
     LOGMAN_THROW_A_FMT (size' = i8Bit \<or> size' = i16Bit \<or> size' = i32Bit) ''uaddv may only use 8-bit, 16-bit, or 32-bit elements.''
     (let Op = 0b00000100000000000010000000000000
      in SVEIntegerReductionOperation Op 0b01 size' (VRegister_of_D vd) pg zn)"

text \<open>\<^verbatim>\<open>smaxv\<close> (source line 685).\<close>

definition smaxv ::
  "SubRegSize \<Rightarrow> VRegister \<Rightarrow> PRegister \<Rightarrow> ZRegister \<Rightarrow> emitter" where
  "smaxv size' vd pg zn =
     (let Op = push_bit 13 0b0000010000001000001
      in SVEIntegerReductionOperation Op 0b00 size' vd pg zn)"

text \<open>\<^verbatim>\<open>umaxv\<close> (source line 689).\<close>

definition umaxv ::
  "SubRegSize \<Rightarrow> VRegister \<Rightarrow> PRegister \<Rightarrow> ZRegister \<Rightarrow> emitter" where
  "umaxv size' vd pg zn =
     (let Op = push_bit 13 0b0000010000001000001
      in SVEIntegerReductionOperation Op 0b01 size' vd pg zn)"

text \<open>\<^verbatim>\<open>sminv\<close> (source line 693).\<close>

definition sminv ::
  "SubRegSize \<Rightarrow> VRegister \<Rightarrow> PRegister \<Rightarrow> ZRegister \<Rightarrow> emitter" where
  "sminv size' vd pg zn =
     (let Op = push_bit 13 0b0000010000001000001
      in SVEIntegerReductionOperation Op 0b10 size' vd pg zn)"

text \<open>\<^verbatim>\<open>uminv\<close> (source line 697).\<close>

definition uminv ::
  "SubRegSize \<Rightarrow> VRegister \<Rightarrow> PRegister \<Rightarrow> ZRegister \<Rightarrow> emitter" where
  "uminv size' vd pg zn =
     (let Op = push_bit 13 0b0000010000001000001
      in SVEIntegerReductionOperation Op 0b11 size' vd pg zn)"

text \<open>\<^verbatim>\<open>orv\<close> (source line 713).\<close>

definition orv ::
  "SubRegSize \<Rightarrow> VRegister \<Rightarrow> PRegister \<Rightarrow> ZRegister \<Rightarrow> emitter" where
  "orv size' vd pg zn =
     (let Op = 0b00000100000110000010000000000000
      in SVEIntegerReductionOperation Op 0b00 size' vd pg zn)"

text \<open>\<^verbatim>\<open>eorv\<close> (source line 717).\<close>

definition eorv ::
  "SubRegSize \<Rightarrow> VRegister \<Rightarrow> PRegister \<Rightarrow> ZRegister \<Rightarrow> emitter" where
  "eorv size' vd pg zn =
     (let Op = 0b00000100000110000010000000000000
      in SVEIntegerReductionOperation Op 0b01 size' vd pg zn)"

text \<open>\<^verbatim>\<open>andv\<close> (source line 721).\<close>

definition andv ::
  "SubRegSize \<Rightarrow> VRegister \<Rightarrow> PRegister \<Rightarrow> ZRegister \<Rightarrow> emitter" where
  "andv size' vd pg zn =
     (let Op = 0b00000100000110000010000000000000
      in SVEIntegerReductionOperation Op 0b10 size' vd pg zn)"

text \<open>\<^verbatim>\<open>asr\<close> (source line 728).\<close>

definition asr_pred_imm ::
  "SubRegSize \<Rightarrow> ZRegister \<Rightarrow> PRegisterMerge \<Rightarrow> ZRegister \<Rightarrow> uint32_t \<Rightarrow> emitter" where
  "asr_pred_imm size' zd pg zdn Shift =
     SVEBitWiseShiftImmediatePred size' 0b00 0 0 (PRegister_of_Merge pg) zd zdn Shift"

text \<open>\<^verbatim>\<open>lsr\<close> (source line 731).\<close>

definition lsr_pred_imm ::
  "SubRegSize \<Rightarrow> ZRegister \<Rightarrow> PRegisterMerge \<Rightarrow> ZRegister \<Rightarrow> uint32_t \<Rightarrow> emitter" where
  "lsr_pred_imm size' zd pg zdn Shift =
     SVEBitWiseShiftImmediatePred size' 0b00 0 1 (PRegister_of_Merge pg) zd zdn Shift"

text \<open>\<^verbatim>\<open>lsl\<close> (source line 734).\<close>

definition lsl_pred_imm ::
  "SubRegSize \<Rightarrow> ZRegister \<Rightarrow> PRegisterMerge \<Rightarrow> ZRegister \<Rightarrow> uint32_t \<Rightarrow> emitter" where
  "lsl_pred_imm size' zd pg zdn Shift =
     SVEBitWiseShiftImmediatePred size' 0b00 1 1 (PRegister_of_Merge pg) zd zdn Shift"

text \<open>\<^verbatim>\<open>asrd\<close> (source line 737).\<close>

definition asrd ::
  "SubRegSize \<Rightarrow> ZRegister \<Rightarrow> PRegisterMerge \<Rightarrow> ZRegister \<Rightarrow> uint32_t \<Rightarrow> emitter" where
  "asrd size' zd pg zdn Shift =
     SVEBitWiseShiftImmediatePred size' 0b01 0 0 (PRegister_of_Merge pg) zd zdn Shift"

text \<open>\<^verbatim>\<open>sqshl\<close> (source line 740).\<close>

definition sqshl ::
  "SubRegSize \<Rightarrow> ZRegister \<Rightarrow> PRegisterMerge \<Rightarrow> ZRegister \<Rightarrow> uint32_t \<Rightarrow> emitter" where
  "sqshl size' zd pg zdn Shift =
     SVEBitWiseShiftImmediatePred size' 0b01 1 0 (PRegister_of_Merge pg) zd zdn Shift"

text \<open>\<^verbatim>\<open>uqshl\<close> (source line 743).\<close>

definition uqshl ::
  "SubRegSize \<Rightarrow> ZRegister \<Rightarrow> PRegisterMerge \<Rightarrow> ZRegister \<Rightarrow> uint32_t \<Rightarrow> emitter" where
  "uqshl size' zd pg zdn Shift =
     SVEBitWiseShiftImmediatePred size' 0b01 1 1 (PRegister_of_Merge pg) zd zdn Shift"

text \<open>\<^verbatim>\<open>srshr\<close> (source line 746).\<close>

definition srshr ::
  "SubRegSize \<Rightarrow> ZRegister \<Rightarrow> PRegisterMerge \<Rightarrow> ZRegister \<Rightarrow> uint32_t \<Rightarrow> emitter" where
  "srshr size' zd pg zdn Shift =
     SVEBitWiseShiftImmediatePred size' 0b11 0 0 (PRegister_of_Merge pg) zd zdn Shift"

text \<open>\<^verbatim>\<open>urshr\<close> (source line 749).\<close>

definition urshr ::
  "SubRegSize \<Rightarrow> ZRegister \<Rightarrow> PRegisterMerge \<Rightarrow> ZRegister \<Rightarrow> uint32_t \<Rightarrow> emitter" where
  "urshr size' zd pg zdn Shift =
     SVEBitWiseShiftImmediatePred size' 0b11 0 1 (PRegister_of_Merge pg) zd zdn Shift"

text \<open>\<^verbatim>\<open>sqshlu\<close> (source line 752).\<close>

definition sqshlu ::
  "SubRegSize \<Rightarrow> ZRegister \<Rightarrow> PRegisterMerge \<Rightarrow> ZRegister \<Rightarrow> uint32_t \<Rightarrow> emitter" where
  "sqshlu size' zd pg zdn Shift =
     SVEBitWiseShiftImmediatePred size' 0b11 1 1 (PRegister_of_Merge pg) zd zdn Shift"

text \<open>\<^verbatim>\<open>asr\<close> (source line 757).\<close>

definition asr_pred ::
  "SubRegSize \<Rightarrow> ZRegister \<Rightarrow> PRegisterMerge \<Rightarrow> ZRegister \<Rightarrow> ZRegister \<Rightarrow> emitter" where
  "asr_pred size' zd pg zn zm =
     SVEBitwiseShiftbyVector 0 0 0 size' (PRegister_of_Merge pg) zd zn zm"

text \<open>\<^verbatim>\<open>lsr\<close> (source line 760).\<close>

definition lsr_pred ::
  "SubRegSize \<Rightarrow> ZRegister \<Rightarrow> PRegisterMerge \<Rightarrow> ZRegister \<Rightarrow> ZRegister \<Rightarrow> emitter" where
  "lsr_pred size' zd pg zn zm =
     SVEBitwiseShiftbyVector 0 0 1 size' (PRegister_of_Merge pg) zd zn zm"

text \<open>\<^verbatim>\<open>lsl\<close> (source line 763).\<close>

definition lsl_pred ::
  "SubRegSize \<Rightarrow> ZRegister \<Rightarrow> PRegisterMerge \<Rightarrow> ZRegister \<Rightarrow> ZRegister \<Rightarrow> emitter" where
  "lsl_pred size' zd pg zn zm =
     SVEBitwiseShiftbyVector 0 1 1 size' (PRegister_of_Merge pg) zd zn zm"

text \<open>\<^verbatim>\<open>asrr\<close> (source line 766).\<close>

definition asrr ::
  "SubRegSize \<Rightarrow> ZRegister \<Rightarrow> PRegisterMerge \<Rightarrow> ZRegister \<Rightarrow> ZRegister \<Rightarrow> emitter" where
  "asrr size' zd pg zn zm =
     SVEBitwiseShiftbyVector 1 0 0 size' (PRegister_of_Merge pg) zd zn zm"

text \<open>\<^verbatim>\<open>lsrr\<close> (source line 769).\<close>

definition lsrr ::
  "SubRegSize \<Rightarrow> ZRegister \<Rightarrow> PRegisterMerge \<Rightarrow> ZRegister \<Rightarrow> ZRegister \<Rightarrow> emitter" where
  "lsrr size' zd pg zn zm =
     SVEBitwiseShiftbyVector 1 0 1 size' (PRegister_of_Merge pg) zd zn zm"

text \<open>\<^verbatim>\<open>lslr\<close> (source line 772).\<close>

definition lslr ::
  "SubRegSize \<Rightarrow> ZRegister \<Rightarrow> PRegisterMerge \<Rightarrow> ZRegister \<Rightarrow> ZRegister \<Rightarrow> emitter" where
  "lslr size' zd pg zn zm =
     SVEBitwiseShiftbyVector 1 1 1 size' (PRegister_of_Merge pg) zd zn zm"

text \<open>\<^verbatim>\<open>asr_wide\<close> (source line 777).\<close>

definition asr_wide_pred ::
  "SubRegSize \<Rightarrow> ZRegister \<Rightarrow> PRegisterMerge \<Rightarrow> ZRegister \<Rightarrow> ZRegister \<Rightarrow> emitter" where
  "asr_wide_pred size' zd pg zn zm =
     SVEBitwiseShiftByWideElementPredicated size' 0b000 zd pg zn zm"

text \<open>\<^verbatim>\<open>lsr_wide\<close> (source line 780).\<close>

definition lsr_wide_pred ::
  "SubRegSize \<Rightarrow> ZRegister \<Rightarrow> PRegisterMerge \<Rightarrow> ZRegister \<Rightarrow> ZRegister \<Rightarrow> emitter" where
  "lsr_wide_pred size' zd pg zn zm =
     SVEBitwiseShiftByWideElementPredicated size' 0b001 zd pg zn zm"

text \<open>\<^verbatim>\<open>lsl_wide\<close> (source line 783).\<close>

definition lsl_wide_pred ::
  "SubRegSize \<Rightarrow> ZRegister \<Rightarrow> PRegisterMerge \<Rightarrow> ZRegister \<Rightarrow> ZRegister \<Rightarrow> emitter" where
  "lsl_wide_pred size' zd pg zn zm =
     SVEBitwiseShiftByWideElementPredicated size' 0b011 zd pg zn zm"

text \<open>\<^verbatim>\<open>eor3\<close> (source line 893).\<close>

definition eor3 ::
  "ZRegister \<Rightarrow> ZRegister \<Rightarrow> ZRegister \<Rightarrow> ZRegister \<Rightarrow> emitter" where
  "eor3 zd zdn zm zk =
     LOGMAN_THROW_A_FMT (zd = zdn) ''Dest needs to equal zdn''
     (SVE2BitwiseTernary 0b00 0 zm zk zd)"

text \<open>\<^verbatim>\<open>bsl\<close> (source line 897).\<close>

definition bsl ::
  "ZRegister \<Rightarrow> ZRegister \<Rightarrow> ZRegister \<Rightarrow> ZRegister \<Rightarrow> emitter" where
  "bsl zd zdn zm zk =
     LOGMAN_THROW_A_FMT (zd = zdn) ''Dest needs to equal zdn''
     (SVE2BitwiseTernary 0b00 1 zm zk zd)"

text \<open>\<^verbatim>\<open>bcax\<close> (source line 901).\<close>

definition bcax ::
  "ZRegister \<Rightarrow> ZRegister \<Rightarrow> ZRegister \<Rightarrow> ZRegister \<Rightarrow> emitter" where
  "bcax zd zdn zm zk =
     LOGMAN_THROW_A_FMT (zd = zdn) ''Dest needs to equal zdn''
     (SVE2BitwiseTernary 0b01 0 zm zk zd)"

text \<open>\<^verbatim>\<open>bsl1n\<close> (source line 905).\<close>

definition bsl1n ::
  "ZRegister \<Rightarrow> ZRegister \<Rightarrow> ZRegister \<Rightarrow> ZRegister \<Rightarrow> emitter" where
  "bsl1n zd zdn zm zk =
     LOGMAN_THROW_A_FMT (zd = zdn) ''Dest needs to equal zdn''
     (SVE2BitwiseTernary 0b01 1 zm zk zd)"

text \<open>\<^verbatim>\<open>bsl2n\<close> (source line 909).\<close>

definition bsl2n ::
  "ZRegister \<Rightarrow> ZRegister \<Rightarrow> ZRegister \<Rightarrow> ZRegister \<Rightarrow> emitter" where
  "bsl2n zd zdn zm zk =
     LOGMAN_THROW_A_FMT (zd = zdn) ''Dest needs to equal zdn''
     (SVE2BitwiseTernary 0b10 1 zm zk zd)"

text \<open>\<^verbatim>\<open>nbsl\<close> (source line 913).\<close>

definition nbsl ::
  "ZRegister \<Rightarrow> ZRegister \<Rightarrow> ZRegister \<Rightarrow> ZRegister \<Rightarrow> emitter" where
  "nbsl zd zdn zm zk =
     LOGMAN_THROW_A_FMT (zd = zdn) ''Dest needs to equal zdn''
     (SVE2BitwiseTernary 0b11 1 zm zk zd)"

text \<open>\<^verbatim>\<open>cpy\<close> (source line 1115).\<close>

definition cpy_v ::
  "SubRegSize \<Rightarrow> ZRegister \<Rightarrow> PRegisterMerge \<Rightarrow> VRegister \<Rightarrow> emitter" where
  "cpy_v size' zd pg vn =
     SVEPermuteVectorPredicated 0b00000 0b0 size' zd (PRegister_of_Merge pg) (ZRegister (VRegister.Idx vn))"

text \<open>\<^verbatim>\<open>compact\<close> (source line 1119).\<close>

definition compact ::
  "SubRegSize \<Rightarrow> ZRegister \<Rightarrow> PRegister \<Rightarrow> ZRegister \<Rightarrow> emitter" where
  "compact size' zd pg zn =
     LOGMAN_THROW_AA_FMT (size' = i64Bit \<or> size' = i32Bit) ''Invalid element size''
     (SVEPermuteVectorPredicated 0b00001 0b0 size' zd pg zn)"

text \<open>\<^verbatim>\<open>cpy\<close> (source line 1126).\<close>

definition cpy_r ::
  "SubRegSize \<Rightarrow> ZRegister \<Rightarrow> PRegisterMerge \<Rightarrow> Register \<Rightarrow> emitter" where
  "cpy_r size' zd pg rn =
     SVEPermuteVectorPredicated 0b01000 0b1 size' zd (PRegister_of_Merge pg) (ZRegister (Register.Idx rn))"

text \<open>\<^verbatim>\<open>splice\<close> (source line 1132).\<close>

definition splice_Constructive ::
  "SubRegSize \<Rightarrow> ZRegister \<Rightarrow> PRegister \<Rightarrow> ZRegister \<Rightarrow> ZRegister \<Rightarrow> emitter" where
  "splice_Constructive size' zd pv zn zn2 =
     LOGMAN_THROW_A_FMT (AreVectorsSequential zn zn2) ''zn and zn2 must be sequential registers''
     (SVEPermuteVectorPredicated 0b01101 0b0 size' zd pv zn)"

text \<open>\<^verbatim>\<open>splice\<close> (source line 1139).\<close>

definition splice_Destructive ::
  "SubRegSize \<Rightarrow> ZRegister \<Rightarrow> PRegister \<Rightarrow> ZRegister \<Rightarrow> ZRegister \<Rightarrow> emitter" where
  "splice_Destructive size' zd pv zn zm =
     LOGMAN_THROW_A_FMT (zd = zn) ''zd needs to equal zn''
     (SVEPermuteVectorPredicated 0b01100 0b0 size' zd pv zm)"

text \<open>\<^verbatim>\<open>lasta\<close> (source line 1146).\<close>

definition lasta_r ::
  "SubRegSize \<Rightarrow> Register \<Rightarrow> PRegister \<Rightarrow> ZRegister \<Rightarrow> emitter" where
  "lasta_r size' rd pg zn =
     SVEPermuteVectorPredicated 0b00000 0b1 size' (ZRegister (Register.Idx rd)) pg zn"

text \<open>\<^verbatim>\<open>lastb\<close> (source line 1149).\<close>

definition lastb_r ::
  "SubRegSize \<Rightarrow> Register \<Rightarrow> PRegister \<Rightarrow> ZRegister \<Rightarrow> emitter" where
  "lastb_r size' rd pg zn =
     SVEPermuteVectorPredicated 0b00001 0b1 size' (ZRegister (Register.Idx rd)) pg zn"

text \<open>\<^verbatim>\<open>lasta\<close> (source line 1154).\<close>

definition lasta_v ::
  "SubRegSize \<Rightarrow> VRegister \<Rightarrow> PRegister \<Rightarrow> ZRegister \<Rightarrow> emitter" where
  "lasta_v size' vd pg zn =
     SVEPermuteVectorPredicated 0b00010 0b0 size' (ZRegister (VRegister.Idx vd)) pg zn"

text \<open>\<^verbatim>\<open>lastb\<close> (source line 1157).\<close>

definition lastb_v ::
  "SubRegSize \<Rightarrow> VRegister \<Rightarrow> PRegister \<Rightarrow> ZRegister \<Rightarrow> emitter" where
  "lastb_v size' vd pg zn =
     SVEPermuteVectorPredicated 0b00011 0b0 size' (ZRegister (VRegister.Idx vd)) pg zn"

text \<open>\<^verbatim>\<open>revb\<close> (source line 1162).\<close>

definition revb ::
  "SubRegSize \<Rightarrow> ZRegister \<Rightarrow> PRegisterMerge \<Rightarrow> ZRegister \<Rightarrow> emitter" where
  "revb size' zd pg zn =
     LOGMAN_THROW_AA_FMT (size' \<noteq> i8Bit) ''Can't use 8-bit element size''
     (SVEPermuteVectorPredicated 0b00100 0b0 size' zd (PRegister_of_Merge pg) zn)"

text \<open>\<^verbatim>\<open>revh\<close> (source line 1166).\<close>

definition revh ::
  "SubRegSize \<Rightarrow> ZRegister \<Rightarrow> PRegisterMerge \<Rightarrow> ZRegister \<Rightarrow> emitter" where
  "revh size' zd pg zn =
     LOGMAN_THROW_AA_FMT (size' \<noteq> i8Bit \<and> size' \<noteq> i16Bit) ''Can't use 8/16-bit element sizes''
     (SVEPermuteVectorPredicated 0b00101 0b0 size' zd (PRegister_of_Merge pg) zn)"

text \<open>\<^verbatim>\<open>revw\<close> (source line 1171).\<close>

definition revw ::
  "SubRegSize \<Rightarrow> ZRegister \<Rightarrow> PRegisterMerge \<Rightarrow> ZRegister \<Rightarrow> emitter" where
  "revw size' zd pg zn =
     LOGMAN_THROW_AA_FMT (size' = i64Bit) ''Can't use 8/16/32-bit element sizes''
     (SVEPermuteVectorPredicated 0b00110 0b0 size' zd (PRegister_of_Merge pg) zn)"

text \<open>\<^verbatim>\<open>rbit\<close> (source line 1175).\<close>

definition rbit ::
  "SubRegSize \<Rightarrow> ZRegister \<Rightarrow> PRegisterMerge \<Rightarrow> ZRegister \<Rightarrow> emitter" where
  "rbit size' zd pg zn =
     SVEPermuteVectorPredicated 0b00111 0b0 size' zd (PRegister_of_Merge pg) zn"

text \<open>\<^verbatim>\<open>clasta\<close> (source line 1180).\<close>

definition clasta ::
  "SubRegSize \<Rightarrow> ZRegister \<Rightarrow> PRegister \<Rightarrow> ZRegister \<Rightarrow> ZRegister \<Rightarrow> emitter" where
  "clasta size' zd pg zn zm =
     LOGMAN_THROW_A_FMT (zd = zn) ''zd must be the same as zn''
     (SVEPermuteVectorPredicated 0b01000 0b0 size' zd pg zm)"

text \<open>\<^verbatim>\<open>clastb\<close> (source line 1184).\<close>

definition clastb ::
  "SubRegSize \<Rightarrow> ZRegister \<Rightarrow> PRegister \<Rightarrow> ZRegister \<Rightarrow> ZRegister \<Rightarrow> emitter" where
  "clastb size' zd pg zn zm =
     LOGMAN_THROW_A_FMT (zd = zn) ''zd must be the same as zn''
     (SVEPermuteVectorPredicated 0b01001 0b0 size' zd pg zm)"

text \<open>\<^verbatim>\<open>clasta\<close> (source line 1190).\<close>

definition clasta_v ::
  "SubRegSize \<Rightarrow> VRegister \<Rightarrow> PRegister \<Rightarrow> VRegister \<Rightarrow> ZRegister \<Rightarrow> emitter" where
  "clasta_v size' vd pg vn zm =
     LOGMAN_THROW_A_FMT (vd = vn) ''vd must be the same as vn''
     (SVEPermuteVectorPredicated 0b01010 0b0 size' (ZRegister (VRegister.Idx vd)) pg zm)"

text \<open>\<^verbatim>\<open>clastb\<close> (source line 1194).\<close>

definition clastb_v ::
  "SubRegSize \<Rightarrow> VRegister \<Rightarrow> PRegister \<Rightarrow> VRegister \<Rightarrow> ZRegister \<Rightarrow> emitter" where
  "clastb_v size' vd pg vn zm =
     LOGMAN_THROW_A_FMT (vd = vn) ''vd must be the same as vn''
     (SVEPermuteVectorPredicated 0b01011 0b0 size' (ZRegister (VRegister.Idx vd)) pg zm)"

text \<open>\<^verbatim>\<open>clasta\<close> (source line 1203).\<close>

definition clasta_r ::
  "SubRegSize \<Rightarrow> Register \<Rightarrow> PRegister \<Rightarrow> Register \<Rightarrow> ZRegister \<Rightarrow> emitter" where
  "clasta_r size' rd pg rn zm =
     LOGMAN_THROW_A_FMT (rd = rn) ''rd must be the same as rn''
     (SVEPermuteVectorPredicated 0b10000 0b1 size' (ZRegister (Register.Idx rd)) pg zm)"

text \<open>\<^verbatim>\<open>clastb\<close> (source line 1207).\<close>

definition clastb_r ::
  "SubRegSize \<Rightarrow> Register \<Rightarrow> PRegister \<Rightarrow> Register \<Rightarrow> ZRegister \<Rightarrow> emitter" where
  "clastb_r size' rd pg rn zm =
     LOGMAN_THROW_A_FMT (rd = rn) ''rd must be the same as rn''
     (SVEPermuteVectorPredicated 0b10001 0b1 size' (ZRegister (Register.Idx rd)) pg zm)"

text \<open>\<^verbatim>\<open>ext\<close> (source line 1224).\<close>

definition ext_Destructive ::
  "ZRegister \<Rightarrow> ZRegister \<Rightarrow> ZRegister \<Rightarrow> uint8_t \<Rightarrow> emitter" where
  "ext_Destructive zd zdn zm Imm =
     LOGMAN_THROW_A_FMT (zd = zdn) ''Dest needs to equal zdn''
     (SVEPermuteVector 0 zd zm (ucast Imm))"

text \<open>\<^verbatim>\<open>cmpeq\<close> (source line 1235).\<close>

definition cmpeq ::
  "SubRegSize \<Rightarrow> PRegister \<Rightarrow> PRegisterZero \<Rightarrow> ZRegister \<Rightarrow> ZRegister \<Rightarrow> emitter" where
  "cmpeq size' pd pg zn zm =
     SVEIntegerCompareVector 1 1 0 size' zm (PRegister_of_Zero pg) zn pd"

text \<open>\<^verbatim>\<open>cmpge\<close> (source line 1238).\<close>

definition cmpge ::
  "SubRegSize \<Rightarrow> PRegister \<Rightarrow> PRegisterZero \<Rightarrow> ZRegister \<Rightarrow> ZRegister \<Rightarrow> emitter" where
  "cmpge size' pd pg zn zm =
     SVEIntegerCompareVector 1 0 0 size' zm (PRegister_of_Zero pg) zn pd"

text \<open>\<^verbatim>\<open>cmpgt\<close> (source line 1241).\<close>

definition cmpgt ::
  "SubRegSize \<Rightarrow> PRegister \<Rightarrow> PRegisterZero \<Rightarrow> ZRegister \<Rightarrow> ZRegister \<Rightarrow> emitter" where
  "cmpgt size' pd pg zn zm =
     SVEIntegerCompareVector 1 0 1 size' zm (PRegister_of_Zero pg) zn pd"

text \<open>\<^verbatim>\<open>cmphi\<close> (source line 1244).\<close>

definition cmphi ::
  "SubRegSize \<Rightarrow> PRegister \<Rightarrow> PRegisterZero \<Rightarrow> ZRegister \<Rightarrow> ZRegister \<Rightarrow> emitter" where
  "cmphi size' pd pg zn zm =
     SVEIntegerCompareVector 0 0 1 size' zm (PRegister_of_Zero pg) zn pd"

text \<open>\<^verbatim>\<open>cmphs\<close> (source line 1247).\<close>

definition cmphs ::
  "SubRegSize \<Rightarrow> PRegister \<Rightarrow> PRegisterZero \<Rightarrow> ZRegister \<Rightarrow> ZRegister \<Rightarrow> emitter" where
  "cmphs size' pd pg zn zm =
     SVEIntegerCompareVector 0 0 0 size' zm (PRegister_of_Zero pg) zn pd"

text \<open>\<^verbatim>\<open>cmpne\<close> (source line 1250).\<close>

definition cmpne ::
  "SubRegSize \<Rightarrow> PRegister \<Rightarrow> PRegisterZero \<Rightarrow> ZRegister \<Rightarrow> ZRegister \<Rightarrow> emitter" where
  "cmpne size' pd pg zn zm =
     SVEIntegerCompareVector 1 1 1 size' zm (PRegister_of_Zero pg) zn pd"

text \<open>\<^verbatim>\<open>cmpeq_wide\<close> (source line 1255).\<close>

definition cmpeq_wide ::
  "SubRegSize \<Rightarrow> PRegister \<Rightarrow> PRegisterZero \<Rightarrow> ZRegister \<Rightarrow> ZRegister \<Rightarrow> emitter" where
  "cmpeq_wide size' pd pg zn zm =
     SVEIntegerCompareVectorWide 0 0b01 0 size' pd (PRegister_of_Zero pg) zn zm"

text \<open>\<^verbatim>\<open>cmpgt_wide\<close> (source line 1258).\<close>

definition cmpgt_wide ::
  "SubRegSize \<Rightarrow> PRegister \<Rightarrow> PRegisterZero \<Rightarrow> ZRegister \<Rightarrow> ZRegister \<Rightarrow> emitter" where
  "cmpgt_wide size' pd pg zn zm =
     SVEIntegerCompareVectorWide 0 0b10 1 size' pd (PRegister_of_Zero pg) zn zm"

text \<open>\<^verbatim>\<open>cmpge_wide\<close> (source line 1261).\<close>

definition cmpge_wide ::
  "SubRegSize \<Rightarrow> PRegister \<Rightarrow> PRegisterZero \<Rightarrow> ZRegister \<Rightarrow> ZRegister \<Rightarrow> emitter" where
  "cmpge_wide size' pd pg zn zm =
     SVEIntegerCompareVectorWide 0 0b10 0 size' pd (PRegister_of_Zero pg) zn zm"

text \<open>\<^verbatim>\<open>cmphi_wide\<close> (source line 1264).\<close>

definition cmphi_wide ::
  "SubRegSize \<Rightarrow> PRegister \<Rightarrow> PRegisterZero \<Rightarrow> ZRegister \<Rightarrow> ZRegister \<Rightarrow> emitter" where
  "cmphi_wide size' pd pg zn zm =
     SVEIntegerCompareVectorWide 1 0b10 1 size' pd (PRegister_of_Zero pg) zn zm"

text \<open>\<^verbatim>\<open>cmphs_wide\<close> (source line 1267).\<close>

definition cmphs_wide ::
  "SubRegSize \<Rightarrow> PRegister \<Rightarrow> PRegisterZero \<Rightarrow> ZRegister \<Rightarrow> ZRegister \<Rightarrow> emitter" where
  "cmphs_wide size' pd pg zn zm =
     SVEIntegerCompareVectorWide 1 0b10 0 size' pd (PRegister_of_Zero pg) zn zm"

text \<open>\<^verbatim>\<open>cmplt_wide\<close> (source line 1270).\<close>

definition cmplt_wide ::
  "SubRegSize \<Rightarrow> PRegister \<Rightarrow> PRegisterZero \<Rightarrow> ZRegister \<Rightarrow> ZRegister \<Rightarrow> emitter" where
  "cmplt_wide size' pd pg zn zm =
     SVEIntegerCompareVectorWide 0 0b11 0 size' pd (PRegister_of_Zero pg) zn zm"

text \<open>\<^verbatim>\<open>cmple_wide\<close> (source line 1273).\<close>

definition cmple_wide ::
  "SubRegSize \<Rightarrow> PRegister \<Rightarrow> PRegisterZero \<Rightarrow> ZRegister \<Rightarrow> ZRegister \<Rightarrow> emitter" where
  "cmple_wide size' pd pg zn zm =
     SVEIntegerCompareVectorWide 0 0b11 1 size' pd (PRegister_of_Zero pg) zn zm"

text \<open>\<^verbatim>\<open>cmplo_wide\<close> (source line 1276).\<close>

definition cmplo_wide ::
  "SubRegSize \<Rightarrow> PRegister \<Rightarrow> PRegisterZero \<Rightarrow> ZRegister \<Rightarrow> ZRegister \<Rightarrow> emitter" where
  "cmplo_wide size' pd pg zn zm =
     SVEIntegerCompareVectorWide 1 0b11 0 size' pd (PRegister_of_Zero pg) zn zm"

text \<open>\<^verbatim>\<open>cmpls_wide\<close> (source line 1279).\<close>

definition cmpls_wide ::
  "SubRegSize \<Rightarrow> PRegister \<Rightarrow> PRegisterZero \<Rightarrow> ZRegister \<Rightarrow> ZRegister \<Rightarrow> emitter" where
  "cmpls_wide size' pd pg zn zm =
     SVEIntegerCompareVectorWide 1 0b11 1 size' pd (PRegister_of_Zero pg) zn zm"

text \<open>\<^verbatim>\<open>cmpne_wide\<close> (source line 1282).\<close>

definition cmpne_wide ::
  "SubRegSize \<Rightarrow> PRegister \<Rightarrow> PRegisterZero \<Rightarrow> ZRegister \<Rightarrow> ZRegister \<Rightarrow> emitter" where
  "cmpne_wide size' pd pg zn zm =
     SVEIntegerCompareVectorWide 0 0b01 1 size' pd (PRegister_of_Zero pg) zn zm"

text \<open>\<^verbatim>\<open>brkn\<close> (source line 1303).\<close>

definition brkn ::
  "PRegister \<Rightarrow> PRegisterZero \<Rightarrow> PRegister \<Rightarrow> PRegister \<Rightarrow> emitter" where
  "brkn pd pg pn pm =
     LOGMAN_THROW_A_FMT (pd = pm) ''pd and pm need to be the same''
     (SVEPropagateBreak 0b0001 0b01 0 pd (PRegister_of_Zero pg) pn PReg_p8)"

text \<open>\<^verbatim>\<open>brkns\<close> (source line 1307).\<close>

definition brkns ::
  "PRegister \<Rightarrow> PRegisterZero \<Rightarrow> PRegister \<Rightarrow> PRegister \<Rightarrow> emitter" where
  "brkns pd pg pn pm =
     LOGMAN_THROW_A_FMT (pd = pm) ''pd and pm need to be the same''
     (SVEPropagateBreak 0b0101 0b01 0 pd (PRegister_of_Zero pg) pn PReg_p8)"

text \<open>\<^verbatim>\<open>pnext\<close> (source line 1333).\<close>

definition pnext ::
  "SubRegSize \<Rightarrow> PRegister \<Rightarrow> PRegister \<Rightarrow> PRegister \<Rightarrow> emitter" where
  "pnext size' pd pv pn =
     LOGMAN_THROW_A_FMT (pd = pn) ''pd and pn need to be the same''
     (SVEPredicateMisc 0b1001 0b00010 (PRegister.Idx pv) size' pd)"

text \<open>\<^verbatim>\<open>pfirst\<close> (source line 1344).\<close>

definition pfirst ::
  "PRegister \<Rightarrow> PRegister \<Rightarrow> PRegister \<Rightarrow> emitter" where
  "pfirst pd pg pn =
     LOGMAN_THROW_A_FMT (pd = pn) ''pd and pn need to be the same''
     (SVEPredicateMisc 0b1000 0b00000 (PRegister.Idx pg) i16Bit pd)"

text \<open>\<^verbatim>\<open>shadd\<close> (source line 1541).\<close>

definition shadd ::
  "SubRegSize \<Rightarrow> ZRegister \<Rightarrow> PRegisterMerge \<Rightarrow> ZRegister \<Rightarrow> ZRegister \<Rightarrow> emitter" where
  "shadd size' zd pg zn zm =
     SVE2IntegerHalvingPredicated 0 0 0 size' (PRegister_of_Merge pg) zd zn zm"

text \<open>\<^verbatim>\<open>uhadd\<close> (source line 1544).\<close>

definition uhadd ::
  "SubRegSize \<Rightarrow> ZRegister \<Rightarrow> PRegisterMerge \<Rightarrow> ZRegister \<Rightarrow> ZRegister \<Rightarrow> emitter" where
  "uhadd size' zd pg zn zm =
     SVE2IntegerHalvingPredicated 0 0 1 size' (PRegister_of_Merge pg) zd zn zm"

text \<open>\<^verbatim>\<open>shsub\<close> (source line 1547).\<close>

definition shsub ::
  "SubRegSize \<Rightarrow> ZRegister \<Rightarrow> PRegisterMerge \<Rightarrow> ZRegister \<Rightarrow> ZRegister \<Rightarrow> emitter" where
  "shsub size' zd pg zn zm =
     SVE2IntegerHalvingPredicated 0 1 0 size' (PRegister_of_Merge pg) zd zn zm"

text \<open>\<^verbatim>\<open>uhsub\<close> (source line 1550).\<close>

definition uhsub ::
  "SubRegSize \<Rightarrow> ZRegister \<Rightarrow> PRegisterMerge \<Rightarrow> ZRegister \<Rightarrow> ZRegister \<Rightarrow> emitter" where
  "uhsub size' zd pg zn zm =
     SVE2IntegerHalvingPredicated 0 1 1 size' (PRegister_of_Merge pg) zd zn zm"

text \<open>\<^verbatim>\<open>srhadd\<close> (source line 1553).\<close>

definition srhadd ::
  "SubRegSize \<Rightarrow> ZRegister \<Rightarrow> PRegisterMerge \<Rightarrow> ZRegister \<Rightarrow> ZRegister \<Rightarrow> emitter" where
  "srhadd size' zd pg zn zm =
     SVE2IntegerHalvingPredicated 1 0 0 size' (PRegister_of_Merge pg) zd zn zm"

text \<open>\<^verbatim>\<open>urhadd\<close> (source line 1556).\<close>

definition urhadd ::
  "SubRegSize \<Rightarrow> ZRegister \<Rightarrow> PRegisterMerge \<Rightarrow> ZRegister \<Rightarrow> ZRegister \<Rightarrow> emitter" where
  "urhadd size' zd pg zn zm =
     SVE2IntegerHalvingPredicated 1 0 1 size' (PRegister_of_Merge pg) zd zn zm"

text \<open>\<^verbatim>\<open>shsubr\<close> (source line 1559).\<close>

definition shsubr ::
  "SubRegSize \<Rightarrow> ZRegister \<Rightarrow> PRegisterMerge \<Rightarrow> ZRegister \<Rightarrow> ZRegister \<Rightarrow> emitter" where
  "shsubr size' zd pg zn zm =
     SVE2IntegerHalvingPredicated 1 1 0 size' (PRegister_of_Merge pg) zd zn zm"

text \<open>\<^verbatim>\<open>uhsubr\<close> (source line 1562).\<close>

definition uhsubr ::
  "SubRegSize \<Rightarrow> ZRegister \<Rightarrow> PRegisterMerge \<Rightarrow> ZRegister \<Rightarrow> ZRegister \<Rightarrow> emitter" where
  "uhsubr size' zd pg zn zm =
     SVE2IntegerHalvingPredicated 1 1 1 size' (PRegister_of_Merge pg) zd zn zm"

text \<open>\<^verbatim>\<open>addp\<close> (source line 1567).\<close>

definition addp ::
  "SubRegSize \<Rightarrow> ZRegister \<Rightarrow> PRegisterMerge \<Rightarrow> ZRegister \<Rightarrow> ZRegister \<Rightarrow> emitter" where
  "addp size' zd pg zn zm =
     SVEIntegerPairwiseArithmetic 0b00 1 size' (PRegister_of_Merge pg) zd zn zm"

text \<open>\<^verbatim>\<open>smaxp\<close> (source line 1570).\<close>

definition smaxp ::
  "SubRegSize \<Rightarrow> ZRegister \<Rightarrow> PRegisterMerge \<Rightarrow> ZRegister \<Rightarrow> ZRegister \<Rightarrow> emitter" where
  "smaxp size' zd pg zn zm =
     SVEIntegerPairwiseArithmetic 0b10 0 size' (PRegister_of_Merge pg) zd zn zm"

text \<open>\<^verbatim>\<open>umaxp\<close> (source line 1573).\<close>

definition umaxp ::
  "SubRegSize \<Rightarrow> ZRegister \<Rightarrow> PRegisterMerge \<Rightarrow> ZRegister \<Rightarrow> ZRegister \<Rightarrow> emitter" where
  "umaxp size' zd pg zn zm =
     SVEIntegerPairwiseArithmetic 0b10 1 size' (PRegister_of_Merge pg) zd zn zm"

text \<open>\<^verbatim>\<open>sminp\<close> (source line 1576).\<close>

definition sminp ::
  "SubRegSize \<Rightarrow> ZRegister \<Rightarrow> PRegisterMerge \<Rightarrow> ZRegister \<Rightarrow> ZRegister \<Rightarrow> emitter" where
  "sminp size' zd pg zn zm =
     SVEIntegerPairwiseArithmetic 0b11 0 size' (PRegister_of_Merge pg) zd zn zm"

text \<open>\<^verbatim>\<open>uminp\<close> (source line 1579).\<close>

definition uminp ::
  "SubRegSize \<Rightarrow> ZRegister \<Rightarrow> PRegisterMerge \<Rightarrow> ZRegister \<Rightarrow> ZRegister \<Rightarrow> emitter" where
  "uminp size' zd pg zn zm =
     SVEIntegerPairwiseArithmetic 0b11 1 size' (PRegister_of_Merge pg) zd zn zm"

text \<open>\<^verbatim>\<open>sqadd\<close> (source line 1584).\<close>

definition sqadd_pred ::
  "SubRegSize \<Rightarrow> ZRegister \<Rightarrow> PRegisterMerge \<Rightarrow> ZRegister \<Rightarrow> ZRegister \<Rightarrow> emitter" where
  "sqadd_pred size' zd pg zn zm =
     SVE2IntegerSaturatingAddSub size' 0b000 zd pg zn zm"

text \<open>\<^verbatim>\<open>uqadd\<close> (source line 1587).\<close>

definition uqadd_pred ::
  "SubRegSize \<Rightarrow> ZRegister \<Rightarrow> PRegisterMerge \<Rightarrow> ZRegister \<Rightarrow> ZRegister \<Rightarrow> emitter" where
  "uqadd_pred size' zd pg zn zm =
     SVE2IntegerSaturatingAddSub size' 0b001 zd pg zn zm"

text \<open>\<^verbatim>\<open>sqsub\<close> (source line 1590).\<close>

definition sqsub_pred ::
  "SubRegSize \<Rightarrow> ZRegister \<Rightarrow> PRegisterMerge \<Rightarrow> ZRegister \<Rightarrow> ZRegister \<Rightarrow> emitter" where
  "sqsub_pred size' zd pg zn zm =
     SVE2IntegerSaturatingAddSub size' 0b010 zd pg zn zm"

text \<open>\<^verbatim>\<open>uqsub\<close> (source line 1593).\<close>

definition uqsub_pred ::
  "SubRegSize \<Rightarrow> ZRegister \<Rightarrow> PRegisterMerge \<Rightarrow> ZRegister \<Rightarrow> ZRegister \<Rightarrow> emitter" where
  "uqsub_pred size' zd pg zn zm =
     SVE2IntegerSaturatingAddSub size' 0b011 zd pg zn zm"

text \<open>\<^verbatim>\<open>suqadd\<close> (source line 1596).\<close>

definition suqadd ::
  "SubRegSize \<Rightarrow> ZRegister \<Rightarrow> PRegisterMerge \<Rightarrow> ZRegister \<Rightarrow> ZRegister \<Rightarrow> emitter" where
  "suqadd size' zd pg zn zm =
     SVE2IntegerSaturatingAddSub size' 0b100 zd pg zn zm"

text \<open>\<^verbatim>\<open>usqadd\<close> (source line 1599).\<close>

definition usqadd ::
  "SubRegSize \<Rightarrow> ZRegister \<Rightarrow> PRegisterMerge \<Rightarrow> ZRegister \<Rightarrow> ZRegister \<Rightarrow> emitter" where
  "usqadd size' zd pg zn zm =
     SVE2IntegerSaturatingAddSub size' 0b101 zd pg zn zm"

text \<open>\<^verbatim>\<open>sqsubr\<close> (source line 1602).\<close>

definition sqsubr ::
  "SubRegSize \<Rightarrow> ZRegister \<Rightarrow> PRegisterMerge \<Rightarrow> ZRegister \<Rightarrow> ZRegister \<Rightarrow> emitter" where
  "sqsubr size' zd pg zn zm =
     SVE2IntegerSaturatingAddSub size' 0b110 zd pg zn zm"

text \<open>\<^verbatim>\<open>uqsubr\<close> (source line 1605).\<close>

definition uqsubr ::
  "SubRegSize \<Rightarrow> ZRegister \<Rightarrow> PRegisterMerge \<Rightarrow> ZRegister \<Rightarrow> ZRegister \<Rightarrow> emitter" where
  "uqsubr size' zd pg zn zm =
     SVE2IntegerSaturatingAddSub size' 0b111 zd pg zn zm"

text \<open>\<^verbatim>\<open>cadd\<close> (source line 1766).\<close>

definition cadd ::
  "SubRegSize \<Rightarrow> ZRegister \<Rightarrow> ZRegister \<Rightarrow> ZRegister \<Rightarrow> Rotation \<Rightarrow> emitter" where
  "cadd size' zd zn zm rot =
     SVE2ComplexIntAdd size' 0b0 rot zd zn zm"

text \<open>\<^verbatim>\<open>sqcadd\<close> (source line 1769).\<close>

definition sqcadd ::
  "SubRegSize \<Rightarrow> ZRegister \<Rightarrow> ZRegister \<Rightarrow> ZRegister \<Rightarrow> Rotation \<Rightarrow> emitter" where
  "sqcadd size' zd zn zm rot =
     SVE2ComplexIntAdd size' 0b1 rot zd zn zm"

text \<open>\<^verbatim>\<open>ftmad\<close> (source line 1950).\<close>

definition ftmad ::
  "SubRegSize \<Rightarrow> ZRegister \<Rightarrow> ZRegister \<Rightarrow> ZRegister \<Rightarrow> uint32_t \<Rightarrow> emitter" where
  "ftmad size' zd zn zm imm =
     LOGMAN_THROW_AA_FMT (imm \<le> 7) ''ftmad immediate must be within 0-7''
     (SVEFloatArithmeticPredicated (0b10000 OR imm) size' PReg_p0 zd zn zm)"

text \<open>\<^verbatim>\<open>fadd\<close> (source line 1955).\<close>

definition fadd_pred ::
  "SubRegSize \<Rightarrow> ZRegister \<Rightarrow> PRegisterMerge \<Rightarrow> ZRegister \<Rightarrow> ZRegister \<Rightarrow> emitter" where
  "fadd_pred size' zd pg zn zm =
     SVEFloatArithmeticPredicated 0b0000 size' (PRegister_of_Merge pg) zd zn zm"

text \<open>\<^verbatim>\<open>fsub\<close> (source line 1958).\<close>

definition fsub_pred ::
  "SubRegSize \<Rightarrow> ZRegister \<Rightarrow> PRegisterMerge \<Rightarrow> ZRegister \<Rightarrow> ZRegister \<Rightarrow> emitter" where
  "fsub_pred size' zd pg zn zm =
     SVEFloatArithmeticPredicated 0b0001 size' (PRegister_of_Merge pg) zd zn zm"

text \<open>\<^verbatim>\<open>fmul\<close> (source line 1961).\<close>

definition fmul_pred ::
  "SubRegSize \<Rightarrow> ZRegister \<Rightarrow> PRegisterMerge \<Rightarrow> ZRegister \<Rightarrow> ZRegister \<Rightarrow> emitter" where
  "fmul_pred size' zd pg zn zm =
     SVEFloatArithmeticPredicated 0b0010 size' (PRegister_of_Merge pg) zd zn zm"

text \<open>\<^verbatim>\<open>fsubr\<close> (source line 1964).\<close>

definition fsubr ::
  "SubRegSize \<Rightarrow> ZRegister \<Rightarrow> PRegisterMerge \<Rightarrow> ZRegister \<Rightarrow> ZRegister \<Rightarrow> emitter" where
  "fsubr size' zd pg zn zm =
     SVEFloatArithmeticPredicated 0b0011 size' (PRegister_of_Merge pg) zd zn zm"

text \<open>\<^verbatim>\<open>fmaxnm\<close> (source line 1967).\<close>

definition fmaxnm ::
  "SubRegSize \<Rightarrow> ZRegister \<Rightarrow> PRegisterMerge \<Rightarrow> ZRegister \<Rightarrow> ZRegister \<Rightarrow> emitter" where
  "fmaxnm size' zd pg zn zm =
     SVEFloatArithmeticPredicated 0b0100 size' (PRegister_of_Merge pg) zd zn zm"

text \<open>\<^verbatim>\<open>fminnm\<close> (source line 1970).\<close>

definition fminnm ::
  "SubRegSize \<Rightarrow> ZRegister \<Rightarrow> PRegisterMerge \<Rightarrow> ZRegister \<Rightarrow> ZRegister \<Rightarrow> emitter" where
  "fminnm size' zd pg zn zm =
     SVEFloatArithmeticPredicated 0b0101 size' (PRegister_of_Merge pg) zd zn zm"

text \<open>\<^verbatim>\<open>fmax\<close> (source line 1973).\<close>

definition fmax ::
  "SubRegSize \<Rightarrow> ZRegister \<Rightarrow> PRegisterMerge \<Rightarrow> ZRegister \<Rightarrow> ZRegister \<Rightarrow> emitter" where
  "fmax size' zd pg zn zm =
     SVEFloatArithmeticPredicated 0b0110 size' (PRegister_of_Merge pg) zd zn zm"

text \<open>\<^verbatim>\<open>fmin\<close> (source line 1976).\<close>

definition fmin ::
  "SubRegSize \<Rightarrow> ZRegister \<Rightarrow> PRegisterMerge \<Rightarrow> ZRegister \<Rightarrow> ZRegister \<Rightarrow> emitter" where
  "fmin size' zd pg zn zm =
     SVEFloatArithmeticPredicated 0b0111 size' (PRegister_of_Merge pg) zd zn zm"

text \<open>\<^verbatim>\<open>fabd\<close> (source line 1979).\<close>

definition fabd ::
  "SubRegSize \<Rightarrow> ZRegister \<Rightarrow> PRegisterMerge \<Rightarrow> ZRegister \<Rightarrow> ZRegister \<Rightarrow> emitter" where
  "fabd size' zd pg zn zm =
     SVEFloatArithmeticPredicated 0b1000 size' (PRegister_of_Merge pg) zd zn zm"

text \<open>\<^verbatim>\<open>fscale\<close> (source line 1982).\<close>

definition fscale ::
  "SubRegSize \<Rightarrow> ZRegister \<Rightarrow> PRegisterMerge \<Rightarrow> ZRegister \<Rightarrow> ZRegister \<Rightarrow> emitter" where
  "fscale size' zd pg zn zm =
     SVEFloatArithmeticPredicated 0b1001 size' (PRegister_of_Merge pg) zd zn zm"

text \<open>\<^verbatim>\<open>fmulx\<close> (source line 1985).\<close>

definition fmulx ::
  "SubRegSize \<Rightarrow> ZRegister \<Rightarrow> PRegisterMerge \<Rightarrow> ZRegister \<Rightarrow> ZRegister \<Rightarrow> emitter" where
  "fmulx size' zd pg zn zm =
     SVEFloatArithmeticPredicated 0b1010 size' (PRegister_of_Merge pg) zd zn zm"

text \<open>\<^verbatim>\<open>fdivr\<close> (source line 1988).\<close>

definition fdivr ::
  "SubRegSize \<Rightarrow> ZRegister \<Rightarrow> PRegisterMerge \<Rightarrow> ZRegister \<Rightarrow> ZRegister \<Rightarrow> emitter" where
  "fdivr size' zd pg zn zm =
     SVEFloatArithmeticPredicated 0b1100 size' (PRegister_of_Merge pg) zd zn zm"

text \<open>\<^verbatim>\<open>fdiv\<close> (source line 1991).\<close>

definition fdiv ::
  "SubRegSize \<Rightarrow> ZRegister \<Rightarrow> PRegisterMerge \<Rightarrow> ZRegister \<Rightarrow> ZRegister \<Rightarrow> emitter" where
  "fdiv size' zd pg zn zm =
     SVEFloatArithmeticPredicated 0b1101 size' (PRegister_of_Merge pg) zd zn zm"

text \<open>\<^verbatim>\<open>fcmge\<close> (source line 2234).\<close>

definition fcmge_zero ::
  "SubRegSize \<Rightarrow> PRegister \<Rightarrow> PRegisterZero \<Rightarrow> ZRegister \<Rightarrow> emitter" where
  "fcmge_zero size' pd pg zn =
     SVEFPCompareWithZero 0b00 0 size' pd (PRegister_of_Zero pg) zn"

text \<open>\<^verbatim>\<open>fcmgt\<close> (source line 2237).\<close>

definition fcmgt_zero ::
  "SubRegSize \<Rightarrow> PRegister \<Rightarrow> PRegisterZero \<Rightarrow> ZRegister \<Rightarrow> emitter" where
  "fcmgt_zero size' pd pg zn =
     SVEFPCompareWithZero 0b00 1 size' pd (PRegister_of_Zero pg) zn"

text \<open>\<^verbatim>\<open>fcmlt\<close> (source line 2240).\<close>

definition fcmlt_zero ::
  "SubRegSize \<Rightarrow> PRegister \<Rightarrow> PRegisterZero \<Rightarrow> ZRegister \<Rightarrow> emitter" where
  "fcmlt_zero size' pd pg zn =
     SVEFPCompareWithZero 0b01 0 size' pd (PRegister_of_Zero pg) zn"

text \<open>\<^verbatim>\<open>fcmle\<close> (source line 2243).\<close>

definition fcmle_zero ::
  "SubRegSize \<Rightarrow> PRegister \<Rightarrow> PRegisterZero \<Rightarrow> ZRegister \<Rightarrow> emitter" where
  "fcmle_zero size' pd pg zn =
     SVEFPCompareWithZero 0b01 1 size' pd (PRegister_of_Zero pg) zn"

text \<open>\<^verbatim>\<open>fcmeq\<close> (source line 2246).\<close>

definition fcmeq_zero ::
  "SubRegSize \<Rightarrow> PRegister \<Rightarrow> PRegisterZero \<Rightarrow> ZRegister \<Rightarrow> emitter" where
  "fcmeq_zero size' pd pg zn =
     SVEFPCompareWithZero 0b10 0 size' pd (PRegister_of_Zero pg) zn"

text \<open>\<^verbatim>\<open>fcmne\<close> (source line 2249).\<close>

definition fcmne_zero ::
  "SubRegSize \<Rightarrow> PRegister \<Rightarrow> PRegisterZero \<Rightarrow> ZRegister \<Rightarrow> emitter" where
  "fcmne_zero size' pd pg zn =
     SVEFPCompareWithZero 0b11 0 size' pd (PRegister_of_Zero pg) zn"

text \<open>\<^verbatim>\<open>fadda\<close> (source line 2255).\<close>

definition fadda ::
  "SubRegSize \<Rightarrow> VRegister \<Rightarrow> PRegister \<Rightarrow> VRegister \<Rightarrow> ZRegister \<Rightarrow> emitter" where
  "fadda size' vd pg vn zm =
     SVEFPSerialReductionPredicated 0b00 size' vd pg vn zm"

text \<open>\<^verbatim>\<open>ld1b\<close> (source line 2587).\<close>

definition ld1b_imm ::
  "SubRegSize \<Rightarrow> ZRegister \<Rightarrow> PRegisterZero \<Rightarrow> Register \<Rightarrow> int32_t \<Rightarrow> emitter" where
  "ld1b_imm size' zt pg rn Imm =
     LOGMAN_THROW_AA_FMT ((- 8) \<le> sint Imm \<and> sint Imm \<le> 7) ''Invalid sized loadstore offset size''
     (let Op = push_bit 13 0b1010010000000000101
      in SVEContiguousLoadImm Op (0b0000 OR (ToUnderlying size')) Imm (PRegister_of_Zero pg) rn zt)"

text \<open>\<^verbatim>\<open>ld1sw\<close> (source line 2593).\<close>

definition ld1sw_imm ::
  "ZRegister \<Rightarrow> PRegisterZero \<Rightarrow> Register \<Rightarrow> int32_t \<Rightarrow> emitter" where
  "ld1sw_imm zt pg rn Imm =
     LOGMAN_THROW_AA_FMT ((- 8) \<le> sint Imm \<and> sint Imm \<le> 7) ''Invalid sized loadstore offset size''
     (let Op = push_bit 13 0b1010010000000000101
      in SVEContiguousLoadImm Op 0b0100 Imm (PRegister_of_Zero pg) rn zt)"

text \<open>\<^verbatim>\<open>ld1h\<close> (source line 2600).\<close>

definition ld1h_imm ::
  "SubRegSize \<Rightarrow> ZRegister \<Rightarrow> PRegisterZero \<Rightarrow> Register \<Rightarrow> int32_t \<Rightarrow> emitter" where
  "ld1h_imm size' zt pg rn Imm =
     static_assert (size' \<noteq> i8Bit) ''Invalid size''
     (LOGMAN_THROW_AA_FMT ((- 8) \<le> sint Imm \<and> sint Imm \<le> 7) ''Invalid sized loadstore offset size''
      (let Op = push_bit 13 0b1010010000000000101
       in SVEContiguousLoadImm Op (0b0100 OR (ToUnderlying size')) Imm (PRegister_of_Zero pg) rn zt))"

text \<open>\<^verbatim>\<open>ld1sh\<close> (source line 2608).\<close>

definition ld1sh_imm ::
  "SubRegSize \<Rightarrow> ZRegister \<Rightarrow> PRegisterZero \<Rightarrow> Register \<Rightarrow> int32_t \<Rightarrow> emitter" where
  "ld1sh_imm size' zt pg rn Imm =
     static_assert (size' = i32Bit \<or> size' = i64Bit) ''Invalid size''
     (LOGMAN_THROW_AA_FMT ((- 8) \<le> sint Imm \<and> sint Imm \<le> 7) ''Invalid sized loadstore offset size''
      (let Op = push_bit 13 0b1010010000000000101;
           ConvertedSize = (if size' = i32Bit then 1 else (if size' = i64Bit then 0 else (- 1)))
       in SVEContiguousLoadImm Op (0b1000 OR ConvertedSize) Imm (PRegister_of_Zero pg) rn zt))"

text \<open>\<^verbatim>\<open>ld1w\<close> (source line 2621).\<close>

definition ld1w_imm ::
  "SubRegSize \<Rightarrow> ZRegister \<Rightarrow> PRegisterZero \<Rightarrow> Register \<Rightarrow> int32_t \<Rightarrow> emitter" where
  "ld1w_imm size' zt pg rn Imm =
     static_assert (size' = i32Bit \<or> size' = i64Bit) ''Invalid size''
     (LOGMAN_THROW_AA_FMT ((- 8) \<le> sint Imm \<and> sint Imm \<le> 7) ''Invalid sized loadstore offset size''
      (let Op = push_bit 13 0b1010010000000000101;
           ConvertedSize = (if size' = i32Bit then 1 else (if size' = i64Bit then 0 else (- 1)))
       in SVEContiguousLoadImm Op (0b1010 OR ConvertedSize) Imm (PRegister_of_Zero pg) rn zt))"

text \<open>\<^verbatim>\<open>ld1sb\<close> (source line 2634).\<close>

definition ld1sb_imm ::
  "SubRegSize \<Rightarrow> ZRegister \<Rightarrow> PRegisterZero \<Rightarrow> Register \<Rightarrow> int32_t \<Rightarrow> emitter" where
  "ld1sb_imm size' zt pg rn Imm =
     static_assert (size' = i16Bit \<or> size' = i32Bit \<or> size' = i64Bit) ''Invalid size''
     (LOGMAN_THROW_AA_FMT ((- 8) \<le> sint Imm \<and> sint Imm \<le> 7) ''Invalid sized loadstore offset size''
      (let Op = push_bit 13 0b1010010000000000101;
           ConvertedSize = (if size' = i16Bit then 0b10 else (if size' = i32Bit then 0b01 else (if size' = i64Bit then 0b00 else (- 1))))
       in SVEContiguousLoadImm Op (0b1100 OR ConvertedSize) Imm (PRegister_of_Zero pg) rn zt))"

text \<open>\<^verbatim>\<open>ld1d\<close> (source line 2646).\<close>

definition ld1d_imm ::
  "ZRegister \<Rightarrow> PRegisterZero \<Rightarrow> Register \<Rightarrow> int32_t \<Rightarrow> emitter" where
  "ld1d_imm zt pg rn Imm =
     LOGMAN_THROW_AA_FMT ((- 8) \<le> sint Imm \<and> sint Imm \<le> 7) ''Invalid sized loadstore offset size''
     (let Op = push_bit 13 0b1010010000000000101
      in SVEContiguousLoadImm Op 0b1111 Imm (PRegister_of_Zero pg) rn zt)"

text \<open>\<^verbatim>\<open>ld1b\<close> (source line 2658).\<close>

definition ld1b_reg ::
  "SubRegSize \<Rightarrow> ZRegister \<Rightarrow> PRegisterZero \<Rightarrow> Register \<Rightarrow> Register \<Rightarrow> emitter" where
  "ld1b_reg size' zt pg rn rm =
     (let Op = push_bit 13 0b1010010000000000010
      in SVEContiguousLoadStore Op (0b0000 OR (ToUnderlying size')) rm (PRegister_of_Zero pg) rn zt)"

text \<open>\<^verbatim>\<open>ld1sw\<close> (source line 2663).\<close>

definition ld1sw_reg ::
  "ZRegister \<Rightarrow> PRegisterZero \<Rightarrow> Register \<Rightarrow> Register \<Rightarrow> emitter" where
  "ld1sw_reg zt pg rn rm =
     (let Op = push_bit 13 0b1010010000000000010
      in SVEContiguousLoadStore Op 0b0100 rm (PRegister_of_Zero pg) rn zt)"

text \<open>\<^verbatim>\<open>ld1h\<close> (source line 2669).\<close>

definition ld1h_reg ::
  "SubRegSize \<Rightarrow> ZRegister \<Rightarrow> PRegisterZero \<Rightarrow> Register \<Rightarrow> Register \<Rightarrow> emitter" where
  "ld1h_reg size' zt pg rn rm =
     static_assert (size' \<noteq> i8Bit) ''Invalid size''
     (let Op = push_bit 13 0b1010010000000000010
      in SVEContiguousLoadStore Op (0b0100 OR (ToUnderlying size')) rm (PRegister_of_Zero pg) rn zt)"

text \<open>\<^verbatim>\<open>ld1sh\<close> (source line 2676).\<close>

definition ld1sh_reg ::
  "SubRegSize \<Rightarrow> ZRegister \<Rightarrow> PRegisterZero \<Rightarrow> Register \<Rightarrow> Register \<Rightarrow> emitter" where
  "ld1sh_reg size' zt pg rn rm =
     static_assert (size' = i32Bit \<or> size' = i64Bit) ''Invalid size''
     (let Op = push_bit 13 0b1010010000000000010;
          ConvertedSize = (if size' = i32Bit then 1 else (if size' = i64Bit then 0 else (- 1)))
      in SVEContiguousLoadStore Op (0b1000 OR ConvertedSize) rm (PRegister_of_Zero pg) rn zt)"

text \<open>\<^verbatim>\<open>ld1w\<close> (source line 2687).\<close>

definition ld1w_reg ::
  "SubRegSize \<Rightarrow> ZRegister \<Rightarrow> PRegisterZero \<Rightarrow> Register \<Rightarrow> Register \<Rightarrow> emitter" where
  "ld1w_reg size' zt pg rn rm =
     static_assert (size' = i32Bit \<or> size' = i64Bit) ''Invalid size''
     (let Op = push_bit 13 0b1010010000000000010;
          ConvertedSize = (if size' = i32Bit then 0 else (if size' = i64Bit then 1 else (- 1)))
      in SVEContiguousLoadStore Op (0b1010 OR ConvertedSize) rm (PRegister_of_Zero pg) rn zt)"

text \<open>\<^verbatim>\<open>ld1sb\<close> (source line 2697).\<close>

definition ld1sb_reg ::
  "SubRegSize \<Rightarrow> ZRegister \<Rightarrow> PRegisterZero \<Rightarrow> Register \<Rightarrow> Register \<Rightarrow> emitter" where
  "ld1sb_reg size' zt pg rn rm =
     static_assert (size' = i16Bit \<or> size' = i32Bit \<or> size' = i64Bit) ''Invalid size''
     (let Op = push_bit 13 0b1010010000000000010;
          ConvertedSize = (if size' = i16Bit then 0b10 else (if size' = i32Bit then 0b01 else (if size' = i64Bit then 0b00 else (- 1))))
      in SVEContiguousLoadStore Op (0b1100 OR ConvertedSize) rm (PRegister_of_Zero pg) rn zt)"

text \<open>\<^verbatim>\<open>ld1d\<close> (source line 2709).\<close>

definition ld1d_reg ::
  "ZRegister \<Rightarrow> PRegisterZero \<Rightarrow> Register \<Rightarrow> Register \<Rightarrow> emitter" where
  "ld1d_reg zt pg rn rm =
     (let Op = push_bit 13 0b1010010000000000010
      in SVEContiguousLoadStore Op 0b1111 rm (PRegister_of_Zero pg) rn zt)"

text \<open>\<^verbatim>\<open>st1b\<close> (source line 2743).\<close>

definition st1b_reg ::
  "SubRegSize \<Rightarrow> ZRegister \<Rightarrow> PRegister \<Rightarrow> Register \<Rightarrow> Register \<Rightarrow> emitter" where
  "st1b_reg size' zt pg rn rm =
     (let Op = push_bit 13 0b1110010000000000010
      in SVEContiguousLoadStore Op (0b0000 OR (ToUnderlying size')) rm pg rn zt)"

text \<open>\<^verbatim>\<open>st1h\<close> (source line 2749).\<close>

definition st1h_reg ::
  "SubRegSize \<Rightarrow> ZRegister \<Rightarrow> PRegister \<Rightarrow> Register \<Rightarrow> Register \<Rightarrow> emitter" where
  "st1h_reg size' zt pg rn rm =
     static_assert (size' \<noteq> i8Bit) ''Invalid size''
     (let Op = push_bit 13 0b1110010000000000010
      in SVEContiguousLoadStore Op (0b0100 OR (ToUnderlying size')) rm pg rn zt)"

text \<open>\<^verbatim>\<open>st1w\<close> (source line 2756).\<close>

definition st1w_reg ::
  "SubRegSize \<Rightarrow> ZRegister \<Rightarrow> PRegister \<Rightarrow> Register \<Rightarrow> Register \<Rightarrow> emitter" where
  "st1w_reg size' zt pg rn rm =
     static_assert (size' = i32Bit \<or> size' = i64Bit) ''Invalid size''
     (let Op = push_bit 13 0b1110010000000000010;
          ConvertedSize = (if size' = i32Bit then 0 else (if size' = i64Bit then 1 else (- 1)))
      in SVEContiguousLoadStore Op (0b1010 OR ConvertedSize) rm pg rn zt)"

text \<open>\<^verbatim>\<open>st1d\<close> (source line 2766).\<close>

definition st1d_reg ::
  "ZRegister \<Rightarrow> PRegister \<Rightarrow> Register \<Rightarrow> Register \<Rightarrow> emitter" where
  "st1d_reg zt pg rn rm =
     (let Op = push_bit 13 0b1110010000000000010
      in SVEContiguousLoadStore Op 0b1111 rm pg rn zt)"

text \<open>\<^verbatim>\<open>st1b\<close> (source line 2881).\<close>

definition st1b_imm ::
  "SubRegSize \<Rightarrow> ZRegister \<Rightarrow> PRegister \<Rightarrow> Register \<Rightarrow> int32_t \<Rightarrow> emitter" where
  "st1b_imm size' zt pg rn Imm =
     LOGMAN_THROW_AA_FMT ((- 8) \<le> sint Imm \<and> sint Imm \<le> 7) ''Invalid sized loadstore offset size''
     (let Op = push_bit 13 0b1110010000000000111
      in SVEContiguousLoadImm Op (0b0000 OR (ToUnderlying size')) Imm pg rn zt)"

text \<open>\<^verbatim>\<open>st1h\<close> (source line 2888).\<close>

definition st1h_imm ::
  "SubRegSize \<Rightarrow> ZRegister \<Rightarrow> PRegister \<Rightarrow> Register \<Rightarrow> int32_t \<Rightarrow> emitter" where
  "st1h_imm size' zt pg rn Imm =
     static_assert (size' \<noteq> i8Bit) ''Invalid size''
     (LOGMAN_THROW_AA_FMT ((- 8) \<le> sint Imm \<and> sint Imm \<le> 7) ''Invalid sized loadstore offset size''
      (let Op = push_bit 13 0b1110010000000000111
       in SVEContiguousLoadImm Op (0b0100 OR (ToUnderlying size')) Imm pg rn zt))"

text \<open>\<^verbatim>\<open>st1w\<close> (source line 2896).\<close>

definition st1w_imm ::
  "SubRegSize \<Rightarrow> ZRegister \<Rightarrow> PRegister \<Rightarrow> Register \<Rightarrow> int32_t \<Rightarrow> emitter" where
  "st1w_imm size' zt pg rn Imm =
     static_assert (size' = i32Bit \<or> size' = i64Bit) ''Invalid size''
     (LOGMAN_THROW_AA_FMT ((- 8) \<le> sint Imm \<and> sint Imm \<le> 7) ''Invalid sized loadstore offset size''
      (let Op = push_bit 13 0b1110010000000000111;
           ConvertedSize = (if size' = i32Bit then 0 else (if size' = i64Bit then 1 else (- 1)))
       in SVEContiguousLoadImm Op (0b1010 OR ConvertedSize) Imm pg rn zt))"

text \<open>\<^verbatim>\<open>st1d\<close> (source line 2908).\<close>

definition st1d_imm ::
  "ZRegister \<Rightarrow> PRegister \<Rightarrow> Register \<Rightarrow> int32_t \<Rightarrow> emitter" where
  "st1d_imm zt pg rn Imm =
     LOGMAN_THROW_AA_FMT ((- 8) \<le> sint Imm \<and> sint Imm \<le> 7) ''Invalid sized loadstore offset size''
     (let Op = push_bit 13 0b1110010000000000111
      in SVEContiguousLoadImm Op 0b1111 Imm pg rn zt)"

section \<open>Memory operand resolver\<close>

text \<open>The SVE helper implementations: each reads the tag of the memory operand and calls the
  contiguous load or store of that addressing mode. After a failed assertion nothing runs;
  a passed one would return without emitting.\<close>

text \<open>\<^verbatim>\<open>ld1b\<close> (source line 2376).\<close>

definition ld1b ::
  "SubRegSize \<Rightarrow> ZRegister \<Rightarrow> PRegisterZero \<Rightarrow> SVEMemOperand \<Rightarrow> emitter" where
  "ld1b size' zt pg Src =
     (if MemType Src = TYPE_SCALAR_SCALAR then
        ld1b_reg size' zt pg (Operand_rn Src) (ScalarScalarType_rm Src)
      else if MemType Src = TYPE_SCALAR_IMM then
        ld1b_imm size' zt pg (Operand_rn Src) (ScalarImmType_Imm Src)
      else if MemType Src = TYPE_SCALAR_VECTOR then
        LOGMAN_THROW_A_FMT False ''Not yet implemented'' return_void
      else if MemType Src = TYPE_VECTOR_IMM then
        LOGMAN_THROW_A_FMT False ''Not yet implemented'' return_void
      else FEX_UNREACHABLE)"

text \<open>\<^verbatim>\<open>ld1sw\<close> (source line 2394).\<close>

definition ld1sw ::
  "ZRegister \<Rightarrow> PRegisterZero \<Rightarrow> SVEMemOperand \<Rightarrow> emitter" where
  "ld1sw zt pg Src =
     (if MemType Src = TYPE_SCALAR_SCALAR then
        ld1sw_reg zt pg (Operand_rn Src) (ScalarScalarType_rm Src)
      else if MemType Src = TYPE_SCALAR_IMM then
        ld1sw_imm zt pg (Operand_rn Src) (ScalarImmType_Imm Src)
      else if MemType Src = TYPE_SCALAR_VECTOR then
        LOGMAN_THROW_A_FMT False ''Not yet implemented'' return_void
      else if MemType Src = TYPE_VECTOR_IMM then
        LOGMAN_THROW_A_FMT False ''Not yet implemented'' return_void
      else FEX_UNREACHABLE)"

text \<open>\<^verbatim>\<open>ld1h\<close> (source line 2413).\<close>

definition ld1h ::
  "SubRegSize \<Rightarrow> ZRegister \<Rightarrow> PRegisterZero \<Rightarrow> SVEMemOperand \<Rightarrow> emitter" where
  "ld1h size' zt pg Src =
     (if MemType Src = TYPE_SCALAR_SCALAR then
        ld1h_reg size' zt pg (Operand_rn Src) (ScalarScalarType_rm Src)
      else if MemType Src = TYPE_SCALAR_IMM then
        ld1h_imm size' zt pg (Operand_rn Src) (ScalarImmType_Imm Src)
      else if MemType Src = TYPE_SCALAR_VECTOR then
        LOGMAN_THROW_A_FMT False ''Not yet implemented'' return_void
      else if MemType Src = TYPE_VECTOR_IMM then
        LOGMAN_THROW_A_FMT False ''Not yet implemented'' return_void
      else FEX_UNREACHABLE)"

text \<open>\<^verbatim>\<open>ld1sh\<close> (source line 2432).\<close>

definition ld1sh ::
  "SubRegSize \<Rightarrow> ZRegister \<Rightarrow> PRegisterZero \<Rightarrow> SVEMemOperand \<Rightarrow> emitter" where
  "ld1sh size' zt pg Src =
     (if MemType Src = TYPE_SCALAR_SCALAR then
        ld1sh_reg size' zt pg (Operand_rn Src) (ScalarScalarType_rm Src)
      else if MemType Src = TYPE_SCALAR_IMM then
        ld1sh_imm size' zt pg (Operand_rn Src) (ScalarImmType_Imm Src)
      else if MemType Src = TYPE_SCALAR_VECTOR then
        LOGMAN_THROW_A_FMT False ''Not yet implemented'' return_void
      else if MemType Src = TYPE_VECTOR_IMM then
        LOGMAN_THROW_A_FMT False ''Not yet implemented'' return_void
      else FEX_UNREACHABLE)"

text \<open>\<^verbatim>\<open>ld1w\<close> (source line 2451).\<close>

definition ld1w ::
  "SubRegSize \<Rightarrow> ZRegister \<Rightarrow> PRegisterZero \<Rightarrow> SVEMemOperand \<Rightarrow> emitter" where
  "ld1w size' zt pg Src =
     (if MemType Src = TYPE_SCALAR_SCALAR then
        ld1w_reg size' zt pg (Operand_rn Src) (ScalarScalarType_rm Src)
      else if MemType Src = TYPE_SCALAR_IMM then
        ld1w_imm size' zt pg (Operand_rn Src) (ScalarImmType_Imm Src)
      else if MemType Src = TYPE_SCALAR_VECTOR then
        LOGMAN_THROW_A_FMT False ''Not yet implemented'' return_void
      else if MemType Src = TYPE_VECTOR_IMM then
        LOGMAN_THROW_A_FMT False ''Not yet implemented'' return_void
      else FEX_UNREACHABLE)"

text \<open>\<^verbatim>\<open>ld1sb\<close> (source line 2470).\<close>

definition ld1sb ::
  "SubRegSize \<Rightarrow> ZRegister \<Rightarrow> PRegisterZero \<Rightarrow> SVEMemOperand \<Rightarrow> emitter" where
  "ld1sb size' zt pg Src =
     (if MemType Src = TYPE_SCALAR_SCALAR then
        ld1sb_reg size' zt pg (Operand_rn Src) (ScalarScalarType_rm Src)
      else if MemType Src = TYPE_SCALAR_IMM then
        ld1sb_imm size' zt pg (Operand_rn Src) (ScalarImmType_Imm Src)
      else if MemType Src = TYPE_SCALAR_VECTOR then
        LOGMAN_THROW_A_FMT False ''Not yet implemented'' return_void
      else if MemType Src = TYPE_VECTOR_IMM then
        LOGMAN_THROW_A_FMT False ''Not yet implemented'' return_void
      else FEX_UNREACHABLE)"

text \<open>\<^verbatim>\<open>ld1d\<close> (source line 2488).\<close>

definition ld1d ::
  "ZRegister \<Rightarrow> PRegisterZero \<Rightarrow> SVEMemOperand \<Rightarrow> emitter" where
  "ld1d zt pg Src =
     (if MemType Src = TYPE_SCALAR_SCALAR then
        ld1d_reg zt pg (Operand_rn Src) (ScalarScalarType_rm Src)
      else if MemType Src = TYPE_SCALAR_IMM then
        ld1d_imm zt pg (Operand_rn Src) (ScalarImmType_Imm Src)
      else if MemType Src = TYPE_SCALAR_VECTOR then
        LOGMAN_THROW_A_FMT False ''Not yet implemented'' return_void
      else if MemType Src = TYPE_VECTOR_IMM then
        LOGMAN_THROW_A_FMT False ''Not yet implemented'' return_void
      else FEX_UNREACHABLE)"

text \<open>\<^verbatim>\<open>st1b\<close> (source line 2507).\<close>

definition st1b ::
  "SubRegSize \<Rightarrow> ZRegister \<Rightarrow> PRegister \<Rightarrow> SVEMemOperand \<Rightarrow> emitter" where
  "st1b size' zt pg Src =
     (if MemType Src = TYPE_SCALAR_SCALAR then
        st1b_reg size' zt pg (Operand_rn Src) (ScalarScalarType_rm Src)
      else if MemType Src = TYPE_SCALAR_IMM then
        st1b_imm size' zt pg (Operand_rn Src) (ScalarImmType_Imm Src)
      else if MemType Src = TYPE_SCALAR_VECTOR then
        LOGMAN_THROW_A_FMT False ''Not yet implemented'' return_void
      else if MemType Src = TYPE_VECTOR_IMM then
        LOGMAN_THROW_A_FMT False ''Not yet implemented'' return_void
      else FEX_UNREACHABLE)"

text \<open>\<^verbatim>\<open>st1h\<close> (source line 2526).\<close>

definition st1h ::
  "SubRegSize \<Rightarrow> ZRegister \<Rightarrow> PRegister \<Rightarrow> SVEMemOperand \<Rightarrow> emitter" where
  "st1h size' zt pg Src =
     (if MemType Src = TYPE_SCALAR_SCALAR then
        st1h_reg size' zt pg (Operand_rn Src) (ScalarScalarType_rm Src)
      else if MemType Src = TYPE_SCALAR_IMM then
        st1h_imm size' zt pg (Operand_rn Src) (ScalarImmType_Imm Src)
      else if MemType Src = TYPE_SCALAR_VECTOR then
        LOGMAN_THROW_A_FMT False ''Not yet implemented'' return_void
      else if MemType Src = TYPE_VECTOR_IMM then
        LOGMAN_THROW_A_FMT False ''Not yet implemented'' return_void
      else FEX_UNREACHABLE)"

text \<open>\<^verbatim>\<open>st1w\<close> (source line 2545).\<close>

definition st1w ::
  "SubRegSize \<Rightarrow> ZRegister \<Rightarrow> PRegister \<Rightarrow> SVEMemOperand \<Rightarrow> emitter" where
  "st1w size' zt pg Src =
     (if MemType Src = TYPE_SCALAR_SCALAR then
        st1w_reg size' zt pg (Operand_rn Src) (ScalarScalarType_rm Src)
      else if MemType Src = TYPE_SCALAR_IMM then
        st1w_imm size' zt pg (Operand_rn Src) (ScalarImmType_Imm Src)
      else if MemType Src = TYPE_SCALAR_VECTOR then
        LOGMAN_THROW_A_FMT False ''Not yet implemented'' return_void
      else if MemType Src = TYPE_VECTOR_IMM then
        LOGMAN_THROW_A_FMT False ''Not yet implemented'' return_void
      else FEX_UNREACHABLE)"

text \<open>\<^verbatim>\<open>st1d\<close> (source line 2563).\<close>

definition st1d ::
  "ZRegister \<Rightarrow> PRegister \<Rightarrow> SVEMemOperand \<Rightarrow> emitter" where
  "st1d zt pg Src =
     (if MemType Src = TYPE_SCALAR_SCALAR then
        st1d_reg zt pg (Operand_rn Src) (ScalarScalarType_rm Src)
      else if MemType Src = TYPE_SCALAR_IMM then
        st1d_imm zt pg (Operand_rn Src) (ScalarImmType_Imm Src)
      else if MemType Src = TYPE_SCALAR_VECTOR then
        LOGMAN_THROW_A_FMT False ''Not yet implemented'' return_void
      else if MemType Src = TYPE_VECTOR_IMM then
        LOGMAN_THROW_A_FMT False ''Not yet implemented'' return_void
      else FEX_UNREACHABLE)"

section \<open>Outcomes, fields and the documented formulas\<close>

text \<open>The call aborts on a failed assertion and leaves the buffer as it found it.\<close>

definition aborts :: "emitter \<Rightarrow> code_buffer \<Rightarrow> bool" where
  "aborts e buf = (case e buf of (Some (Abort msg), buf') \<Rightarrow> buf' = buf | _ \<Rightarrow> False)"

text \<open>The call returns and has appended exactly one word.\<close>

definition emits_one_word :: "emitter \<Rightarrow> code_buffer \<Rightarrow> bool" where
  "emits_one_word e buf =
     (case e buf of (None, buf') \<Rightarrow> buf' \<noteq> [] \<and> butlast buf' = buf | _ \<Rightarrow> False)"

text \<open>The field in bits \<open>hi:lo\<close> of an instruction word.\<close>

definition field :: "nat \<Rightarrow> nat \<Rightarrow> uint32_t \<Rightarrow> uint32_t" where
  "field hi lo w = take_bit (Suc hi - lo) (drop_bit lo w)"

text \<open>The precondition of the size/shift immediate splitter, in the words of section 4.3:
  for right shifts \<open>1 \<le> shift \<le> element-bit-width\<close>, for left shifts
  \<open>0 \<le> shift < element-bit-width\<close>.\<close>

definition legal_shift :: "SubRegSize \<Rightarrow> bool \<Rightarrow> uint32_t \<Rightarrow> bool" where
  "legal_shift size' left shift =
     (if left then 0 \<le> shift \<and> shift < SubRegSizeInBits size'
      else 1 \<le> shift \<and> shift \<le> SubRegSizeInBits size')"

text \<open>\<open>InverseShift\<close> in the words of section 4.3: \<open>(2 \<times> element-bit-width) - shift\<close> for
  right shifts, or simply \<open>shift\<close> for left shifts.\<close>

definition spec_InverseShift :: "SubRegSize \<Rightarrow> bool \<Rightarrow> uint32_t \<Rightarrow> uint32_t" where
  "spec_InverseShift size' left shift =
     (if left then shift else 2 * SubRegSizeInBits size' - shift)"

text \<open>The per-size table of section 4.3, as (tszh, tszl, imm3); the table has no row for
  128-bit elements. \<open>bit3\<close> and \<open>bit5\<close> are single bits of \<open>InverseShift\<close> and
  \<open>bits[4:3]\<close> is its two-bit field.\<close>

fun spec_tsz_imm3 :: "SubRegSize \<Rightarrow> uint32_t \<Rightarrow> (uint32_t \<times> uint32_t \<times> uint32_t) option" where
  "spec_tsz_imm3 i8Bit InverseShift = Some (0b00, 0b01, InverseShift AND 0b111)"
| "spec_tsz_imm3 i16Bit InverseShift = Some (0b00, 0b10 OR of_bool (bit InverseShift 3), InverseShift AND 0b111)"
| "spec_tsz_imm3 i32Bit InverseShift = Some (0b01, field 4 3 InverseShift, InverseShift AND 0b111)"
| "spec_tsz_imm3 i64Bit InverseShift = Some (0b10 OR of_bool (bit InverseShift 5), field 4 3 InverseShift, InverseShift AND 0b111)"
| "spec_tsz_imm3 i128Bit InverseShift = None"

text \<open>The inverse of the documented formula. The element size is the position of the
  highest set bit of \<open>tszh:tszl\<close>; the seven bits \<open>tszh:tszl:imm3\<close> read as a number are the
  element width plus the left shift, or twice the element width minus the right shift.\<close>

definition decode_size :: "uint32_t \<Rightarrow> uint32_t \<Rightarrow> SubRegSize option" where
  "decode_size tszh tszl =
     (if bit tszh 1 then Some i64Bit
      else if bit tszh 0 then Some i32Bit
      else if bit tszl 1 then Some i16Bit
      else if bit tszl 0 then Some i8Bit
      else None)"

definition decode_shift ::
  "bool \<Rightarrow> uint32_t \<Rightarrow> uint32_t \<Rightarrow> uint32_t \<Rightarrow> (SubRegSize \<times> uint32_t) option" where
  "decode_shift left tszh tszl imm3 =
     (case decode_size tszh tszl of
        None \<Rightarrow> None
      | Some size' \<Rightarrow>
          (let v = push_bit 5 tszh OR push_bit 3 tszl OR imm3;
               ElementSize = SubRegSizeInBits size'
           in Some (size', if left then v - ElementSize else 2 * ElementSize - v)))"

text \<open>The index ranges of the element-indexing \<^verbatim>\<open>dup\<close> (section 4.4): indices 0 to 63 for
  8-bit lanes down to 0 to 3 for 128-bit lanes.\<close>

fun dup_index_limit :: "SubRegSize \<Rightarrow> uint32_t" where
  "dup_index_limit i8Bit = 64"
| "dup_index_limit i16Bit = 32"
| "dup_index_limit i32Bit = 16"
| "dup_index_limit i64Bit = 8"
| "dup_index_limit i128Bit = 4"

text \<open>The outcome of a load/store helper on a memory operand, by addressing mode: the scalar
  forms behave as the form they are resolved to, the scalar-plus-scalar form emits its word,
  the scalar-plus-immediate form emits its word when the offset is within -8 to 7 and aborts
  otherwise, and the two vector forms abort.\<close>

definition legal_offset :: "int32_t \<Rightarrow> bool" where
  "legal_offset Imm = (- 8 \<le> sint Imm \<and> sint Imm \<le> 7)"

definition resolves_operand ::
  "emitter \<Rightarrow> emitter \<Rightarrow> emitter \<Rightarrow> SVEMemOperand \<Rightarrow> code_buffer \<Rightarrow> bool" where
  "resolves_operand helper reg_form imm_form Src buf =
     (case MemType Src of
        TYPE_SCALAR_SCALAR \<Rightarrow> helper buf = reg_form buf \<and> emits_one_word helper buf
      | TYPE_SCALAR_IMM \<Rightarrow>
          helper buf = imm_form buf \<and>
          (if legal_offset (ScalarImmType_Imm Src) then emits_one_word helper buf
           else aborts helper buf)
      | TYPE_SCALAR_VECTOR \<Rightarrow> aborts helper buf
      | TYPE_VECTOR_IMM \<Rightarrow> aborts helper buf)"

section \<open>Verification\<close>

subsection \<open>Words, bounds and bit fields\<close>

lemma take_bit_self_word: "(x::'a::len word) < 2 ^ n \<Longrightarrow> take_bit n x = x"
  by (simp add: take_bit_eq_mask less_mask_eq)

lemma idx_lt32: "(x::uint32_t) < 32 \<Longrightarrow> take_bit 5 x = x"
  using take_bit_self_word[of x 5] by simp

lemma idx_le7: "(x::uint32_t) \<le> 7 \<Longrightarrow> take_bit 3 x = x"
  using take_bit_self_word[of x 3] by (simp add: word_less_nat_alt word_le_nat_alt)

lemma idx_le3: "(x::uint32_t) \<le> 3 \<Longrightarrow> take_bit 2 x = x"
  using take_bit_self_word[of x 2] by (simp add: word_less_nat_alt word_le_nat_alt)

lemma word_le1_cases: "(x::uint32_t) \<le> 1 \<Longrightarrow> x = 0 \<or> x = 1"
  by unat_arith

lemma and7: "(x::uint32_t) AND 7 = take_bit 3 x"
  using take_bit_eq_mask[of 3 x] by (simp add: mask_eq_exp_minus_1)

lemma and3: "(x::uint32_t) AND 3 = take_bit 2 x"
  using take_bit_eq_mask[of 2 x] by (simp add: mask_eq_exp_minus_1)

lemma and1_drop_bit: "drop_bit n (x::uint32_t) AND 1 = of_bool (bit x n)"
  by (simp add: bit_iff_odd_drop_bit and_one_eq mod_2_eq_odd)

lemma word_list_all_range:
  fixes P :: "uint32_t \<Rightarrow> bool"
  assumes "list_all (\<lambda>i. P (of_nat i)) [a..<b]" and "a \<le> unat x" and "unat x < b"
  shows "P x"
proof -
  have "unat x \<in> set [a..<b]" using assms(2,3) by simp
  moreover have "\<forall>i\<in>set [a..<b]. P (of_nat i)" using assms(1) by (simp add: list_all_iff)
  ultimately have "P (of_nat (unat x))" by blast
  then show ?thesis by simp
qed

subsection \<open>Field extraction\<close>

lemma field_or: "field hi lo (a OR b) = field hi lo a OR field hi lo b"
  by (simp add: field_def take_bit_or drop_bit_or)

lemma field_zero: "field hi lo 0 = 0"
  by (simp add: field_def)

lemma field_push_above: "hi < n \<Longrightarrow> field hi lo (push_bit n x) = 0"
  by (rule bit_word_eqI) (auto simp: field_def bit_simps)

lemma field_push_below: "n + k \<le> lo \<Longrightarrow> field hi lo (push_bit n (take_bit k x)) = 0"
  by (rule bit_word_eqI) (auto simp: field_def bit_simps)

lemma field_push_bool_below: "n < lo \<Longrightarrow> field hi lo (push_bit n (of_bool b)) = 0"
  by (rule bit_word_eqI) (auto simp: field_def bit_simps)

lemma field_take_below: "k \<le> lo \<Longrightarrow> field hi lo (take_bit k x) = 0"
  by (rule bit_word_eqI) (auto simp: field_def bit_simps)

lemma field_push_exact:
  "lo + k \<le> Suc hi \<Longrightarrow> hi < 32 \<Longrightarrow> field hi lo (push_bit lo (take_bit k x)) = take_bit k x"
  by (rule bit_word_eqI) (auto simp: field_def bit_simps)

lemma field_push_bool_exact:
  "lo \<le> hi \<Longrightarrow> hi < 32 \<Longrightarrow> field hi lo (push_bit lo (of_bool b)) = of_bool b"
  by (rule bit_word_eqI) (auto simp: field_def bit_simps)

lemma field_take_exact: "k \<le> Suc hi \<Longrightarrow> field hi 0 (take_bit k x) = take_bit k x"
  by (rule bit_word_eqI) (auto simp: field_def bit_simps)

lemma field_numeral: "field hi lo (numeral v) = take_bit (Suc hi - lo) (drop_bit lo (numeral v))"
  by (simp add: field_def)

lemmas field_simps' = field_or field_zero field_push_above field_push_below field_push_bool_below
  field_take_below field_push_exact field_push_bool_exact field_take_exact field_numeral

subsection \<open>The size/shift immediate splitter\<close>

text \<open>The chain of tests of the source computes the table of the specification.\<close>

lemma splitter_is_spec_table:
  "(if size' = i8Bit then Some (0b00, 0b01, iv AND 0b111)
    else if size' = i16Bit then Some (0b00, 0b10 OR (drop_bit 3 iv AND 0b1), iv AND 0b111)
    else if size' = i32Bit then Some (0b01, drop_bit 3 iv AND 0b11, iv AND 0b111)
    else if size' = i64Bit then
      Some (0b10 OR (drop_bit 5 iv AND 1), drop_bit 3 iv AND 0b11, iv AND 0b111)
    else None) = spec_tsz_imm3 size' iv"
proof (cases size')
  case i16Bit
  show ?thesis using i16Bit by (simp only: and1_drop_bit) simp
next
  case i64Bit
  show ?thesis using i64Bit by (simp only: and1_drop_bit) (simp add: field_def and3)
qed (simp_all add: field_def and3)

lemma spec_tsz_imm3_bounds:
  assumes "spec_tsz_imm3 size' iv = Some (tszh, tszl, imm3)"
  shows "take_bit 2 tszh = tszh \<and> take_bit 2 tszl = tszl \<and> take_bit 3 imm3 = imm3"
proof (cases size')
  case i16Bit
  have "take_bit 2 ((2::uint32_t) OR of_bool (bit iv 3)) = 2 OR of_bool (bit iv 3)"
    by (rule bit_word_eqI) (auto simp: bit_simps)
  then show ?thesis using assms i16Bit by (auto simp: and7)
next
  case i64Bit
  have "take_bit 2 ((2::uint32_t) OR of_bool (bit iv 5)) = 2 OR of_bool (bit iv 5)"
    by (rule bit_word_eqI) (auto simp: bit_simps)
  then show ?thesis using assms i64Bit by (auto simp: and7 field_def)
qed (use assms in \<open>auto simp: and7 field_def\<close>)

text \<open>What the predicated primitive emits when its assertions hold.\<close>

lemma SVEBitWiseShiftImmediatePred_emits:
  assumes "size' \<noteq> i128Bit" and "zd = zdn" and "PRegister.Idx pg \<le> 7"
    and "legal_shift size' (L \<noteq> 0) Shift"
    and "spec_tsz_imm3 size' (spec_InverseShift size' (L \<noteq> 0) Shift) = Some (tszh, tszl, imm3)"
  shows "SVEBitWiseShiftImmediatePred size' opc L U pg zd zdn Shift buf =
           (None, buf @ [push_bit 13 0b0000010000000000100 OR push_bit 22 tszh OR push_bit 18 opc
                          OR push_bit 17 L OR push_bit 16 U OR push_bit 10 (PRegister.Idx pg)
                          OR push_bit 8 tszl OR push_bit 5 imm3 OR ZRegister.Idx zd])"
  using assms
  unfolding SVEBitWiseShiftImmediatePred_def Let_def splitter_is_spec_table
  by (auto simp: LOGMAN_THROW_AA_FMT_def LOGMAN_THROW_A_FMT_def PRegister_le_def PReg_p7_def
      legal_shift_def spec_InverseShift_def dc32_def ac_simps word_less_nat_alt word_le_nat_alt
      split: if_splits)

lemma pred_shift_word_fields:
  fixes tszh tszl imm3 opc L U pg zd :: uint32_t
  assumes "take_bit 2 tszh = tszh" "take_bit 2 tszl = tszl" "take_bit 3 imm3 = imm3"
    and "opc \<le> 3" "L \<le> 1" "U \<le> 1" "pg \<le> 7" "zd < 32"
  defines "w \<equiv> push_bit 13 0b0000010000000000100 OR push_bit 22 tszh OR push_bit 18 opc
                          OR push_bit 17 L OR push_bit 16 U OR push_bit 10 pg
                          OR push_bit 8 tszl OR push_bit 5 imm3 OR zd"
  shows "field 23 22 w = tszh \<and> field 9 8 w = tszl \<and> field 7 5 w = imm3"
proof -
  have b: "opc = take_bit 2 opc" "pg = take_bit 3 pg"
    "zd = take_bit 5 zd" "tszh = take_bit 2 tszh" "tszl = take_bit 2 tszl" "imm3 = take_bit 3 imm3"
    using assms by (simp_all add: idx_le3 idx_le7 idx_lt32)
  have LU: "L = of_bool (L \<noteq> 0)" "U = of_bool (U \<noteq> 0)"
    using assms word_le1_cases[of L] word_le1_cases[of U] by auto
  have w: "w = push_bit 13 0b0000010000000000100 OR push_bit 22 (take_bit 2 tszh)
                OR push_bit 18 (take_bit 2 opc) OR push_bit 17 (of_bool (L \<noteq> 0))
                OR push_bit 16 (of_bool (U \<noteq> 0)) OR push_bit 10 (take_bit 3 pg)
                OR push_bit 8 (take_bit 2 tszl) OR push_bit 5 (take_bit 3 imm3) OR take_bit 5 zd"
    unfolding w_def using b LU by simp
  have "field 23 22 w = take_bit 2 tszh" "field 9 8 w = take_bit 2 tszl"
    "field 7 5 w = take_bit 3 imm3"
    unfolding w by (simp_all add: field_simps')
  then show ?thesis using assms(1-3) by simp
qed

lemma unpred_shift_word_fields:
  fixes tszh tszl imm3 opc zn zd :: uint32_t
  assumes "take_bit 2 tszh = tszh" "take_bit 2 tszl = tszl" "take_bit 3 imm3 = imm3"
    and "opc \<le> 3" "zn < 32" "zd < 32"
  defines "w \<equiv> 0b00000100001000001001000000000000 OR push_bit 22 tszh OR push_bit 19 tszl
                  OR push_bit 16 imm3 OR push_bit 10 opc OR push_bit 5 zn OR zd"
  shows "field 23 22 w = tszh \<and> field 20 19 w = tszl \<and> field 18 16 w = imm3"
proof -
  have b: "opc = take_bit 2 opc" "zn = take_bit 5 zn"
    "zd = take_bit 5 zd" "tszh = take_bit 2 tszh" "tszl = take_bit 2 tszl" "imm3 = take_bit 3 imm3"
    using assms by (simp_all add: idx_le3 idx_lt32)
  have w: "w = 0b00000100001000001001000000000000 OR push_bit 22 (take_bit 2 tszh)
                OR push_bit 19 (take_bit 2 tszl) OR push_bit 16 (take_bit 3 imm3)
                OR push_bit 10 (take_bit 2 opc) OR push_bit 5 (take_bit 5 zn) OR take_bit 5 zd"
    unfolding w_def using b by simp
  have "field 23 22 w = take_bit 2 tszh" "field 20 19 w = take_bit 2 tszl"
    "field 18 16 w = take_bit 3 imm3"
    unfolding w by (simp_all add: field_simps')
  then show ?thesis using assms(1-3) by simp
qed

lemma SVEBitWiseShiftImmediateUnpred_emits:
  assumes "size' \<noteq> i128Bit" and "legal_shift size' (opc = 3) Shift"
    and "spec_tsz_imm3 size' (spec_InverseShift size' (opc = 3) Shift) = Some (tszh, tszl, imm3)"
  shows "SVEBitWiseShiftImmediateUnpred size' opc zd zn Shift buf =
           (None, buf @ [0b00000100001000001001000000000000 OR push_bit 22 tszh OR push_bit 19 tszl
                  OR push_bit 16 imm3 OR push_bit 10 opc OR push_bit 5 (ZRegister.Idx zn)
                  OR ZRegister.Idx zd])"
  using assms
  unfolding SVEBitWiseShiftImmediateUnpred_def Let_def splitter_is_spec_table
  by (auto simp: LOGMAN_THROW_AA_FMT_def LOGMAN_THROW_A_FMT_def
      legal_shift_def spec_InverseShift_def dc32_def ac_simps word_less_nat_alt word_le_nat_alt
      split: if_splits)

lemma spec_tsz_imm3_Some:
  "size' \<noteq> i128Bit \<Longrightarrow> \<exists>tszh tszl imm3. spec_tsz_imm3 size' iv = Some (tszh, tszl, imm3)"
  by (cases size') simp_all

text \<open>The decoder inverts the table on every legal shift: the legal shifts of each element
  size and direction are enumerated.\<close>

lemma decode_inverts_left:
  "list_all (\<lambda>i. case spec_tsz_imm3 i8Bit (spec_InverseShift i8Bit True (of_nat i)) of
      None \<Rightarrow> False | Some (a, b, c) \<Rightarrow> decode_shift True a b c = Some (i8Bit, of_nat i)) [0..<8]"
  "list_all (\<lambda>i. case spec_tsz_imm3 i16Bit (spec_InverseShift i16Bit True (of_nat i)) of
      None \<Rightarrow> False | Some (a, b, c) \<Rightarrow> decode_shift True a b c = Some (i16Bit, of_nat i)) [0..<16]"
  "list_all (\<lambda>i. case spec_tsz_imm3 i32Bit (spec_InverseShift i32Bit True (of_nat i)) of
      None \<Rightarrow> False | Some (a, b, c) \<Rightarrow> decode_shift True a b c = Some (i32Bit, of_nat i)) [0..<32]"
  "list_all (\<lambda>i. case spec_tsz_imm3 i64Bit (spec_InverseShift i64Bit True (of_nat i)) of
      None \<Rightarrow> False | Some (a, b, c) \<Rightarrow> decode_shift True a b c = Some (i64Bit, of_nat i)) [0..<64]"
  by (simp_all add: upt_rec spec_InverseShift_def decode_shift_def decode_size_def field_def)

lemma decode_inverts_right:
  "list_all (\<lambda>i. case spec_tsz_imm3 i8Bit (spec_InverseShift i8Bit False (of_nat i)) of
      None \<Rightarrow> False | Some (a, b, c) \<Rightarrow> decode_shift False a b c = Some (i8Bit, of_nat i)) [1..<9]"
  "list_all (\<lambda>i. case spec_tsz_imm3 i16Bit (spec_InverseShift i16Bit False (of_nat i)) of
      None \<Rightarrow> False | Some (a, b, c) \<Rightarrow> decode_shift False a b c = Some (i16Bit, of_nat i)) [1..<17]"
  "list_all (\<lambda>i. case spec_tsz_imm3 i32Bit (spec_InverseShift i32Bit False (of_nat i)) of
      None \<Rightarrow> False | Some (a, b, c) \<Rightarrow> decode_shift False a b c = Some (i32Bit, of_nat i)) [1..<33]"
  "list_all (\<lambda>i. case spec_tsz_imm3 i64Bit (spec_InverseShift i64Bit False (of_nat i)) of
      None \<Rightarrow> False | Some (a, b, c) \<Rightarrow> decode_shift False a b c = Some (i64Bit, of_nat i)) [1..<65]"
  by (simp_all add: upt_rec spec_InverseShift_def decode_shift_def decode_size_def field_def)

lemma decode_shift_inverts_table:
  assumes "size' \<noteq> i128Bit" and "legal_shift size' left Shift"
    and "spec_tsz_imm3 size' (spec_InverseShift size' left Shift) = Some (tszh, tszl, imm3)"
  shows "decode_shift left tszh tszl imm3 = Some (size', Shift)"
proof -
  let ?P = "\<lambda>sz l s. case spec_tsz_imm3 sz (spec_InverseShift sz l s) of
      None \<Rightarrow> False | Some (a, b, c) \<Rightarrow> decode_shift l a b c = Some (sz, s)"
  have range: "?P sz l Shift"
    if "list_all (\<lambda>i. ?P sz l (of_nat i)) [a..<b]" "a \<le> unat Shift" "unat Shift < b"
    for sz l a b
    using that by (rule word_list_all_range[where P = "?P sz l"])
  have "?P size' left Shift"
  proof (cases left)
    case True
    then have r: "unat Shift < unat (SubRegSizeInBits size')"
      using assms(2) by (simp add: legal_shift_def word_less_nat_alt)
    show ?thesis
    proof (cases size')
      case i8Bit
      then show ?thesis using range[OF decode_inverts_left(1)] r True by simp
    next
      case i16Bit
      then show ?thesis using range[OF decode_inverts_left(2)] r True by simp
    next
      case i32Bit
      then show ?thesis using range[OF decode_inverts_left(3)] r True by simp
    next
      case i64Bit
      then show ?thesis using range[OF decode_inverts_left(4)] r True by simp
    next
      case i128Bit
      then show ?thesis using assms(1) by simp
    qed
  next
    case False
    then have r: "1 \<le> unat Shift" "unat Shift < Suc (unat (SubRegSizeInBits size'))"
      using assms(2) by (simp_all add: legal_shift_def word_le_nat_alt)
    show ?thesis
    proof (cases size')
      case i8Bit
      then show ?thesis using range[OF decode_inverts_right(1)] r False by simp
    next
      case i16Bit
      then show ?thesis using range[OF decode_inverts_right(2)] r False by simp
    next
      case i32Bit
      then show ?thesis using range[OF decode_inverts_right(3)] r False by simp
    next
      case i64Bit
      then show ?thesis using range[OF decode_inverts_right(4)] r False by simp
    next
      case i128Bit
      then show ?thesis using assms(1) by simp
    qed
  qed
  then show ?thesis using assms(3) by simp
qed


lemma SVEBitWiseShiftImmediatePred_split:
  assumes "size' \<noteq> i128Bit" and "zd = zdn" and "PRegister.Idx pg \<le> 7"
    and "ZRegister.Idx zd < 32" and "opc \<le> 3" and "L \<le> 1" and "U \<le> 1"
    and "legal_shift size' (L \<noteq> 0) Shift"
  shows "\<exists>w. SVEBitWiseShiftImmediatePred size' opc L U pg zd zdn Shift buf = (None, buf @ [w])
           \<and> spec_tsz_imm3 size' (spec_InverseShift size' (L \<noteq> 0) Shift)
               = Some (field 23 22 w, field 9 8 w, field 7 5 w)"
proof -
  obtain tszh tszl imm3 where
    t: "spec_tsz_imm3 size' (spec_InverseShift size' (L \<noteq> 0) Shift) = Some (tszh, tszl, imm3)"
    using spec_tsz_imm3_Some[OF assms(1)] by blast
  note b = spec_tsz_imm3_bounds[OF t]
  show ?thesis
    using SVEBitWiseShiftImmediatePred_emits[OF assms(1,2,3,8) t, of opc U buf]
      pred_shift_word_fields[of tszh tszl imm3 opc L U "PRegister.Idx pg" "ZRegister.Idx zd"]
      b assms(3-7) t
    by simp
qed

lemma SVEBitWiseShiftImmediateUnpred_split:
  assumes "size' \<noteq> i128Bit" and "ZRegister.Idx zn < 32"
    and "ZRegister.Idx zd < 32" and "opc \<le> 3"
    and "legal_shift size' (opc = 3) Shift"
  shows "\<exists>w. SVEBitWiseShiftImmediateUnpred size' opc zd zn Shift buf = (None, buf @ [w])
           \<and> spec_tsz_imm3 size' (spec_InverseShift size' (opc = 3) Shift)
               = Some (field 23 22 w, field 20 19 w, field 18 16 w)"
proof -
  obtain tszh tszl imm3 where
    t: "spec_tsz_imm3 size' (spec_InverseShift size' (opc = 3) Shift) = Some (tszh, tszl, imm3)"
    using spec_tsz_imm3_Some[OF assms(1)] by blast
  note b = spec_tsz_imm3_bounds[OF t]
  show ?thesis
    using SVEBitWiseShiftImmediateUnpred_emits[OF assms(1,5) t, of zd zn buf]
      unpred_shift_word_fields[of tszh tszl imm3 opc "ZRegister.Idx zn" "ZRegister.Idx zd"]
      b assms(2-4) t
    by simp
qed

text \<open>
  Claim C2. For every element size of 8, 16, 32 or 64 bits and every legal shift amount,
  each of the nine predicated shift-by-immediate mnemonics emits one word whose fields
  tszh (bits 23:22), tszl (bits 9:8) and imm3 (bits 7:5) are the row of the specification's
  table for \<open>InverseShift\<close>, which is twice the element width minus the shift for the right
  shifts (asr, lsr, asrd, srshr, urshr) and the shift itself for the left shifts (lsl, sqshl,
  uqshl, sqshlu). In particular lsr with 32-bit elements and shift 17 has
  \<open>InverseShift = 47\<close>, tszh = 0b01, tszl = 0b01 and imm3 = 0b111.
\<close>

theorem predicated_shift_immediate_fields:
  assumes "size' \<noteq> i128Bit" and "zd = zdn" and "PRegisterMerge.Idx pg \<le> 7"
    and "ZRegister.Idx zd < 32"
    and "legal_shift size' False rshift" and "legal_shift size' True lshift"
  shows
    "(\<exists>w. asr_pred_imm size' zd pg zdn rshift buf = (None, buf @ [w]) \<and>
        spec_tsz_imm3 size' (spec_InverseShift size' False rshift)
          = Some (field 23 22 w, field 9 8 w, field 7 5 w)) \<and>
     (\<exists>w. lsr_pred_imm size' zd pg zdn rshift buf = (None, buf @ [w]) \<and>
        spec_tsz_imm3 size' (spec_InverseShift size' False rshift)
          = Some (field 23 22 w, field 9 8 w, field 7 5 w)) \<and>
     (\<exists>w. lsl_pred_imm size' zd pg zdn lshift buf = (None, buf @ [w]) \<and>
        spec_tsz_imm3 size' (spec_InverseShift size' True lshift)
          = Some (field 23 22 w, field 9 8 w, field 7 5 w)) \<and>
     (\<exists>w. asrd size' zd pg zdn rshift buf = (None, buf @ [w]) \<and>
        spec_tsz_imm3 size' (spec_InverseShift size' False rshift)
          = Some (field 23 22 w, field 9 8 w, field 7 5 w)) \<and>
     (\<exists>w. sqshl size' zd pg zdn lshift buf = (None, buf @ [w]) \<and>
        spec_tsz_imm3 size' (spec_InverseShift size' True lshift)
          = Some (field 23 22 w, field 9 8 w, field 7 5 w)) \<and>
     (\<exists>w. uqshl size' zd pg zdn lshift buf = (None, buf @ [w]) \<and>
        spec_tsz_imm3 size' (spec_InverseShift size' True lshift)
          = Some (field 23 22 w, field 9 8 w, field 7 5 w)) \<and>
     (\<exists>w. srshr size' zd pg zdn rshift buf = (None, buf @ [w]) \<and>
        spec_tsz_imm3 size' (spec_InverseShift size' False rshift)
          = Some (field 23 22 w, field 9 8 w, field 7 5 w)) \<and>
     (\<exists>w. urshr size' zd pg zdn rshift buf = (None, buf @ [w]) \<and>
        spec_tsz_imm3 size' (spec_InverseShift size' False rshift)
          = Some (field 23 22 w, field 9 8 w, field 7 5 w)) \<and>
     (\<exists>w. sqshlu size' zd pg zdn lshift buf = (None, buf @ [w]) \<and>
        spec_tsz_imm3 size' (spec_InverseShift size' True lshift)
          = Some (field 23 22 w, field 9 8 w, field 7 5 w)) \<and>
     spec_InverseShift i32Bit False 17 = 47 \<and>
     spec_tsz_imm3 i32Bit 47 = Some (0b01, 0b01, 0b111)"
proof -
  have pg: "PRegister.Idx (PRegister_of_Merge pg) \<le> 7"
    using assms(3) by (simp add: PRegister_of_Merge_def)
  note r = SVEBitWiseShiftImmediatePred_split[OF assms(1,2) pg assms(4), where L = 0 and buf = buf,
      simplified, OF _ _ assms(5)]
  note l = SVEBitWiseShiftImmediatePred_split[OF assms(1,2) pg assms(4), where L = 1 and buf = buf,
      simplified, OF _ _ assms(6)]
  have "spec_InverseShift i32Bit False 17 = 47 \<and> spec_tsz_imm3 i32Bit 47 = Some (0b01, 0b01, 0b111)"
    by (simp add: spec_InverseShift_def field_def)
  then show ?thesis
    unfolding asr_pred_imm_def lsr_pred_imm_def lsl_pred_imm_def asrd_def sqshl_def uqshl_def
      srshr_def urshr_def sqshlu_def
    using r[of "0b00" 0] r[of "0b00" 1] l[of "0b00" 1] r[of "0b01" 0] l[of "0b01" 0] l[of "0b01" 1]
      r[of "0b11" 0] r[of "0b11" 1] l[of "0b11" 1]
    by simp
qed

theorem predicated_shift_immediate_fields_witness:
  "\<exists>w. lsr_pred_imm i32Bit (ZRegister 5) (PRegisterMerge 3) (ZRegister 5) 17 [] = (None, [w]) \<and>
       field 23 22 w = 0b01 \<and> field 9 8 w = 0b01 \<and> field 7 5 w = 0b111"
proof -
  have h: "i32Bit \<noteq> i128Bit" "ZRegister 5 = ZRegister 5"
    "PRegisterMerge.Idx (PRegisterMerge 3) \<le> 7" "ZRegister.Idx (ZRegister 5) < 32"
    "legal_shift i32Bit False 17" "legal_shift i32Bit True 3"
    by (simp_all add: legal_shift_def)
  from predicated_shift_immediate_fields[OF h, of "[]", THEN conjunct2, THEN conjunct1]
  obtain w where
    "lsr_pred_imm i32Bit (ZRegister 5) (PRegisterMerge 3) (ZRegister 5) 17 [] = (None, [w])"
    "spec_tsz_imm3 i32Bit (spec_InverseShift i32Bit False 17)
       = Some (field 23 22 w, field 9 8 w, field 7 5 w)"
    by auto
  moreover have "spec_tsz_imm3 i32Bit (spec_InverseShift i32Bit False 17) = Some (0b01, 0b01, 0b111)"
    by (simp add: spec_InverseShift_def field_def)
  ultimately show ?thesis by simp
qed

text \<open>
  Claim C3. For every element size of 8, 16, 32 or 64 bits, each direction and every shift
  amount that satisfies the precondition, the triple (tszh, tszl, imm3) in the word that the
  predicated and the unpredicated shift-by-immediate primitives emit determines the element
  size and the shift: the inverse of the documented formula, applied to the emitted
  fields, gives back exactly the size and the shift that were passed in.
\<close>

theorem shift_split_round_trip:
  assumes "size' \<noteq> i128Bit"
    and "zd = zdn" and "PRegister.Idx pg \<le> 7" and "ZRegister.Idx zd < 32"
    and "opc \<le> 3" and "L \<le> 1" and "U \<le> 1" and "legal_shift size' (L \<noteq> 0) Shift"
    and "ZRegister.Idx zn < 32" and "opc' \<le> 3" and "legal_shift size' (opc' = 3) Shift'"
  shows
    "(\<exists>w. SVEBitWiseShiftImmediatePred size' opc L U pg zd zdn Shift buf = (None, buf @ [w]) \<and>
        decode_shift (L \<noteq> 0) (field 23 22 w) (field 9 8 w) (field 7 5 w) = Some (size', Shift)) \<and>
     (\<exists>w. SVEBitWiseShiftImmediateUnpred size' opc' zd zn Shift' buf = (None, buf @ [w]) \<and>
        decode_shift (opc' = 3) (field 23 22 w) (field 20 19 w) (field 18 16 w)
          = Some (size', Shift'))"
proof -
  obtain w where w: "SVEBitWiseShiftImmediatePred size' opc L U pg zd zdn Shift buf = (None, buf @ [w])"
    "spec_tsz_imm3 size' (spec_InverseShift size' (L \<noteq> 0) Shift)
       = Some (field 23 22 w, field 9 8 w, field 7 5 w)"
    using SVEBitWiseShiftImmediatePred_split[OF assms(1-8)] by blast
  obtain w' where w': "SVEBitWiseShiftImmediateUnpred size' opc' zd zn Shift' buf = (None, buf @ [w'])"
    "spec_tsz_imm3 size' (spec_InverseShift size' (opc' = 3) Shift')
       = Some (field 23 22 w', field 20 19 w', field 18 16 w')"
    using SVEBitWiseShiftImmediateUnpred_split[OF assms(1,9,4,10,11)] by blast
  show ?thesis
    using w(1) w'(1) decode_shift_inverts_table[OF assms(1,8) w(2)]
      decode_shift_inverts_table[OF assms(1,11) w'(2)]
    by blast
qed

theorem shift_split_round_trip_witness:
  "(\<exists>w. SVEBitWiseShiftImmediatePred i32Bit 0 0 1 (PRegister 3) (ZRegister 5) (ZRegister 5) 17 []
          = (None, [w]) \<and>
        decode_shift False (field 23 22 w) (field 9 8 w) (field 7 5 w) = Some (i32Bit, 17)) \<and>
   (\<exists>w. SVEBitWiseShiftImmediateUnpred i16Bit 3 (ZRegister 5) (ZRegister 6) 15 [] = (None, [w]) \<and>
        decode_shift True (field 23 22 w) (field 20 19 w) (field 18 16 w) = Some (i16Bit, 15))"
proof -
  have "(\<exists>w. SVEBitWiseShiftImmediatePred i32Bit 0 0 1 (PRegister 3) (ZRegister 5) (ZRegister 5) 17 []
          = (None, [w]) \<and>
        decode_shift False (field 23 22 w) (field 9 8 w) (field 7 5 w) = Some (i32Bit, 17))"
    using shift_split_round_trip[of i32Bit "ZRegister 5" "ZRegister 5" "PRegister 3" 0 0 1 17
        "ZRegister 6" 3 15 "[]"]
    by (simp add: legal_shift_def)
  moreover have "(\<exists>w. SVEBitWiseShiftImmediateUnpred i16Bit 3 (ZRegister 5) (ZRegister 6) 15 [] = (None, [w]) \<and>
        decode_shift True (field 23 22 w) (field 20 19 w) (field 18 16 w) = Some (i16Bit, 15))"
    using shift_split_round_trip[of i16Bit "ZRegister 5" "ZRegister 5" "PRegister 3" 0 0 1 3
        "ZRegister 6" 3 15 "[]"]
    by (simp add: legal_shift_def)
  ultimately show ?thesis by blast
qed

text \<open>
  Claim C1. The unpredicated vector add with 64-bit elements and operands z0, z1, z2
  appends exactly one word to the output stream, and that word is \<open>0x04E20020\<close>: the
  opcode template with size code \<open>0b11\<close> in bits 23:22, zm = 2 in bits 20:16, zn = 1 in
  bits 9:5 and zd = 0 in bits 4:0.
\<close>

theorem add_64bit_z0_z1_z2:
  "add i64Bit (ZRegister 0) (ZRegister 1) (ZRegister 2) buf = (None, buf @ [0x04E20020])
   \<and> (0x04E20020 :: uint32_t) =
       push_bit 13 0b0000010000100000000 OR push_bit 22 0b11 OR push_bit 16 2 OR push_bit 5 1 OR 0"
  by (simp add: add_def SVEIntegerAddSubUnpredicated_def LOGMAN_THROW_AA_FMT_def dc32_def)

subsection \<open>Aborting emitters\<close>

lemma aborts_simps:
  "aborts (LOGMAN_THROW_AA_FMT c msg k) buf = (c \<longrightarrow> aborts k buf)"
  "aborts (LOGMAN_THROW_A_FMT c msg k) buf = (c \<longrightarrow> aborts k buf)"
  "aborts (static_assert c msg k) buf = (c \<and> aborts k buf)"
  "aborts (dc32 w) buf = False"
  "aborts FEX_UNREACHABLE buf = False"
  "aborts return_void buf = False"
  by (simp_all add: aborts_def LOGMAN_THROW_AA_FMT_def LOGMAN_THROW_A_FMT_def static_assert_def
      dc32_def FEX_UNREACHABLE_def return_void_def)

lemma emits_one_word_simps:
  "emits_one_word (LOGMAN_THROW_AA_FMT c msg k) buf = (c \<and> emits_one_word k buf)"
  "emits_one_word (LOGMAN_THROW_A_FMT c msg k) buf = (c \<and> emits_one_word k buf)"
  "emits_one_word (static_assert c msg k) buf = (c \<and> emits_one_word k buf)"
  "emits_one_word (dc32 w) buf = True"
  by (simp_all add: emits_one_word_def LOGMAN_THROW_AA_FMT_def LOGMAN_THROW_A_FMT_def
      static_assert_def dc32_def)

subsection \<open>Further bounds and fields\<close>

lemma idx_le15: "(x::uint32_t) \<le> 15 \<Longrightarrow> take_bit 4 x = x"
  using take_bit_self_word[of x 4] by (simp add: word_le_nat_alt word_less_nat_alt)

lemma ToUnderlying_2bit: "size' \<noteq> i128Bit \<Longrightarrow> take_bit 2 (ToUnderlying size') = ToUnderlying size'"
  by (cases size') simp_all

lemma idx_lt128: "(x::uint32_t) < 128 \<Longrightarrow> take_bit 7 x = x"
  using take_bit_self_word[of x 7] by simp

lemma field_one_bit: "field n n (w::uint32_t) = of_bool (bit w n)"
  by (simp add: field_def bit_iff_odd_drop_bit mod_2_eq_odd)

subsection \<open>Indexed \<^verbatim>\<open>dup\<close>\<close>

lemma SVEDup_fields:
  fixes imm2 tsz :: uint32_t
  assumes "ZRegister.Idx zn < 32" "ZRegister.Idx zd < 32" "take_bit 2 imm2 = imm2" "take_bit 5 tsz = tsz"
  shows "\<exists>w. SVEDup (push_bit 10 0b0000010100100000001000) imm2 tsz zn zd buf = (None, buf @ [w])
     \<and> field 23 22 w = imm2 \<and> field 20 16 w = tsz"
proof -
  let ?w = "\<lambda>i t n d. (((push_bit 10 0b0000010100100000001000 OR push_bit 22 i) OR push_bit 16 t)
           OR push_bit 5 n) OR (d::uint32_t)"
  have e: "SVEDup (push_bit 10 0b0000010100100000001000) imm2 tsz zn zd buf
        = (None, buf @ [?w imm2 tsz (ZRegister.Idx zn) (ZRegister.Idx zd)])"
    by (simp add: SVEDup_def Encode_rn_def Encode_rd_def dc32_def Let_def)
  have f: "field 23 22 (?w (take_bit 2 imm2) (take_bit 5 tsz) (take_bit 5 (ZRegister.Idx zn))
              (take_bit 5 (ZRegister.Idx zd))) = take_bit 2 imm2"
       "field 20 16 (?w (take_bit 2 imm2) (take_bit 5 tsz) (take_bit 5 (ZRegister.Idx zn))
              (take_bit 5 (ZRegister.Idx zd))) = take_bit 5 tsz"
    by (simp_all add: field_simps')
  have b: "take_bit 5 (ZRegister.Idx zn) = ZRegister.Idx zn"
    "take_bit 5 (ZRegister.Idx zd) = ZRegister.Idx zd"
    using assms by (simp_all add: idx_lt32)
  show ?thesis
    using e f unfolding b assms(3,4) by blast
qed


text \<open>The two fields of \<^verbatim>\<open>dup\<close>, for every index that the element size allows.\<close>

lemma dup_bits_i8:
  fixes I :: uint32_t
  assumes "I < 64"
  shows "take_bit 2 (drop_bit 4 I) = drop_bit 4 I"
    and "take_bit 5 (0b00001 OR push_bit 1 (I AND 0b1111)) = 0b00001 OR push_bit 1 (I AND 0b1111)"
    and "push_bit 5 (drop_bit 4 I) OR (0b00001 OR push_bit 1 (I AND 0b1111)) = push_bit 0 (push_bit 1 I OR 1)"
proof -
  let ?P = "(\<lambda>I::uint32_t. take_bit 2 (drop_bit 4 I) = drop_bit 4 I \<and> take_bit 5 (0b00001 OR push_bit 1 (I AND 0b1111)) = 0b00001 OR push_bit 1 (I AND 0b1111) \<and> push_bit 5 (drop_bit 4 I) OR (0b00001 OR push_bit 1 (I AND 0b1111)) = push_bit 0 (push_bit 1 I OR 1))"
  have L: "list_all (\<lambda>i. ?P (of_nat i)) [0..<64]"
    by (simp add: upt_rec)
  have U: "unat I < 64"
    using assms by (simp add: word_less_nat_alt)
  have "?P I"
    by (rule word_list_all_range[where P = ?P, OF L _ U]) simp
  then show "take_bit 2 (drop_bit 4 I) = drop_bit 4 I"
    and "take_bit 5 (0b00001 OR push_bit 1 (I AND 0b1111)) = 0b00001 OR push_bit 1 (I AND 0b1111)"
    and "push_bit 5 (drop_bit 4 I) OR (0b00001 OR push_bit 1 (I AND 0b1111)) = push_bit 0 (push_bit 1 I OR 1)"
    by simp_all
qed

lemma dup_bits_i16:
  fixes I :: uint32_t
  assumes "I < 32"
  shows "take_bit 2 (drop_bit 3 I) = drop_bit 3 I"
    and "take_bit 5 (0b00010 OR push_bit 2 (I AND 0b111)) = 0b00010 OR push_bit 2 (I AND 0b111)"
    and "push_bit 5 (drop_bit 3 I) OR (0b00010 OR push_bit 2 (I AND 0b111)) = push_bit 1 (push_bit 1 I OR 1)"
proof -
  let ?P = "(\<lambda>I::uint32_t. take_bit 2 (drop_bit 3 I) = drop_bit 3 I \<and> take_bit 5 (0b00010 OR push_bit 2 (I AND 0b111)) = 0b00010 OR push_bit 2 (I AND 0b111) \<and> push_bit 5 (drop_bit 3 I) OR (0b00010 OR push_bit 2 (I AND 0b111)) = push_bit 1 (push_bit 1 I OR 1))"
  have L: "list_all (\<lambda>i. ?P (of_nat i)) [0..<32]"
    by (simp add: upt_rec)
  have U: "unat I < 32"
    using assms by (simp add: word_less_nat_alt)
  have "?P I"
    by (rule word_list_all_range[where P = ?P, OF L _ U]) simp
  then show "take_bit 2 (drop_bit 3 I) = drop_bit 3 I"
    and "take_bit 5 (0b00010 OR push_bit 2 (I AND 0b111)) = 0b00010 OR push_bit 2 (I AND 0b111)"
    and "push_bit 5 (drop_bit 3 I) OR (0b00010 OR push_bit 2 (I AND 0b111)) = push_bit 1 (push_bit 1 I OR 1)"
    by simp_all
qed

lemma dup_bits_i32:
  fixes I :: uint32_t
  assumes "I < 16"
  shows "take_bit 2 (drop_bit 2 I) = drop_bit 2 I"
    and "take_bit 5 (0b00100 OR push_bit 3 (I AND 0b11)) = 0b00100 OR push_bit 3 (I AND 0b11)"
    and "push_bit 5 (drop_bit 2 I) OR (0b00100 OR push_bit 3 (I AND 0b11)) = push_bit 2 (push_bit 1 I OR 1)"
proof -
  let ?P = "(\<lambda>I::uint32_t. take_bit 2 (drop_bit 2 I) = drop_bit 2 I \<and> take_bit 5 (0b00100 OR push_bit 3 (I AND 0b11)) = 0b00100 OR push_bit 3 (I AND 0b11) \<and> push_bit 5 (drop_bit 2 I) OR (0b00100 OR push_bit 3 (I AND 0b11)) = push_bit 2 (push_bit 1 I OR 1))"
  have L: "list_all (\<lambda>i. ?P (of_nat i)) [0..<16]"
    by (simp add: upt_rec)
  have U: "unat I < 16"
    using assms by (simp add: word_less_nat_alt)
  have "?P I"
    by (rule word_list_all_range[where P = ?P, OF L _ U]) simp
  then show "take_bit 2 (drop_bit 2 I) = drop_bit 2 I"
    and "take_bit 5 (0b00100 OR push_bit 3 (I AND 0b11)) = 0b00100 OR push_bit 3 (I AND 0b11)"
    and "push_bit 5 (drop_bit 2 I) OR (0b00100 OR push_bit 3 (I AND 0b11)) = push_bit 2 (push_bit 1 I OR 1)"
    by simp_all
qed

lemma dup_bits_i64:
  fixes I :: uint32_t
  assumes "I < 8"
  shows "take_bit 2 (drop_bit 1 I) = drop_bit 1 I"
    and "take_bit 5 (0b01000 OR push_bit 4 (I AND 0b1)) = 0b01000 OR push_bit 4 (I AND 0b1)"
    and "push_bit 5 (drop_bit 1 I) OR (0b01000 OR push_bit 4 (I AND 0b1)) = push_bit 3 (push_bit 1 I OR 1)"
proof -
  let ?P = "(\<lambda>I::uint32_t. take_bit 2 (drop_bit 1 I) = drop_bit 1 I \<and> take_bit 5 (0b01000 OR push_bit 4 (I AND 0b1)) = 0b01000 OR push_bit 4 (I AND 0b1) \<and> push_bit 5 (drop_bit 1 I) OR (0b01000 OR push_bit 4 (I AND 0b1)) = push_bit 3 (push_bit 1 I OR 1))"
  have L: "list_all (\<lambda>i. ?P (of_nat i)) [0..<8]"
    by (simp add: upt_rec)
  have U: "unat I < 8"
    using assms by (simp add: word_less_nat_alt)
  have "?P I"
    by (rule word_list_all_range[where P = ?P, OF L _ U]) simp
  then show "take_bit 2 (drop_bit 1 I) = drop_bit 1 I"
    and "take_bit 5 (0b01000 OR push_bit 4 (I AND 0b1)) = 0b01000 OR push_bit 4 (I AND 0b1)"
    and "push_bit 5 (drop_bit 1 I) OR (0b01000 OR push_bit 4 (I AND 0b1)) = push_bit 3 (push_bit 1 I OR 1)"
    by simp_all
qed

lemma dup_bits_i128:
  fixes I :: uint32_t
  assumes "I < 4"
  shows "take_bit 2 (I) = I"
    and "take_bit 5 ((0b10000::uint32_t)) = (0b10000::uint32_t)"
    and "push_bit 5 (I) OR ((0b10000::uint32_t)) = push_bit 4 (push_bit 1 I OR 1)"
proof -
  let ?P = "(\<lambda>I::uint32_t. take_bit 2 (I) = I \<and> take_bit 5 ((0b10000::uint32_t)) = (0b10000::uint32_t) \<and> push_bit 5 (I) OR ((0b10000::uint32_t)) = push_bit 4 (push_bit 1 I OR 1))"
  have L: "list_all (\<lambda>i. ?P (of_nat i)) [0..<4]"
    by (simp add: upt_rec)
  have U: "unat I < 4"
    using assms by (simp add: word_less_nat_alt)
  have "?P I"
    by (rule word_list_all_range[where P = ?P, OF L _ U]) simp
  then show "take_bit 2 (I) = I"
    and "take_bit 5 ((0b10000::uint32_t)) = (0b10000::uint32_t)"
    and "push_bit 5 (I) OR ((0b10000::uint32_t)) = push_bit 4 (push_bit 1 I OR 1)"
    by simp_all
qed


text \<open>
  Claim C4. \<^verbatim>\<open>dup\<close> with an index accepts exactly the indices below 64, 32, 16, 8 and 4
  for 8-, 16-, 32-, 64- and 128-bit elements and aborts for any larger index. An accepted
  index is split across the fields imm2 (bits 23:22) and tsz (bits 20:16): read together,
  the seven bits imm2:tsz are the index, a one, and as many zeros as the size code. For
  16-bit elements and index 9, tsz is \<open>0b00010 | ((9 & 0b111) << 2)\<close> and imm2 is \<open>9 >> 3\<close>.
\<close>

theorem dup_index_range_and_split:
  assumes "ZRegister.Idx zn < 32" and "ZRegister.Idx zd < 32"
  shows "(aborts (dup size' zd zn Index) buf \<longleftrightarrow> \<not> Index < dup_index_limit size') \<and>
     (Index < dup_index_limit size' \<longrightarrow>
        (\<exists>w. dup size' zd zn Index buf = (None, buf @ [w]) \<and>
           push_bit 5 (field 23 22 w) OR field 20 16 w
             = push_bit (unat (ToUnderlying size')) (push_bit 1 Index OR 1))) \<and>
     (\<exists>w. dup i16Bit zd zn 9 buf = (None, buf @ [w]) \<and>
         field 20 16 w = (0b00010 OR push_bit 2 (9 AND 0b111)) \<and> field 23 22 w = drop_bit 3 9)"
proof -
  note F = SVEDup_fields[OF assms, where buf = buf]
  have A: "aborts (dup size' zd zn Index) buf \<longleftrightarrow> \<not> Index < dup_index_limit size'"
    by (cases size')
      (simp_all add: dup_def Let_def aborts_simps, simp_all add: aborts_def SVEDup_def dc32_def Let_def)
  have B: "\<exists>w. dup size' zd zn Index buf = (None, buf @ [w]) \<and>
           push_bit 5 (field 23 22 w) OR field 20 16 w
             = push_bit (unat (ToUnderlying size')) (push_bit 1 Index OR 1)"
    if lt: "Index < dup_index_limit size'"
  proof (cases size')
    case i8Bit
    with lt have i: "Index < 64" by simp
    show ?thesis
      using F[OF dup_bits_i8(1,2)[OF i]] dup_bits_i8(3)[OF i] i i8Bit
      by (auto simp: dup_def Let_def LOGMAN_THROW_AA_FMT_def)
  next
    case i16Bit
    with lt have i: "Index < 32" by simp
    show ?thesis
      using F[OF dup_bits_i16(1,2)[OF i]] dup_bits_i16(3)[OF i] i i16Bit
      by (auto simp: dup_def Let_def LOGMAN_THROW_AA_FMT_def)
  next
    case i32Bit
    with lt have i: "Index < 16" by simp
    show ?thesis
      using F[OF dup_bits_i32(1,2)[OF i]] dup_bits_i32(3)[OF i] i i32Bit
      by (auto simp: dup_def Let_def LOGMAN_THROW_AA_FMT_def)
  next
    case i64Bit
    with lt have i: "Index < 8" by simp
    show ?thesis
      using F[OF dup_bits_i64(1,2)[OF i]] dup_bits_i64(3)[OF i] i i64Bit
      by (auto simp: dup_def Let_def LOGMAN_THROW_AA_FMT_def)
  next
    case i128Bit
    with lt have i: "Index < 4" by simp
    show ?thesis
      using F[OF dup_bits_i128(1,2)[OF i]] dup_bits_i128(3)[OF i] i i128Bit
      by (auto simp: dup_def Let_def LOGMAN_THROW_AA_FMT_def)
  qed
  have i: "(9::uint32_t) < 32" by simp
  have C: "\<exists>w. dup i16Bit zd zn 9 buf = (None, buf @ [w]) \<and>
         field 20 16 w = (0b00010 OR push_bit 2 (9 AND 0b111)) \<and> field 23 22 w = drop_bit 3 9"
    using F[OF dup_bits_i16(1,2)[OF i]]
    by (auto simp: dup_def Let_def LOGMAN_THROW_AA_FMT_def)
  show ?thesis using A B C by blast
qed

theorem dup_index_range_and_split_witness:
  "aborts (dup i16Bit (ZRegister 0) (ZRegister 1) 32) [] \<and>
   \<not> aborts (dup i16Bit (ZRegister 0) (ZRegister 1) 31) [] \<and>
   (\<exists>w. dup i16Bit (ZRegister 0) (ZRegister 1) 9 [] = (None, [w]) \<and>
        field 20 16 w = 0b00110 \<and> field 23 22 w = 1)"
proof -
  have h: "ZRegister.Idx (ZRegister 1) < 32" "ZRegister.Idx (ZRegister 0) < 32"
    by simp_all
  have "aborts (dup i16Bit (ZRegister 0) (ZRegister 1) 32) []"
    using dup_index_range_and_split[OF h, of i16Bit 32 "[]", THEN conjunct1] by simp
  moreover have "\<not> aborts (dup i16Bit (ZRegister 0) (ZRegister 1) 31) []"
    using dup_index_range_and_split[OF h, of i16Bit 31 "[]", THEN conjunct1] by simp
  moreover have "\<exists>w. dup i16Bit (ZRegister 0) (ZRegister 1) 9 [] = (None, [w]) \<and>
        field 20 16 w = 0b00110 \<and> field 23 22 w = 1"
    using dup_index_range_and_split[OF h, of i16Bit 0 "[]", THEN conjunct2, THEN conjunct2]
    by simp
  ultimately show ?thesis by blast
qed

subsection \<open>Compare with signed immediate\<close>





subsection \<open>Compare with unsigned immediate\<close>

lemma field_13_of_predicate:
  "field 13 13 (push_bit 10 (take_bit 4 (x::uint32_t))) = of_bool (bit x 3)"
  unfolding field_one_bit by (simp add: bit_simps)

lemma predicate_bit3:
  fixes x :: uint32_t
  assumes "x \<le> 15"
  shows "bit x 3 \<longleftrightarrow> 7 < x"
proof -
  let ?P = "\<lambda>x::uint32_t. bit x 3 \<longleftrightarrow> 7 < x"
  have L: "list_all (\<lambda>i. ?P (of_nat i)) [0..<16]"
    by (simp add: upt_rec bit_numeral_word_iff)
  have U: "unat x < 16"
    using assms by (simp add: word_le_nat_alt)
  show ?thesis
    by (rule word_list_all_range[where P = ?P, OF L _ U]) simp
qed

lemma SVEIntegerCompareImm_fields:
  fixes lt ne imm7 :: uint32_t
  assumes "size' \<noteq> i128Bit" "imm7 < 128" "PRegister.Idx pg \<le> 15" "ZRegister.Idx zn < 32"
    "PRegister.Idx pd \<le> 15" "lt \<le> 1" "ne \<le> 1"
  shows "\<exists>w. SVEIntegerCompareImm lt ne imm7 size' pg zn pd buf = (None, buf @ [w])
     \<and> field 31 24 w = 0b00100100 \<and> field 21 21 w = 1 \<and> field 4 4 w = ne
     \<and> field 13 13 w = lt OR of_bool (7 < PRegister.Idx pg)"
proof -
  let ?w = "\<lambda>s i l g n e d. ((((((0b00100100001000000000000000000000 OR push_bit 22 s)
       OR push_bit 14 i) OR push_bit 13 l) OR push_bit 10 g) OR push_bit 5 n)
       OR push_bit 4 e) OR (d::uint32_t)"
  let ?v = "?w (take_bit 2 (ToUnderlying size')) (take_bit 7 imm7) (of_bool (lt \<noteq> 0))
      (take_bit 4 (PRegister.Idx pg)) (take_bit 5 (ZRegister.Idx zn))
      (of_bool (ne \<noteq> 0)) (take_bit 4 (PRegister.Idx pd))"
  have e: "SVEIntegerCompareImm lt ne imm7 size' pg zn pd buf
        = (None, buf @ [?w (ToUnderlying size') imm7 lt (PRegister.Idx pg)
             (ZRegister.Idx zn) ne (PRegister.Idx pd)])"
    by (simp add: SVEIntegerCompareImm_def dc32_def Let_def)
  have f: "field 31 24 ?v = 0b00100100" "field 21 21 ?v = 1" "field 4 4 ?v = of_bool (ne \<noteq> 0)"
    "field 13 13 ?v = of_bool (lt \<noteq> 0) OR of_bool (bit (PRegister.Idx pg) 3)"
    by (simp_all add: field_simps' field_13_of_predicate)
  have b: "take_bit 2 (ToUnderlying size') = ToUnderlying size'"
    "take_bit 7 imm7 = imm7"
    "take_bit 4 (PRegister.Idx pg) = PRegister.Idx pg"
    "take_bit 5 (ZRegister.Idx zn) = ZRegister.Idx zn"
    "take_bit 4 (PRegister.Idx pd) = PRegister.Idx pd"
    "of_bool (lt \<noteq> 0) = lt" "of_bool (ne \<noteq> 0) = ne"
    using assms word_le1_cases[of lt] word_le1_cases[of ne]
    by (auto simp: idx_lt32 idx_le15 idx_lt128 ToUnderlying_2bit)
  show ?thesis
    using e f unfolding b predicate_bit3[OF assms(3)] by blast
qed

text \<open>
  Claim C5 fails for the compare-with-unsigned-immediate mnemonics. \<^verbatim>\<open>cmphs\<close> fixes
  bit 13 of its word to zero and checks the element size and the immediate only. For every
  operand combination that passes these checks the word is emitted, bits 31:24, 21 and 4
  are those of the template, but bit 13 is set exactly when the governing predicate is one
  of p8 to p15: its index is written at bit 10 and does not fit the three bits 12:10. With
  p8 the word is the one \<^verbatim>\<open>cmplo\<close> emits with p0.
\<close>

theorem cmphs_imm_predicate_overflows_into_bit_13:
  assumes "size' \<noteq> i128Bit" and "imm < 128" and "PRegisterZero.Idx pg \<le> 15"
    and "ZRegister.Idx zn < 32" and "PRegister.Idx pd \<le> 15"
  shows "(\<exists>w. cmphs_imm size' pd pg zn imm buf = (None, buf @ [w])
       \<and> field 31 24 w = 0b00100100 \<and> field 21 21 w = 1 \<and> field 4 4 w = 0
       \<and> field 13 13 w = of_bool (7 < PRegisterZero.Idx pg))
     \<and> cmphs_imm i8Bit (PRegister 0) (Zeroing PReg_p8) (ZRegister 0) 0 buf
         = (None, buf @ [0x24202000])
     \<and> cmplo_imm i8Bit (PRegister 0) (Zeroing PReg_p0) (ZRegister 0) 0 buf
         = (None, buf @ [0x24202000])"
proof -
  have "\<exists>w. cmphs_imm size' pd pg zn imm buf = (None, buf @ [w])
       \<and> field 31 24 w = 0b00100100 \<and> field 21 21 w = 1 \<and> field 4 4 w = 0
       \<and> field 13 13 w = of_bool (7 < PRegisterZero.Idx pg)"
    using SVEIntegerCompareImm_fields[OF assms(1,2) _ assms(4,5), of "PRegister_of_Zero pg" 0 0 buf]
      assms
    by (simp add: cmphs_imm_def LOGMAN_THROW_AA_FMT_def PRegister_of_Zero_def)
  moreover have "cmphs_imm i8Bit (PRegister 0) (Zeroing PReg_p8) (ZRegister 0) 0 buf
         = (None, buf @ [0x24202000])"
    by (simp add: cmphs_imm_def LOGMAN_THROW_AA_FMT_def PRegister_of_Zero_def Zeroing_def
        PReg_p8_def SVEIntegerCompareImm_def dc32_def)
  moreover have "cmplo_imm i8Bit (PRegister 0) (Zeroing PReg_p0) (ZRegister 0) 0 buf
         = (None, buf @ [0x24202000])"
    by (simp add: cmplo_imm_def LOGMAN_THROW_AA_FMT_def PRegister_of_Zero_def Zeroing_def
        PReg_p0_def SVEIntegerCompareImm_def dc32_def)
  ultimately show ?thesis by blast
qed

theorem cmphs_imm_predicate_overflows_into_bit_13_witness:
  "\<exists>w. cmphs_imm i8Bit (PRegister 0) (PRegisterZero 8) (ZRegister 0) 0 [] = (None, [w])
       \<and> field 31 24 w = 0b00100100 \<and> field 21 21 w = 1 \<and> field 4 4 w = 0
       \<and> field 13 13 w = 1"
proof -
  have h: "i8Bit \<noteq> i128Bit" "(0::uint32_t) < 128" "PRegisterZero.Idx (PRegisterZero 8) \<le> 15"
    "ZRegister.Idx (ZRegister 0) < 32" "PRegister.Idx (PRegister 0) \<le> 15"
    by simp_all
  show ?thesis
    using cmphs_imm_predicate_overflows_into_bit_13[OF h, of "[]", THEN conjunct1] by simp
qed

subsection \<open>Rotation of \<^verbatim>\<open>fcadd\<close>\<close>

lemma fcadd_word_bit16:
  fixes s g m d :: uint32_t
  shows "field 16 16 (((((0b01100100000000001000000000000000 OR push_bit 22 (take_bit 2 s))
       OR push_bit 16 (of_bool r)) OR push_bit 10 (take_bit 3 g)) OR push_bit 5 (take_bit 5 m))
       OR take_bit 5 d) = of_bool r"
  by (simp add: field_simps')

text \<open>
  Claim C6. \<^verbatim>\<open>fcadd\<close> aborts, leaving the stream unchanged, for a rotation of 0 or 180
  degrees. With an element size of 16, 32 or 64 bits, a governing predicate in p0 to p7, zd
  equal to zn and vector registers below 32, it aborts for no other rotation, and for 90 and
  270 degrees it emits one word whose bit 16 is 0 for 90 and 1 for 270 degrees.
\<close>

theorem fcadd_rotation_bit_16:
  assumes "size' = i16Bit \<or> size' = i32Bit \<or> size' = i64Bit" and "PRegisterMerge.Idx pv \<le> 7"
    and "zd = zn" and "ZRegister.Idx zm < 32" and "ZRegister.Idx zd < 32"
  shows "(rot = ROTATE_0 \<or> rot = ROTATE_180 \<longrightarrow> aborts (fcadd sz zd' pv' zn' zm' rot) buf') \<and>
     (aborts (fcadd size' zd pv zn zm rot) buf \<longleftrightarrow> rot = ROTATE_0 \<or> rot = ROTATE_180) \<and>
     (rot = ROTATE_90 \<or> rot = ROTATE_270 \<longrightarrow>
        (\<exists>w. fcadd size' zd pv zn zm rot buf = (None, buf @ [w]) \<and>
             field 16 16 w = (if rot = ROTATE_90 then 0 else 1)))"
proof -
  have A: "aborts (fcadd sz zd' pv' zn' zm' rot) buf'" if "rot = ROTATE_0 \<or> rot = ROTATE_180"
    using that by (auto simp: fcadd_def aborts_simps)
  have p: "PRegisterMerge_le pv (Merging PReg_p7)"
    using assms(2) by (simp add: PRegisterMerge_le_def Merging_def PReg_p7_def)
  have B: "aborts (fcadd size' zd pv zn zm rot) buf \<longleftrightarrow> rot = ROTATE_0 \<or> rot = ROTATE_180"
    using assms(1,3) p by (cases rot) (simp_all add: fcadd_def aborts_simps Let_def)
  have b: "take_bit 2 (ToUnderlying size') = ToUnderlying size'"
    "take_bit 3 (PRegisterMerge.Idx pv) = PRegisterMerge.Idx pv"
    "take_bit 5 (ZRegister.Idx zm) = ZRegister.Idx zm"
    "take_bit 5 (ZRegister.Idx zd) = ZRegister.Idx zd"
    using assms by (auto simp: idx_le7 idx_lt32)
  note f = fcadd_word_bit16[of "ToUnderlying size'" _ "PRegisterMerge.Idx pv" "ZRegister.Idx zm"
      "ZRegister.Idx zd", unfolded b]
  have C: "\<exists>w. fcadd size' zd pv zn zm rot buf = (None, buf @ [w]) \<and>
             field 16 16 w = (if rot = ROTATE_90 then 0 else 1)"
    if "rot = ROTATE_90 \<or> rot = ROTATE_270"
    using that
  proof
    assume r: "rot = ROTATE_90"
    have "fcadd size' zd pv zn zm rot buf = (None, buf @ [((((0b01100100000000001000000000000000
       OR push_bit 22 (ToUnderlying size')) OR push_bit 16 (of_bool False))
       OR push_bit 10 (PRegisterMerge.Idx pv)) OR push_bit 5 (ZRegister.Idx zm))
       OR ZRegister.Idx zd])"
      using assms(1,3) p r
      by (simp add: fcadd_def LOGMAN_THROW_AA_FMT_def LOGMAN_THROW_A_FMT_def dc32_def Let_def)
    then show ?thesis using f[of False] r by simp
  next
    assume r: "rot = ROTATE_270"
    have "fcadd size' zd pv zn zm rot buf = (None, buf @ [((((0b01100100000000001000000000000000
       OR push_bit 22 (ToUnderlying size')) OR push_bit 16 (of_bool True))
       OR push_bit 10 (PRegisterMerge.Idx pv)) OR push_bit 5 (ZRegister.Idx zm))
       OR ZRegister.Idx zd])"
      using assms(1,3) p r
      by (simp add: fcadd_def LOGMAN_THROW_AA_FMT_def LOGMAN_THROW_A_FMT_def dc32_def Let_def)
    then show ?thesis using f[of True] r by simp
  qed
  show ?thesis using A B C by blast
qed

theorem fcadd_rotation_bit_16_witness:
  "aborts (fcadd i32Bit (ZRegister 0) (PRegisterMerge 0) (ZRegister 0) (ZRegister 1) ROTATE_0) [] \<and>
   aborts (fcadd i32Bit (ZRegister 0) (PRegisterMerge 0) (ZRegister 0) (ZRegister 1) ROTATE_180) [] \<and>
   (\<exists>w. fcadd i32Bit (ZRegister 0) (PRegisterMerge 0) (ZRegister 0) (ZRegister 1) ROTATE_90 []
          = (None, [w]) \<and> field 16 16 w = 0) \<and>
   (\<exists>w. fcadd i32Bit (ZRegister 0) (PRegisterMerge 0) (ZRegister 0) (ZRegister 1) ROTATE_270 []
          = (None, [w]) \<and> field 16 16 w = 1)"
proof -
  have h: "i32Bit = i16Bit \<or> i32Bit = i32Bit \<or> i32Bit = i64Bit"
    "PRegisterMerge.Idx (PRegisterMerge 0) \<le> 7" "ZRegister 0 = ZRegister 0"
    "ZRegister.Idx (ZRegister 1) < 32" "ZRegister.Idx (ZRegister 0) < 32"
    by simp_all
  note T = fcadd_rotation_bit_16[OF h, where buf = "[]"]
  have "aborts (fcadd i32Bit (ZRegister 0) (PRegisterMerge 0) (ZRegister 0) (ZRegister 1) ROTATE_0) []"
    using T[of ROTATE_0, THEN conjunct2, THEN conjunct1] by simp
  moreover have "aborts (fcadd i32Bit (ZRegister 0) (PRegisterMerge 0) (ZRegister 0) (ZRegister 1) ROTATE_180) []"
    using T[of ROTATE_180, THEN conjunct2, THEN conjunct1] by simp
  moreover have "\<exists>w. fcadd i32Bit (ZRegister 0) (PRegisterMerge 0) (ZRegister 0) (ZRegister 1) ROTATE_90 []
          = (None, [w]) \<and> field 16 16 w = 0"
    using T[of ROTATE_90, THEN conjunct2, THEN conjunct2] by simp
  moreover have "\<exists>w. fcadd i32Bit (ZRegister 0) (PRegisterMerge 0) (ZRegister 0) (ZRegister 1) ROTATE_270 []
          = (None, [w]) \<and> field 16 16 w = 1"
    using T[of ROTATE_270, THEN conjunct2, THEN conjunct2] by simp
  ultimately show ?thesis by blast
qed

subsection \<open>Destructive forms\<close>

text \<open>Each primitive that carries the test of the aliased pair aborts when the pair differs,
  whatever its other arguments are.\<close>

lemma destructive_primitives_abort:
  "zd \<noteq> zn \<Longrightarrow> aborts (SVEBitwiseShiftbyVector R L U size' pg_p zd zn zm) buf"
  "zd \<noteq> zn \<Longrightarrow> aborts (SVEFloatPairwiseArithmetic opc size' pg_p zd zn zm) buf"
  "zd \<noteq> zn \<Longrightarrow> aborts (SVE2IntegerHalvingPredicated R S U size' pg_p zd zn zm) buf"
  "zd \<noteq> zn \<Longrightarrow> aborts (SVEIntegerPairwiseArithmetic opc U size' pg_p zd zn zm) buf"
  "zd \<noteq> zn \<Longrightarrow> aborts (SVEFloatArithmeticPredicated opc size' pg_p zd zn zm) buf"
  "zd \<noteq> zn \<Longrightarrow> aborts (SVEAddSubVectorsPredicated op opc size' zd pg_m zn zm) buf"
  "zd \<noteq> zn \<Longrightarrow> aborts (SVEIntegerMulDivVectorsPredicated op opc size' zd pg_m zn zm) buf"
  "zd \<noteq> zn \<Longrightarrow> aborts (SVE2IntegerSaturatingAddSub size' opc zd pg_m zn zm) buf"
  "zd \<noteq> zn \<Longrightarrow> aborts (SVEBitwiseShiftByWideElementPredicated size' opc zd pg_m zn zm) buf"
  "zd \<noteq> zn \<Longrightarrow> aborts (SVE2ComplexIntAdd size' opc rot_r zd zn zm) buf"
  "vd \<noteq> vn \<Longrightarrow> aborts (SVEFPSerialReductionPredicated opc size' vd pg_p vn zm) buf"
  "zd \<noteq> zdn \<Longrightarrow> aborts (SVEBitWiseShiftImmediatePred size' opc L U pg_p zd zdn Shift) buf"
  by (simp_all add: SVEBitwiseShiftbyVector_def SVEFloatPairwiseArithmetic_def
      SVE2IntegerHalvingPredicated_def SVEIntegerPairwiseArithmetic_def
      SVEFloatArithmeticPredicated_def SVEAddSubVectorsPredicated_def
      SVEIntegerMulDivVectorsPredicated_def SVE2IntegerSaturatingAddSub_def
      SVEBitwiseShiftByWideElementPredicated_def SVE2ComplexIntAdd_def
      SVEFPSerialReductionPredicated_def SVEBitWiseShiftImmediatePred_def
      aborts_simps Let_def)

text \<open>
  Claim C7. Every mnemonic of a destructive form aborts, leaving the output stream as it
  was, when the destination and the operand that has to name the same register differ:
  \<^verbatim>\<open>fcadd\<close>, the predicated shifts by immediate and by vector, and every other mnemonic
  whose source, or whose primitive, tests the aliased pair. The pair is a vector, SIMD,
  general-purpose or predicate register pair according to the mnemonic.
\<close>

theorem destructive_forms_abort_unless_aliased:
  assumes "zd \<noteq> zdn" and "vd \<noteq> vdn" and "rd \<noteq> rdn" and "pd \<noteq> pdn"
  shows "aborts (fcadd size' zd pv_m zdn zm rot) buf \<and>
     aborts (lsl_pred_imm size' zd pg_m zdn Shift) buf \<and>
     aborts (asr_pred size' zd pg_m zdn zm) buf \<and>
     aborts (faddp size' zd pg_m zdn zm) buf \<and>
     aborts (fmaxnmp size' zd pg_m zdn zm) buf \<and>
     aborts (fminnmp size' zd pg_m zdn zm) buf \<and>
     aborts (fmaxp size' zd pg_m zdn zm) buf \<and>
     aborts (fminp size' zd pg_m zdn zm) buf \<and>
     aborts (add_pred size' zd pg_m zdn zm) buf \<and>
     aborts (sub_pred size' zd pg_m zdn zm) buf \<and>
     aborts (subr size' zd pg_m zdn zm) buf \<and>
     aborts (smax size' zd pg_m zdn zm) buf \<and>
     aborts (umax size' zd pg_m zdn zm) buf \<and>
     aborts (smin size' zd pg_m zdn zm) buf \<and>
     aborts (umin size' zd pg_m zdn zm) buf \<and>
     aborts (sabd size' zd pg_m zdn zm) buf \<and>
     aborts (uabd size' zd pg_m zdn zm) buf \<and>
     aborts (mul_pred size' zd pg_m zdn zm) buf \<and>
     aborts (smulh_pred size' zd pg_m zdn zm) buf \<and>
     aborts (umulh_pred size' zd pg_m zdn zm) buf \<and>
     aborts (sdiv size' zd pg_m zdn zm) buf \<and>
     aborts (udiv size' zd pg_m zdn zm) buf \<and>
     aborts (sdivr size' zd pg_m zdn zm) buf \<and>
     aborts (udivr size' zd pg_m zdn zm) buf \<and>
     aborts (orr_pred size' zd pg_m zdn zm) buf \<and>
     aborts (eor_pred size' zd pg_m zdn zm) buf \<and>
     aborts (and_pred size' zd pg_m zdn zm) buf \<and>
     aborts (bic_pred size' zd pg_m zdn zm) buf \<and>
     aborts (asr_pred_imm size' zd pg_m zdn Shift) buf \<and>
     aborts (lsr_pred_imm size' zd pg_m zdn Shift) buf \<and>
     aborts (asrd size' zd pg_m zdn Shift) buf \<and>
     aborts (sqshl size' zd pg_m zdn Shift) buf \<and>
     aborts (uqshl size' zd pg_m zdn Shift) buf \<and>
     aborts (srshr size' zd pg_m zdn Shift) buf \<and>
     aborts (urshr size' zd pg_m zdn Shift) buf \<and>
     aborts (sqshlu size' zd pg_m zdn Shift) buf \<and>
     aborts (lsr_pred size' zd pg_m zdn zm) buf \<and>
     aborts (lsl_pred size' zd pg_m zdn zm) buf \<and>
     aborts (asrr size' zd pg_m zdn zm) buf \<and>
     aborts (lsrr size' zd pg_m zdn zm) buf \<and>
     aborts (lslr size' zd pg_m zdn zm) buf \<and>
     aborts (asr_wide_pred size' zd pg_m zdn zm) buf \<and>
     aborts (lsr_wide_pred size' zd pg_m zdn zm) buf \<and>
     aborts (lsl_wide_pred size' zd pg_m zdn zm) buf \<and>
     aborts (eor3 zd zdn zm zk) buf \<and>
     aborts (bsl zd zdn zm zk) buf \<and>
     aborts (bcax zd zdn zm zk) buf \<and>
     aborts (bsl1n zd zdn zm zk) buf \<and>
     aborts (bsl2n zd zdn zm zk) buf \<and>
     aborts (nbsl zd zdn zm zk) buf \<and>
     aborts (splice_Destructive size' zd pv zdn zm) buf \<and>
     aborts (clasta size' zd pg zdn zm) buf \<and>
     aborts (clastb size' zd pg zdn zm) buf \<and>
     aborts (clasta_v size' vd pg vdn zm) buf \<and>
     aborts (clastb_v size' vd pg vdn zm) buf \<and>
     aborts (clasta_r size' rd pg rdn zm) buf \<and>
     aborts (clastb_r size' rd pg rdn zm) buf \<and>
     aborts (ext_Destructive zd zdn zm Imm) buf \<and>
     aborts (brkn pd pg_z pn pdn) buf \<and>
     aborts (brkns pd pg_z pn pdn) buf \<and>
     aborts (pnext size' pd pv pdn) buf \<and>
     aborts (pfirst pd pg pdn) buf \<and>
     aborts (shadd size' zd pg_m zdn zm) buf \<and>
     aborts (uhadd size' zd pg_m zdn zm) buf \<and>
     aborts (shsub size' zd pg_m zdn zm) buf \<and>
     aborts (uhsub size' zd pg_m zdn zm) buf \<and>
     aborts (srhadd size' zd pg_m zdn zm) buf \<and>
     aborts (urhadd size' zd pg_m zdn zm) buf \<and>
     aborts (shsubr size' zd pg_m zdn zm) buf \<and>
     aborts (uhsubr size' zd pg_m zdn zm) buf \<and>
     aborts (addp size' zd pg_m zdn zm) buf \<and>
     aborts (smaxp size' zd pg_m zdn zm) buf \<and>
     aborts (umaxp size' zd pg_m zdn zm) buf \<and>
     aborts (sminp size' zd pg_m zdn zm) buf \<and>
     aborts (uminp size' zd pg_m zdn zm) buf \<and>
     aborts (sqadd_pred size' zd pg_m zdn zm) buf \<and>
     aborts (uqadd_pred size' zd pg_m zdn zm) buf \<and>
     aborts (sqsub_pred size' zd pg_m zdn zm) buf \<and>
     aborts (uqsub_pred size' zd pg_m zdn zm) buf \<and>
     aborts (suqadd size' zd pg_m zdn zm) buf \<and>
     aborts (usqadd size' zd pg_m zdn zm) buf \<and>
     aborts (sqsubr size' zd pg_m zdn zm) buf \<and>
     aborts (uqsubr size' zd pg_m zdn zm) buf \<and>
     aborts (cadd size' zd zdn zm rot) buf \<and>
     aborts (sqcadd size' zd zdn zm rot) buf \<and>
     aborts (ftmad size' zd zdn zm imm) buf \<and>
     aborts (fadd_pred size' zd pg_m zdn zm) buf \<and>
     aborts (fsub_pred size' zd pg_m zdn zm) buf \<and>
     aborts (fmul_pred size' zd pg_m zdn zm) buf \<and>
     aborts (fsubr size' zd pg_m zdn zm) buf \<and>
     aborts (fmaxnm size' zd pg_m zdn zm) buf \<and>
     aborts (fminnm size' zd pg_m zdn zm) buf \<and>
     aborts (fmax size' zd pg_m zdn zm) buf \<and>
     aborts (fmin size' zd pg_m zdn zm) buf \<and>
     aborts (fabd size' zd pg_m zdn zm) buf \<and>
     aborts (fscale size' zd pg_m zdn zm) buf \<and>
     aborts (fmulx size' zd pg_m zdn zm) buf \<and>
     aborts (fdivr size' zd pg_m zdn zm) buf \<and>
     aborts (fdiv size' zd pg_m zdn zm) buf \<and>
     aborts (fadda size' vd pg vdn zm) buf"
  using assms
  by (simp add: fcadd_def lsl_pred_imm_def asr_pred_def faddp_def fmaxnmp_def fminnmp_def fmaxp_def
      fminp_def add_pred_def sub_pred_def subr_def smax_def umax_def smin_def umin_def sabd_def
      uabd_def mul_pred_def smulh_pred_def umulh_pred_def sdiv_def udiv_def sdivr_def udivr_def
      orr_pred_def eor_pred_def and_pred_def bic_pred_def asr_pred_imm_def lsr_pred_imm_def
      asrd_def sqshl_def uqshl_def srshr_def urshr_def sqshlu_def lsr_pred_def lsl_pred_def
      asrr_def lsrr_def lslr_def asr_wide_pred_def lsr_wide_pred_def lsl_wide_pred_def eor3_def
      bsl_def bcax_def bsl1n_def bsl2n_def nbsl_def splice_Destructive_def clasta_def clastb_def
      clasta_v_def clastb_v_def clasta_r_def clastb_r_def ext_Destructive_def brkn_def brkns_def
      pnext_def pfirst_def shadd_def uhadd_def shsub_def uhsub_def srhadd_def urhadd_def
      shsubr_def uhsubr_def addp_def smaxp_def umaxp_def sminp_def uminp_def sqadd_pred_def
      uqadd_pred_def sqsub_pred_def uqsub_pred_def suqadd_def usqadd_def sqsubr_def uqsubr_def
      cadd_def sqcadd_def ftmad_def fadd_pred_def fsub_pred_def fmul_pred_def fsubr_def
      fmaxnm_def fminnm_def fmax_def fmin_def fabd_def fscale_def fmulx_def fdivr_def fdiv_def
      fadda_def
      destructive_primitives_abort aborts_simps)


theorem destructive_forms_abort_unless_aliased_witness:
  "aborts (fcadd i32Bit (ZRegister 0) (PRegisterMerge 0) (ZRegister 1) (ZRegister 2) ROTATE_90) [] \<and>
   aborts (lsl_pred_imm i32Bit (ZRegister 0) (PRegisterMerge 0) (ZRegister 1) 3) [] \<and>
   aborts (asr_pred i32Bit (ZRegister 0) (PRegisterMerge 0) (ZRegister 1) (ZRegister 2)) []"
proof -
  have h: "ZRegister 0 \<noteq> ZRegister 1" "VRegister 0 \<noteq> VRegister 1" "Register 0 \<noteq> Register 1"
    "PRegister 0 \<noteq> PRegister 1"
    by simp_all
  note T = destructive_forms_abort_unless_aliased[OF h]
  show ?thesis
    by (intro conjI)
      (rule T[THEN conjunct1], rule T[THEN conjunct2, THEN conjunct1],
        rule T[THEN conjunct2, THEN conjunct2, THEN conjunct1])
qed

subsection \<open>Governing predicates\<close>

text \<open>Each primitive that carries the test of the governing predicate aborts when the
  index of the predicate is not within 0 to 7, whatever its other arguments are.\<close>

lemma governed_primitives_abort:
  "\<not> PRegister.Idx pg \<le> 7 \<Longrightarrow>
     aborts (SVEBitwiseShiftbyVector R L U size' pg zd zn zm) buf"
  "\<not> PRegister.Idx pg \<le> 7 \<Longrightarrow>
     aborts (SVEFloatPairwiseArithmetic opc size' pg zd zn zm) buf"
  "\<not> PRegister.Idx pg \<le> 7 \<Longrightarrow>
     aborts (SVE2IntegerHalvingPredicated R S U size' pg zd zn zm) buf"
  "\<not> PRegister.Idx pg \<le> 7 \<Longrightarrow>
     aborts (SVEIntegerPairwiseArithmetic opc U size' pg zd zn zm) buf"
  "\<not> PRegister.Idx pg \<le> 7 \<Longrightarrow>
     aborts (SVEFloatArithmeticPredicated opc size' pg zd zn zm) buf"
  "\<not> PRegisterZero.Idx pg_z \<le> 7 \<Longrightarrow>
     aborts (SVECharacterMatch op opc size' pd pg_z zn zm) buf"
  "\<not> PRegister.Idx pg \<le> 7 \<Longrightarrow>
     aborts (SVEFPRecursiveReduction op opc size' vd pg zn) buf"
  "\<not> PRegisterMerge.Idx pg_m \<le> 7 \<Longrightarrow>
     aborts (SVEAddSubVectorsPredicated op opc size' zd pg_m zn zm) buf"
  "\<not> PRegisterMerge.Idx pg_m \<le> 7 \<Longrightarrow>
     aborts (SVEIntegerMulDivVectorsPredicated op opc size' zd pg_m zn zm) buf"
  "\<not> PRegister.Idx pg \<le> 7 \<Longrightarrow>
     aborts (SVEIntegerReductionOperation op opc size' vd pg zn) buf"
  "\<not> PRegister.Idx pg \<le> 7 \<Longrightarrow>
     aborts (SVEIntegerMultiplyAddSubPredicated op opc size' zd pg zn zm) buf"
  "\<not> PRegisterMerge.Idx pg_m \<le> 7 \<Longrightarrow>
     aborts (SVE2IntegerSaturatingAddSub size' opc zd pg_m zn zm) buf"
  "\<not> PRegisterMerge.Idx pg_m \<le> 7 \<Longrightarrow>
     aborts (SVEBitwiseShiftByWideElementPredicated size' opc zd pg_m zn zm) buf"
  "\<not> PRegister.Idx pg \<le> 7 \<Longrightarrow>
     aborts (SVEFloatCompareVector op o2 o3 size' zm pg zn pd) buf"
  "\<not> PRegister.Idx pg \<le> 7 \<Longrightarrow>
     aborts (SVEIntegerCompareVector op o2 ne size' zm pg zn pd) buf"
  "\<not> PRegister.Idx pg \<le> 7 \<Longrightarrow>
     aborts (SVEIntegerCompareVectorWide op o2 ne size' pd pg zn zm) buf"
  "\<not> PRegister.Idx pg \<le> 7 \<Longrightarrow>
     aborts (SVEPermuteVectorPredicated opc1 opc2 size' zd pg zn) buf"
  "\<not> PRegister.Idx pg \<le> 7 \<Longrightarrow>
     aborts (SVEFPSerialReductionPredicated opc size' vd pg vn zm) buf"
  "\<not> PRegister.Idx pg \<le> 7 \<Longrightarrow>
     aborts (SVEFPCompareWithZero eqlt ne size' pd pg zn) buf"
  "\<not> PRegister.Idx pg \<le> 7 \<Longrightarrow>
     aborts (SVEBitWiseShiftImmediatePred size' opc L U pg zd zdn Shift) buf"
  by (simp_all add: SVEBitwiseShiftbyVector_def SVEFloatPairwiseArithmetic_def
      SVE2IntegerHalvingPredicated_def SVEIntegerPairwiseArithmetic_def
      SVEFloatArithmeticPredicated_def SVECharacterMatch_def SVEFPRecursiveReduction_def
      SVEAddSubVectorsPredicated_def SVEIntegerMulDivVectorsPredicated_def
      SVEIntegerReductionOperation_def SVEIntegerMultiplyAddSubPredicated_def
      SVE2IntegerSaturatingAddSub_def SVEBitwiseShiftByWideElementPredicated_def
      SVEFloatCompareVector_def SVEIntegerCompareVector_def SVEIntegerCompareVectorWide_def
      SVEPermuteVectorPredicated_def SVEFPSerialReductionPredicated_def SVEFPCompareWithZero_def
      SVEBitWiseShiftImmediatePred_def
      PRegister_le_def PRegisterZero_le_def PRegisterMerge_le_def Zeroing_def Merging_def
      PReg_p7_def aborts_simps Let_def)

text \<open>The predicated shift by immediate emits its word exactly when its four tests pass.\<close>

lemma SVEBitWiseShiftImmediatePred_emits_iff:
  "emits_one_word (SVEBitWiseShiftImmediatePred size' opc L U pg zd zdn Shift) buf \<longleftrightarrow>
     size' \<noteq> i128Bit \<and> zd = zdn \<and> PRegister.Idx pg \<le> 7 \<and> legal_shift size' (L \<noteq> 0) Shift"
  by (cases size'; cases "L = 0")
    (simp_all add: SVEBitWiseShiftImmediatePred_def emits_one_word_simps Let_def legal_shift_def
      PRegister_le_def PReg_p7_def word_less_nat_alt word_le_nat_alt Suc_le_eq)

text \<open>
  Claim C8 fails for the mnemonics whose primitive writes the governing predicate into the
  three bits 12:10 of the word and does not test it: the compares with an unsigned and with
  a signed immediate, the predicated minimum, maximum and absolute difference, and the
  predicated bitwise logical operations. Given a governing predicate with index greater
  than 7 they do not abort: they emit a word exactly when their other tests pass
  (third part), and \<^verbatim>\<open>cmpge\<close> with p8 and immediate 0 emits the word that \<^verbatim>\<open>cmplt\<close>
  emits with p0 (fourth part).

  The claim holds for the 141 mnemonics whose source, or whose primitive, tests the
  governing predicate, among them the integer compare-vector family, the floating-point
  compare family and \<^verbatim>\<open>histcnt\<close>: each aborts, leaving the output stream as it was, when
  the index of the governing predicate is greater than 7, whatever its other operands are
  (first part), and each emits one word exactly when its other tests pass and the
  governing predicate is one of p0 to p7 (second part).
\<close>

theorem governing_predicate_p0_to_p7_not_always_tested:
  assumes "7 < PRegister.Idx pg" and "7 < PRegisterMerge.Idx pg_m" and "7 < PRegisterZero.Idx pg_z"
  shows "(aborts (histcnt size' zd pg_z zn zm) buf \<and>
      aborts (cmpge size' pd pg_z zn zm) buf \<and>
      aborts (fcmeq size' pd pg_z zn zm) buf \<and>
      aborts (fcmla_pred size' zda pg_m zn zm rot) buf \<and>
      aborts (fcadd size' zd pg_m zn zm rot) buf \<and>
      aborts (match size' pd pg_z zn zm) buf \<and>
      aborts (nmatch size' pd pg_z zn zm) buf \<and>
      aborts (faddp size' zd pg_m zn zm) buf \<and>
      aborts (fmaxnmp size' zd pg_m zn zm) buf \<and>
      aborts (fminnmp size' zd pg_m zn zm) buf \<and>
      aborts (fmaxp size' zd pg_m zn zm) buf \<and>
      aborts (fminp size' zd pg_m zn zm) buf \<and>
      aborts (fcmgt size' pd pg_z zn zm) buf \<and>
      aborts (fcmge size' pd pg_z zn zm) buf \<and>
      aborts (fcmne size' pd pg_z zn zm) buf \<and>
      aborts (fcmuo size' pd pg_z zn zm) buf \<and>
      aborts (facge size' pd pg_z zn zm) buf \<and>
      aborts (facgt size' pd pg_z zn zm) buf \<and>
      aborts (facle size' pd pg_z zm zn) buf \<and>
      aborts (faclt size' pd pg_z zm zn) buf \<and>
      aborts (faddv size' vd_v pg zn) buf \<and>
      aborts (fmaxnmv size' vd_v pg zn) buf \<and>
      aborts (fminnmv size' vd_v pg zn) buf \<and>
      aborts (fmaxv size' vd_v pg zn) buf \<and>
      aborts (fminv size' vd_v pg zn) buf \<and>
      aborts (mla size' zda pg_m zn zm) buf \<and>
      aborts (mls size' zda pg_m zn zm) buf \<and>
      aborts (mad size' zdn pg_m zm za) buf \<and>
      aborts (msb size' zdn pg_m zm za) buf \<and>
      aborts (add_pred size' zd pg_m zn zm) buf \<and>
      aborts (sub_pred size' zd pg_m zn zm) buf \<and>
      aborts (subr size' zd pg_m zn zm) buf \<and>
      aborts (mul_pred size' zd pg_m zn zm) buf \<and>
      aborts (smulh_pred size' zd pg_m zn zm) buf \<and>
      aborts (umulh_pred size' zd pg_m zn zm) buf \<and>
      aborts (sdiv size' zd pg_m zn zm) buf \<and>
      aborts (udiv size' zd pg_m zn zm) buf \<and>
      aborts (sdivr size' zd pg_m zn zm) buf \<and>
      aborts (udivr size' zd pg_m zn zm) buf \<and>
      aborts (saddv size' vd_d pg zn) buf \<and>
      aborts (uaddv size' vd_d pg zn) buf \<and>
      aborts (smaxv size' vd_v pg zn) buf \<and>
      aborts (umaxv size' vd_v pg zn) buf \<and>
      aborts (sminv size' vd_v pg zn) buf \<and>
      aborts (uminv size' vd_v pg zn) buf \<and>
      aborts (orv size' vd_v pg zn) buf \<and>
      aborts (eorv size' vd_v pg zn) buf \<and>
      aborts (andv size' vd_v pg zn) buf \<and>
      aborts (asr_pred_imm size' zd pg_m zdn Shift) buf \<and>
      aborts (lsr_pred_imm size' zd pg_m zdn Shift) buf \<and>
      aborts (lsl_pred_imm size' zd pg_m zdn Shift) buf \<and>
      aborts (asrd size' zd pg_m zdn Shift) buf \<and>
      aborts (sqshl size' zd pg_m zdn Shift) buf \<and>
      aborts (uqshl size' zd pg_m zdn Shift) buf \<and>
      aborts (srshr size' zd pg_m zdn Shift) buf \<and>
      aborts (urshr size' zd pg_m zdn Shift) buf \<and>
      aborts (sqshlu size' zd pg_m zdn Shift) buf \<and>
      aborts (asr_pred size' zd pg_m zn zm) buf \<and>
      aborts (lsr_pred size' zd pg_m zn zm) buf \<and>
      aborts (lsl_pred size' zd pg_m zn zm) buf \<and>
      aborts (asrr size' zd pg_m zn zm) buf \<and>
      aborts (lsrr size' zd pg_m zn zm) buf \<and>
      aborts (lslr size' zd pg_m zn zm) buf \<and>
      aborts (asr_wide_pred size' zd pg_m zn zm) buf \<and>
      aborts (lsr_wide_pred size' zd pg_m zn zm) buf \<and>
      aborts (lsl_wide_pred size' zd pg_m zn zm) buf \<and>
      aborts (cpy_v size' zd pg_m vn) buf \<and>
      aborts (compact size' zd pg zn) buf \<and>
      aborts (cpy_r size' zd pg_m rn) buf \<and>
      aborts (splice_Constructive size' zd pg zn zn2) buf \<and>
      aborts (splice_Destructive size' zd pg zn zm) buf \<and>
      aborts (lasta_r size' rd pg zn) buf \<and>
      aborts (lastb_r size' rd pg zn) buf \<and>
      aborts (lasta_v size' vd_v pg zn) buf \<and>
      aborts (lastb_v size' vd_v pg zn) buf \<and>
      aborts (revb size' zd pg_m zn) buf \<and>
      aborts (revh size' zd pg_m zn) buf \<and>
      aborts (revw size' zd pg_m zn) buf \<and>
      aborts (rbit size' zd pg_m zn) buf \<and>
      aborts (clasta size' zd pg zn zm) buf \<and>
      aborts (clastb size' zd pg zn zm) buf \<and>
      aborts (clasta_v size' vd_v pg vn zm) buf \<and>
      aborts (clastb_v size' vd_v pg vn zm) buf \<and>
      aborts (clasta_r size' rd pg rn zm) buf \<and>
      aborts (clastb_r size' rd pg rn zm) buf \<and>
      aborts (cmpeq size' pd pg_z zn zm) buf \<and>
      aborts (cmpgt size' pd pg_z zn zm) buf \<and>
      aborts (cmphi size' pd pg_z zn zm) buf \<and>
      aborts (cmphs size' pd pg_z zn zm) buf \<and>
      aborts (cmpne size' pd pg_z zn zm) buf \<and>
      aborts (cmpeq_wide size' pd pg_z zn zm) buf \<and>
      aborts (cmpgt_wide size' pd pg_z zn zm) buf \<and>
      aborts (cmpge_wide size' pd pg_z zn zm) buf \<and>
      aborts (cmphi_wide size' pd pg_z zn zm) buf \<and>
      aborts (cmphs_wide size' pd pg_z zn zm) buf \<and>
      aborts (cmplt_wide size' pd pg_z zn zm) buf \<and>
      aborts (cmple_wide size' pd pg_z zn zm) buf \<and>
      aborts (cmplo_wide size' pd pg_z zn zm) buf \<and>
      aborts (cmpls_wide size' pd pg_z zn zm) buf \<and>
      aborts (cmpne_wide size' pd pg_z zn zm) buf \<and>
      aborts (shadd size' zd pg_m zn zm) buf \<and>
      aborts (uhadd size' zd pg_m zn zm) buf \<and>
      aborts (shsub size' zd pg_m zn zm) buf \<and>
      aborts (uhsub size' zd pg_m zn zm) buf \<and>
      aborts (srhadd size' zd pg_m zn zm) buf \<and>
      aborts (urhadd size' zd pg_m zn zm) buf \<and>
      aborts (shsubr size' zd pg_m zn zm) buf \<and>
      aborts (uhsubr size' zd pg_m zn zm) buf \<and>
      aborts (addp size' zd pg_m zn zm) buf \<and>
      aborts (smaxp size' zd pg_m zn zm) buf \<and>
      aborts (umaxp size' zd pg_m zn zm) buf \<and>
      aborts (sminp size' zd pg_m zn zm) buf \<and>
      aborts (uminp size' zd pg_m zn zm) buf \<and>
      aborts (sqadd_pred size' zd pg_m zn zm) buf \<and>
      aborts (uqadd_pred size' zd pg_m zn zm) buf \<and>
      aborts (sqsub_pred size' zd pg_m zn zm) buf \<and>
      aborts (uqsub_pred size' zd pg_m zn zm) buf \<and>
      aborts (suqadd size' zd pg_m zn zm) buf \<and>
      aborts (usqadd size' zd pg_m zn zm) buf \<and>
      aborts (sqsubr size' zd pg_m zn zm) buf \<and>
      aborts (uqsubr size' zd pg_m zn zm) buf \<and>
      aborts (fadd_pred size' zd pg_m zn zm) buf \<and>
      aborts (fsub_pred size' zd pg_m zn zm) buf \<and>
      aborts (fmul_pred size' zd pg_m zn zm) buf \<and>
      aborts (fsubr size' zd pg_m zn zm) buf \<and>
      aborts (fmaxnm size' zd pg_m zn zm) buf \<and>
      aborts (fminnm size' zd pg_m zn zm) buf \<and>
      aborts (fmax size' zd pg_m zn zm) buf \<and>
      aborts (fmin size' zd pg_m zn zm) buf \<and>
      aborts (fabd size' zd pg_m zn zm) buf \<and>
      aborts (fscale size' zd pg_m zn zm) buf \<and>
      aborts (fmulx size' zd pg_m zn zm) buf \<and>
      aborts (fdivr size' zd pg_m zn zm) buf \<and>
      aborts (fdiv size' zd pg_m zn zm) buf \<and>
      aborts (fcmge_zero size' pd pg_z zn) buf \<and>
      aborts (fcmgt_zero size' pd pg_z zn) buf \<and>
      aborts (fcmlt_zero size' pd pg_z zn) buf \<and>
      aborts (fcmle_zero size' pd pg_z zn) buf \<and>
      aborts (fcmeq_zero size' pd pg_z zn) buf \<and>
      aborts (fcmne_zero size' pd pg_z zn) buf \<and>
      aborts (fadda size' vd_v pg vn zm) buf) \<and>
     ((emits_one_word (histcnt size' zd p_z zn zm) buf \<longleftrightarrow>
         (size' = i32Bit \<or> size' = i64Bit) \<and> PRegisterZero.Idx p_z \<le> 7) \<and>
      (emits_one_word (cmpge size' pd p_z zn zm) buf \<longleftrightarrow>
         size' \<noteq> i128Bit \<and> PRegisterZero.Idx p_z \<le> 7) \<and>
      (emits_one_word (fcmeq size' pd p_z zn zm) buf \<longleftrightarrow>
         size' \<noteq> i128Bit \<and>
         size' \<noteq> i8Bit \<and>
         PRegisterZero.Idx p_z \<le> 7) \<and>
      (emits_one_word (fcmla_pred size' zda p_m zn zm rot) buf \<longleftrightarrow>
         (size' = i16Bit \<or> size' = i32Bit \<or> size' = i64Bit) \<and>
         PRegisterMerge.Idx p_m \<le> 7) \<and>
      (emits_one_word (fcadd size' zd p_m zn zm rot) buf \<longleftrightarrow>
         (size' = i16Bit \<or> size' = i32Bit \<or> size' = i64Bit) \<and>
         PRegisterMerge.Idx p_m \<le> 7 \<and>
         (rot = ROTATE_90 \<or> rot = ROTATE_270) \<and>
         zd = zn) \<and>
      (emits_one_word (match size' pd p_z zn zm) buf \<longleftrightarrow>
         (size' = i8Bit \<or> size' = i16Bit) \<and> PRegisterZero.Idx p_z \<le> 7) \<and>
      (emits_one_word (nmatch size' pd p_z zn zm) buf \<longleftrightarrow>
         (size' = i8Bit \<or> size' = i16Bit) \<and> PRegisterZero.Idx p_z \<le> 7) \<and>
      (emits_one_word (faddp size' zd p_m zn zm) buf \<longleftrightarrow>
         zd = zn \<and>
         (size' = i16Bit \<or> size' = i32Bit \<or> size' = i64Bit) \<and>
         PRegisterMerge.Idx p_m \<le> 7) \<and>
      (emits_one_word (fmaxnmp size' zd p_m zn zm) buf \<longleftrightarrow>
         zd = zn \<and>
         (size' = i16Bit \<or> size' = i32Bit \<or> size' = i64Bit) \<and>
         PRegisterMerge.Idx p_m \<le> 7) \<and>
      (emits_one_word (fminnmp size' zd p_m zn zm) buf \<longleftrightarrow>
         zd = zn \<and>
         (size' = i16Bit \<or> size' = i32Bit \<or> size' = i64Bit) \<and>
         PRegisterMerge.Idx p_m \<le> 7) \<and>
      (emits_one_word (fmaxp size' zd p_m zn zm) buf \<longleftrightarrow>
         zd = zn \<and>
         (size' = i16Bit \<or> size' = i32Bit \<or> size' = i64Bit) \<and>
         PRegisterMerge.Idx p_m \<le> 7) \<and>
      (emits_one_word (fminp size' zd p_m zn zm) buf \<longleftrightarrow>
         zd = zn \<and>
         (size' = i16Bit \<or> size' = i32Bit \<or> size' = i64Bit) \<and>
         PRegisterMerge.Idx p_m \<le> 7) \<and>
      (emits_one_word (fcmgt size' pd p_z zn zm) buf \<longleftrightarrow>
         size' \<noteq> i128Bit \<and>
         size' \<noteq> i8Bit \<and>
         PRegisterZero.Idx p_z \<le> 7) \<and>
      (emits_one_word (fcmge size' pd p_z zn zm) buf \<longleftrightarrow>
         size' \<noteq> i128Bit \<and>
         size' \<noteq> i8Bit \<and>
         PRegisterZero.Idx p_z \<le> 7) \<and>
      (emits_one_word (fcmne size' pd p_z zn zm) buf \<longleftrightarrow>
         size' \<noteq> i128Bit \<and>
         size' \<noteq> i8Bit \<and>
         PRegisterZero.Idx p_z \<le> 7) \<and>
      (emits_one_word (fcmuo size' pd p_z zn zm) buf \<longleftrightarrow>
         size' \<noteq> i128Bit \<and>
         size' \<noteq> i8Bit \<and>
         PRegisterZero.Idx p_z \<le> 7) \<and>
      (emits_one_word (facge size' pd p_z zn zm) buf \<longleftrightarrow>
         size' \<noteq> i128Bit \<and>
         size' \<noteq> i8Bit \<and>
         PRegisterZero.Idx p_z \<le> 7) \<and>
      (emits_one_word (facgt size' pd p_z zn zm) buf \<longleftrightarrow>
         size' \<noteq> i128Bit \<and>
         size' \<noteq> i8Bit \<and>
         PRegisterZero.Idx p_z \<le> 7) \<and>
      (emits_one_word (facle size' pd p_z zm zn) buf \<longleftrightarrow>
         size' \<noteq> i128Bit \<and>
         size' \<noteq> i8Bit \<and>
         PRegisterZero.Idx p_z \<le> 7) \<and>
      (emits_one_word (faclt size' pd p_z zm zn) buf \<longleftrightarrow>
         size' \<noteq> i128Bit \<and>
         size' \<noteq> i8Bit \<and>
         PRegisterZero.Idx p_z \<le> 7) \<and>
      (emits_one_word (faddv size' vd_v p zn) buf \<longleftrightarrow>
         (size' = i16Bit \<or> size' = i32Bit \<or> size' = i64Bit) \<and>
         PRegister.Idx p \<le> 7) \<and>
      (emits_one_word (fmaxnmv size' vd_v p zn) buf \<longleftrightarrow>
         (size' = i16Bit \<or> size' = i32Bit \<or> size' = i64Bit) \<and>
         PRegister.Idx p \<le> 7) \<and>
      (emits_one_word (fminnmv size' vd_v p zn) buf \<longleftrightarrow>
         (size' = i16Bit \<or> size' = i32Bit \<or> size' = i64Bit) \<and>
         PRegister.Idx p \<le> 7) \<and>
      (emits_one_word (fmaxv size' vd_v p zn) buf \<longleftrightarrow>
         (size' = i16Bit \<or> size' = i32Bit \<or> size' = i64Bit) \<and>
         PRegister.Idx p \<le> 7) \<and>
      (emits_one_word (fminv size' vd_v p zn) buf \<longleftrightarrow>
         (size' = i16Bit \<or> size' = i32Bit \<or> size' = i64Bit) \<and>
         PRegister.Idx p \<le> 7) \<and>
      (emits_one_word (mla size' zda p_m zn zm) buf \<longleftrightarrow>
         size' \<noteq> i128Bit \<and> PRegisterMerge.Idx p_m \<le> 7) \<and>
      (emits_one_word (mls size' zda p_m zn zm) buf \<longleftrightarrow>
         size' \<noteq> i128Bit \<and> PRegisterMerge.Idx p_m \<le> 7) \<and>
      (emits_one_word (mad size' zdn p_m zm za) buf \<longleftrightarrow>
         size' \<noteq> i128Bit \<and> PRegisterMerge.Idx p_m \<le> 7) \<and>
      (emits_one_word (msb size' zdn p_m zm za) buf \<longleftrightarrow>
         size' \<noteq> i128Bit \<and> PRegisterMerge.Idx p_m \<le> 7) \<and>
      (emits_one_word (add_pred size' zd p_m zn zm) buf \<longleftrightarrow>
         zd = zn \<and> PRegisterMerge.Idx p_m \<le> 7) \<and>
      (emits_one_word (sub_pred size' zd p_m zn zm) buf \<longleftrightarrow>
         zd = zn \<and> PRegisterMerge.Idx p_m \<le> 7) \<and>
      (emits_one_word (subr size' zd p_m zn zm) buf \<longleftrightarrow>
         zd = zn \<and> PRegisterMerge.Idx p_m \<le> 7) \<and>
      (emits_one_word (mul_pred size' zd p_m zn zm) buf \<longleftrightarrow>
         zd = zn \<and> PRegisterMerge.Idx p_m \<le> 7) \<and>
      (emits_one_word (smulh_pred size' zd p_m zn zm) buf \<longleftrightarrow>
         zd = zn \<and> PRegisterMerge.Idx p_m \<le> 7) \<and>
      (emits_one_word (umulh_pred size' zd p_m zn zm) buf \<longleftrightarrow>
         zd = zn \<and> PRegisterMerge.Idx p_m \<le> 7) \<and>
      (emits_one_word (sdiv size' zd p_m zn zm) buf \<longleftrightarrow>
         (size' = i32Bit \<or> size' = i64Bit) \<and>
         zd = zn \<and>
         PRegisterMerge.Idx p_m \<le> 7) \<and>
      (emits_one_word (udiv size' zd p_m zn zm) buf \<longleftrightarrow>
         (size' = i32Bit \<or> size' = i64Bit) \<and>
         zd = zn \<and>
         PRegisterMerge.Idx p_m \<le> 7) \<and>
      (emits_one_word (sdivr size' zd p_m zn zm) buf \<longleftrightarrow>
         (size' = i32Bit \<or> size' = i64Bit) \<and>
         zd = zn \<and>
         PRegisterMerge.Idx p_m \<le> 7) \<and>
      (emits_one_word (udivr size' zd p_m zn zm) buf \<longleftrightarrow>
         (size' = i32Bit \<or> size' = i64Bit) \<and>
         zd = zn \<and>
         PRegisterMerge.Idx p_m \<le> 7) \<and>
      (emits_one_word (saddv size' vd_d p zn) buf \<longleftrightarrow>
         (size' = i8Bit \<or> size' = i16Bit \<or> size' = i32Bit) \<and>
         size' \<noteq> i128Bit \<and>
         PRegister.Idx p \<le> 7) \<and>
      (emits_one_word (uaddv size' vd_d p zn) buf \<longleftrightarrow>
         (size' = i8Bit \<or> size' = i16Bit \<or> size' = i32Bit) \<and>
         size' \<noteq> i128Bit \<and>
         PRegister.Idx p \<le> 7) \<and>
      (emits_one_word (smaxv size' vd_v p zn) buf \<longleftrightarrow>
         size' \<noteq> i128Bit \<and> PRegister.Idx p \<le> 7) \<and>
      (emits_one_word (umaxv size' vd_v p zn) buf \<longleftrightarrow>
         size' \<noteq> i128Bit \<and> PRegister.Idx p \<le> 7) \<and>
      (emits_one_word (sminv size' vd_v p zn) buf \<longleftrightarrow>
         size' \<noteq> i128Bit \<and> PRegister.Idx p \<le> 7) \<and>
      (emits_one_word (uminv size' vd_v p zn) buf \<longleftrightarrow>
         size' \<noteq> i128Bit \<and> PRegister.Idx p \<le> 7) \<and>
      (emits_one_word (orv size' vd_v p zn) buf \<longleftrightarrow>
         size' \<noteq> i128Bit \<and> PRegister.Idx p \<le> 7) \<and>
      (emits_one_word (eorv size' vd_v p zn) buf \<longleftrightarrow>
         size' \<noteq> i128Bit \<and> PRegister.Idx p \<le> 7) \<and>
      (emits_one_word (andv size' vd_v p zn) buf \<longleftrightarrow>
         size' \<noteq> i128Bit \<and> PRegister.Idx p \<le> 7) \<and>
      (emits_one_word (asr_pred_imm size' zd p_m zdn Shift) buf \<longleftrightarrow>
         size' \<noteq> i128Bit \<and>
         zd = zdn \<and>
         PRegisterMerge.Idx p_m \<le> 7 \<and>
         legal_shift size' False Shift) \<and>
      (emits_one_word (lsr_pred_imm size' zd p_m zdn Shift) buf \<longleftrightarrow>
         size' \<noteq> i128Bit \<and>
         zd = zdn \<and>
         PRegisterMerge.Idx p_m \<le> 7 \<and>
         legal_shift size' False Shift) \<and>
      (emits_one_word (lsl_pred_imm size' zd p_m zdn Shift) buf \<longleftrightarrow>
         size' \<noteq> i128Bit \<and>
         zd = zdn \<and>
         PRegisterMerge.Idx p_m \<le> 7 \<and>
         legal_shift size' True Shift) \<and>
      (emits_one_word (asrd size' zd p_m zdn Shift) buf \<longleftrightarrow>
         size' \<noteq> i128Bit \<and>
         zd = zdn \<and>
         PRegisterMerge.Idx p_m \<le> 7 \<and>
         legal_shift size' False Shift) \<and>
      (emits_one_word (sqshl size' zd p_m zdn Shift) buf \<longleftrightarrow>
         size' \<noteq> i128Bit \<and>
         zd = zdn \<and>
         PRegisterMerge.Idx p_m \<le> 7 \<and>
         legal_shift size' True Shift) \<and>
      (emits_one_word (uqshl size' zd p_m zdn Shift) buf \<longleftrightarrow>
         size' \<noteq> i128Bit \<and>
         zd = zdn \<and>
         PRegisterMerge.Idx p_m \<le> 7 \<and>
         legal_shift size' True Shift) \<and>
      (emits_one_word (srshr size' zd p_m zdn Shift) buf \<longleftrightarrow>
         size' \<noteq> i128Bit \<and>
         zd = zdn \<and>
         PRegisterMerge.Idx p_m \<le> 7 \<and>
         legal_shift size' False Shift) \<and>
      (emits_one_word (urshr size' zd p_m zdn Shift) buf \<longleftrightarrow>
         size' \<noteq> i128Bit \<and>
         zd = zdn \<and>
         PRegisterMerge.Idx p_m \<le> 7 \<and>
         legal_shift size' False Shift) \<and>
      (emits_one_word (sqshlu size' zd p_m zdn Shift) buf \<longleftrightarrow>
         size' \<noteq> i128Bit \<and>
         zd = zdn \<and>
         PRegisterMerge.Idx p_m \<le> 7 \<and>
         legal_shift size' True Shift) \<and>
      (emits_one_word (asr_pred size' zd p_m zn zm) buf \<longleftrightarrow>
         size' \<noteq> i128Bit \<and> zd = zn \<and> PRegisterMerge.Idx p_m \<le> 7) \<and>
      (emits_one_word (lsr_pred size' zd p_m zn zm) buf \<longleftrightarrow>
         size' \<noteq> i128Bit \<and> zd = zn \<and> PRegisterMerge.Idx p_m \<le> 7) \<and>
      (emits_one_word (lsl_pred size' zd p_m zn zm) buf \<longleftrightarrow>
         size' \<noteq> i128Bit \<and> zd = zn \<and> PRegisterMerge.Idx p_m \<le> 7) \<and>
      (emits_one_word (asrr size' zd p_m zn zm) buf \<longleftrightarrow>
         size' \<noteq> i128Bit \<and> zd = zn \<and> PRegisterMerge.Idx p_m \<le> 7) \<and>
      (emits_one_word (lsrr size' zd p_m zn zm) buf \<longleftrightarrow>
         size' \<noteq> i128Bit \<and> zd = zn \<and> PRegisterMerge.Idx p_m \<le> 7) \<and>
      (emits_one_word (lslr size' zd p_m zn zm) buf \<longleftrightarrow>
         size' \<noteq> i128Bit \<and> zd = zn \<and> PRegisterMerge.Idx p_m \<le> 7) \<and>
      (emits_one_word (asr_wide_pred size' zd p_m zn zm) buf \<longleftrightarrow>
         size' \<noteq> i64Bit \<and> size' \<noteq> i128Bit \<and>
         zd = zn \<and>
         PRegisterMerge.Idx p_m \<le> 7) \<and>
      (emits_one_word (lsr_wide_pred size' zd p_m zn zm) buf \<longleftrightarrow>
         size' \<noteq> i64Bit \<and> size' \<noteq> i128Bit \<and>
         zd = zn \<and>
         PRegisterMerge.Idx p_m \<le> 7) \<and>
      (emits_one_word (lsl_wide_pred size' zd p_m zn zm) buf \<longleftrightarrow>
         size' \<noteq> i64Bit \<and> size' \<noteq> i128Bit \<and>
         zd = zn \<and>
         PRegisterMerge.Idx p_m \<le> 7) \<and>
      (emits_one_word (cpy_v size' zd p_m vn) buf \<longleftrightarrow>
         size' \<noteq> i128Bit \<and> PRegisterMerge.Idx p_m \<le> 7) \<and>
      (emits_one_word (compact size' zd p zn) buf \<longleftrightarrow>
         (size' = i64Bit \<or> size' = i32Bit) \<and>
         size' \<noteq> i128Bit \<and>
         PRegister.Idx p \<le> 7) \<and>
      (emits_one_word (cpy_r size' zd p_m rn) buf \<longleftrightarrow>
         size' \<noteq> i128Bit \<and> PRegisterMerge.Idx p_m \<le> 7) \<and>
      (emits_one_word (splice_Constructive size' zd p zn zn2) buf \<longleftrightarrow>
         AreVectorsSequential zn zn2 \<and>
         size' \<noteq> i128Bit \<and>
         PRegister.Idx p \<le> 7) \<and>
      (emits_one_word (splice_Destructive size' zd p zn zm) buf \<longleftrightarrow>
         zd = zn \<and> size' \<noteq> i128Bit \<and> PRegister.Idx p \<le> 7) \<and>
      (emits_one_word (lasta_r size' rd p zn) buf \<longleftrightarrow>
         size' \<noteq> i128Bit \<and> PRegister.Idx p \<le> 7) \<and>
      (emits_one_word (lastb_r size' rd p zn) buf \<longleftrightarrow>
         size' \<noteq> i128Bit \<and> PRegister.Idx p \<le> 7) \<and>
      (emits_one_word (lasta_v size' vd_v p zn) buf \<longleftrightarrow>
         size' \<noteq> i128Bit \<and> PRegister.Idx p \<le> 7) \<and>
      (emits_one_word (lastb_v size' vd_v p zn) buf \<longleftrightarrow>
         size' \<noteq> i128Bit \<and> PRegister.Idx p \<le> 7) \<and>
      (emits_one_word (revb size' zd p_m zn) buf \<longleftrightarrow>
         size' \<noteq> i8Bit \<and>
         size' \<noteq> i128Bit \<and>
         PRegisterMerge.Idx p_m \<le> 7) \<and>
      (emits_one_word (revh size' zd p_m zn) buf \<longleftrightarrow>
         size' \<noteq> i8Bit \<and> size' \<noteq> i16Bit \<and>
         size' \<noteq> i128Bit \<and>
         PRegisterMerge.Idx p_m \<le> 7) \<and>
      (emits_one_word (revw size' zd p_m zn) buf \<longleftrightarrow>
         size' = i64Bit \<and>
         size' \<noteq> i128Bit \<and>
         PRegisterMerge.Idx p_m \<le> 7) \<and>
      (emits_one_word (rbit size' zd p_m zn) buf \<longleftrightarrow>
         size' \<noteq> i128Bit \<and> PRegisterMerge.Idx p_m \<le> 7) \<and>
      (emits_one_word (clasta size' zd p zn zm) buf \<longleftrightarrow>
         zd = zn \<and> size' \<noteq> i128Bit \<and> PRegister.Idx p \<le> 7) \<and>
      (emits_one_word (clastb size' zd p zn zm) buf \<longleftrightarrow>
         zd = zn \<and> size' \<noteq> i128Bit \<and> PRegister.Idx p \<le> 7) \<and>
      (emits_one_word (clasta_v size' vd_v p vn zm) buf \<longleftrightarrow>
         vd_v = vn \<and> size' \<noteq> i128Bit \<and> PRegister.Idx p \<le> 7) \<and>
      (emits_one_word (clastb_v size' vd_v p vn zm) buf \<longleftrightarrow>
         vd_v = vn \<and> size' \<noteq> i128Bit \<and> PRegister.Idx p \<le> 7) \<and>
      (emits_one_word (clasta_r size' rd p rn zm) buf \<longleftrightarrow>
         rd = rn \<and> size' \<noteq> i128Bit \<and> PRegister.Idx p \<le> 7) \<and>
      (emits_one_word (clastb_r size' rd p rn zm) buf \<longleftrightarrow>
         rd = rn \<and> size' \<noteq> i128Bit \<and> PRegister.Idx p \<le> 7) \<and>
      (emits_one_word (cmpeq size' pd p_z zn zm) buf \<longleftrightarrow>
         size' \<noteq> i128Bit \<and> PRegisterZero.Idx p_z \<le> 7) \<and>
      (emits_one_word (cmpgt size' pd p_z zn zm) buf \<longleftrightarrow>
         size' \<noteq> i128Bit \<and> PRegisterZero.Idx p_z \<le> 7) \<and>
      (emits_one_word (cmphi size' pd p_z zn zm) buf \<longleftrightarrow>
         size' \<noteq> i128Bit \<and> PRegisterZero.Idx p_z \<le> 7) \<and>
      (emits_one_word (cmphs size' pd p_z zn zm) buf \<longleftrightarrow>
         size' \<noteq> i128Bit \<and> PRegisterZero.Idx p_z \<le> 7) \<and>
      (emits_one_word (cmpne size' pd p_z zn zm) buf \<longleftrightarrow>
         size' \<noteq> i128Bit \<and> PRegisterZero.Idx p_z \<le> 7) \<and>
      (emits_one_word (cmpeq_wide size' pd p_z zn zm) buf \<longleftrightarrow>
         size' \<noteq> i64Bit \<and>
         size' \<noteq> i128Bit \<and>
         PRegisterZero.Idx p_z \<le> 7) \<and>
      (emits_one_word (cmpgt_wide size' pd p_z zn zm) buf \<longleftrightarrow>
         size' \<noteq> i64Bit \<and>
         size' \<noteq> i128Bit \<and>
         PRegisterZero.Idx p_z \<le> 7) \<and>
      (emits_one_word (cmpge_wide size' pd p_z zn zm) buf \<longleftrightarrow>
         size' \<noteq> i64Bit \<and>
         size' \<noteq> i128Bit \<and>
         PRegisterZero.Idx p_z \<le> 7) \<and>
      (emits_one_word (cmphi_wide size' pd p_z zn zm) buf \<longleftrightarrow>
         size' \<noteq> i64Bit \<and>
         size' \<noteq> i128Bit \<and>
         PRegisterZero.Idx p_z \<le> 7) \<and>
      (emits_one_word (cmphs_wide size' pd p_z zn zm) buf \<longleftrightarrow>
         size' \<noteq> i64Bit \<and>
         size' \<noteq> i128Bit \<and>
         PRegisterZero.Idx p_z \<le> 7) \<and>
      (emits_one_word (cmplt_wide size' pd p_z zn zm) buf \<longleftrightarrow>
         size' \<noteq> i64Bit \<and>
         size' \<noteq> i128Bit \<and>
         PRegisterZero.Idx p_z \<le> 7) \<and>
      (emits_one_word (cmple_wide size' pd p_z zn zm) buf \<longleftrightarrow>
         size' \<noteq> i64Bit \<and>
         size' \<noteq> i128Bit \<and>
         PRegisterZero.Idx p_z \<le> 7) \<and>
      (emits_one_word (cmplo_wide size' pd p_z zn zm) buf \<longleftrightarrow>
         size' \<noteq> i64Bit \<and>
         size' \<noteq> i128Bit \<and>
         PRegisterZero.Idx p_z \<le> 7) \<and>
      (emits_one_word (cmpls_wide size' pd p_z zn zm) buf \<longleftrightarrow>
         size' \<noteq> i64Bit \<and>
         size' \<noteq> i128Bit \<and>
         PRegisterZero.Idx p_z \<le> 7) \<and>
      (emits_one_word (cmpne_wide size' pd p_z zn zm) buf \<longleftrightarrow>
         size' \<noteq> i64Bit \<and>
         size' \<noteq> i128Bit \<and>
         PRegisterZero.Idx p_z \<le> 7) \<and>
      (emits_one_word (shadd size' zd p_m zn zm) buf \<longleftrightarrow>
         size' \<noteq> i128Bit \<and> zd = zn \<and> PRegisterMerge.Idx p_m \<le> 7) \<and>
      (emits_one_word (uhadd size' zd p_m zn zm) buf \<longleftrightarrow>
         size' \<noteq> i128Bit \<and> zd = zn \<and> PRegisterMerge.Idx p_m \<le> 7) \<and>
      (emits_one_word (shsub size' zd p_m zn zm) buf \<longleftrightarrow>
         size' \<noteq> i128Bit \<and> zd = zn \<and> PRegisterMerge.Idx p_m \<le> 7) \<and>
      (emits_one_word (uhsub size' zd p_m zn zm) buf \<longleftrightarrow>
         size' \<noteq> i128Bit \<and> zd = zn \<and> PRegisterMerge.Idx p_m \<le> 7) \<and>
      (emits_one_word (srhadd size' zd p_m zn zm) buf \<longleftrightarrow>
         size' \<noteq> i128Bit \<and> zd = zn \<and> PRegisterMerge.Idx p_m \<le> 7) \<and>
      (emits_one_word (urhadd size' zd p_m zn zm) buf \<longleftrightarrow>
         size' \<noteq> i128Bit \<and> zd = zn \<and> PRegisterMerge.Idx p_m \<le> 7) \<and>
      (emits_one_word (shsubr size' zd p_m zn zm) buf \<longleftrightarrow>
         size' \<noteq> i128Bit \<and> zd = zn \<and> PRegisterMerge.Idx p_m \<le> 7) \<and>
      (emits_one_word (uhsubr size' zd p_m zn zm) buf \<longleftrightarrow>
         size' \<noteq> i128Bit \<and> zd = zn \<and> PRegisterMerge.Idx p_m \<le> 7) \<and>
      (emits_one_word (addp size' zd p_m zn zm) buf \<longleftrightarrow>
         size' \<noteq> i128Bit \<and> zd = zn \<and> PRegisterMerge.Idx p_m \<le> 7) \<and>
      (emits_one_word (smaxp size' zd p_m zn zm) buf \<longleftrightarrow>
         size' \<noteq> i128Bit \<and> zd = zn \<and> PRegisterMerge.Idx p_m \<le> 7) \<and>
      (emits_one_word (umaxp size' zd p_m zn zm) buf \<longleftrightarrow>
         size' \<noteq> i128Bit \<and> zd = zn \<and> PRegisterMerge.Idx p_m \<le> 7) \<and>
      (emits_one_word (sminp size' zd p_m zn zm) buf \<longleftrightarrow>
         size' \<noteq> i128Bit \<and> zd = zn \<and> PRegisterMerge.Idx p_m \<le> 7) \<and>
      (emits_one_word (uminp size' zd p_m zn zm) buf \<longleftrightarrow>
         size' \<noteq> i128Bit \<and> zd = zn \<and> PRegisterMerge.Idx p_m \<le> 7) \<and>
      (emits_one_word (sqadd_pred size' zd p_m zn zm) buf \<longleftrightarrow>
         size' \<noteq> i128Bit \<and> zd = zn \<and> PRegisterMerge.Idx p_m \<le> 7) \<and>
      (emits_one_word (uqadd_pred size' zd p_m zn zm) buf \<longleftrightarrow>
         size' \<noteq> i128Bit \<and> zd = zn \<and> PRegisterMerge.Idx p_m \<le> 7) \<and>
      (emits_one_word (sqsub_pred size' zd p_m zn zm) buf \<longleftrightarrow>
         size' \<noteq> i128Bit \<and> zd = zn \<and> PRegisterMerge.Idx p_m \<le> 7) \<and>
      (emits_one_word (uqsub_pred size' zd p_m zn zm) buf \<longleftrightarrow>
         size' \<noteq> i128Bit \<and> zd = zn \<and> PRegisterMerge.Idx p_m \<le> 7) \<and>
      (emits_one_word (suqadd size' zd p_m zn zm) buf \<longleftrightarrow>
         size' \<noteq> i128Bit \<and> zd = zn \<and> PRegisterMerge.Idx p_m \<le> 7) \<and>
      (emits_one_word (usqadd size' zd p_m zn zm) buf \<longleftrightarrow>
         size' \<noteq> i128Bit \<and> zd = zn \<and> PRegisterMerge.Idx p_m \<le> 7) \<and>
      (emits_one_word (sqsubr size' zd p_m zn zm) buf \<longleftrightarrow>
         size' \<noteq> i128Bit \<and> zd = zn \<and> PRegisterMerge.Idx p_m \<le> 7) \<and>
      (emits_one_word (uqsubr size' zd p_m zn zm) buf \<longleftrightarrow>
         size' \<noteq> i128Bit \<and> zd = zn \<and> PRegisterMerge.Idx p_m \<le> 7) \<and>
      (emits_one_word (fadd_pred size' zd p_m zn zm) buf \<longleftrightarrow>
         zd = zn \<and>
         (size' = i16Bit \<or> size' = i32Bit \<or> size' = i64Bit) \<and>
         PRegisterMerge.Idx p_m \<le> 7) \<and>
      (emits_one_word (fsub_pred size' zd p_m zn zm) buf \<longleftrightarrow>
         zd = zn \<and>
         (size' = i16Bit \<or> size' = i32Bit \<or> size' = i64Bit) \<and>
         PRegisterMerge.Idx p_m \<le> 7) \<and>
      (emits_one_word (fmul_pred size' zd p_m zn zm) buf \<longleftrightarrow>
         zd = zn \<and>
         (size' = i16Bit \<or> size' = i32Bit \<or> size' = i64Bit) \<and>
         PRegisterMerge.Idx p_m \<le> 7) \<and>
      (emits_one_word (fsubr size' zd p_m zn zm) buf \<longleftrightarrow>
         zd = zn \<and>
         (size' = i16Bit \<or> size' = i32Bit \<or> size' = i64Bit) \<and>
         PRegisterMerge.Idx p_m \<le> 7) \<and>
      (emits_one_word (fmaxnm size' zd p_m zn zm) buf \<longleftrightarrow>
         zd = zn \<and>
         (size' = i16Bit \<or> size' = i32Bit \<or> size' = i64Bit) \<and>
         PRegisterMerge.Idx p_m \<le> 7) \<and>
      (emits_one_word (fminnm size' zd p_m zn zm) buf \<longleftrightarrow>
         zd = zn \<and>
         (size' = i16Bit \<or> size' = i32Bit \<or> size' = i64Bit) \<and>
         PRegisterMerge.Idx p_m \<le> 7) \<and>
      (emits_one_word (fmax size' zd p_m zn zm) buf \<longleftrightarrow>
         zd = zn \<and>
         (size' = i16Bit \<or> size' = i32Bit \<or> size' = i64Bit) \<and>
         PRegisterMerge.Idx p_m \<le> 7) \<and>
      (emits_one_word (fmin size' zd p_m zn zm) buf \<longleftrightarrow>
         zd = zn \<and>
         (size' = i16Bit \<or> size' = i32Bit \<or> size' = i64Bit) \<and>
         PRegisterMerge.Idx p_m \<le> 7) \<and>
      (emits_one_word (fabd size' zd p_m zn zm) buf \<longleftrightarrow>
         zd = zn \<and>
         (size' = i16Bit \<or> size' = i32Bit \<or> size' = i64Bit) \<and>
         PRegisterMerge.Idx p_m \<le> 7) \<and>
      (emits_one_word (fscale size' zd p_m zn zm) buf \<longleftrightarrow>
         zd = zn \<and>
         (size' = i16Bit \<or> size' = i32Bit \<or> size' = i64Bit) \<and>
         PRegisterMerge.Idx p_m \<le> 7) \<and>
      (emits_one_word (fmulx size' zd p_m zn zm) buf \<longleftrightarrow>
         zd = zn \<and>
         (size' = i16Bit \<or> size' = i32Bit \<or> size' = i64Bit) \<and>
         PRegisterMerge.Idx p_m \<le> 7) \<and>
      (emits_one_word (fdivr size' zd p_m zn zm) buf \<longleftrightarrow>
         zd = zn \<and>
         (size' = i16Bit \<or> size' = i32Bit \<or> size' = i64Bit) \<and>
         PRegisterMerge.Idx p_m \<le> 7) \<and>
      (emits_one_word (fdiv size' zd p_m zn zm) buf \<longleftrightarrow>
         zd = zn \<and>
         (size' = i16Bit \<or> size' = i32Bit \<or> size' = i64Bit) \<and>
         PRegisterMerge.Idx p_m \<le> 7) \<and>
      (emits_one_word (fcmge_zero size' pd p_z zn) buf \<longleftrightarrow>
         (size' = i16Bit \<or> size' = i32Bit \<or> size' = i64Bit) \<and>
         PRegisterZero.Idx p_z \<le> 7) \<and>
      (emits_one_word (fcmgt_zero size' pd p_z zn) buf \<longleftrightarrow>
         (size' = i16Bit \<or> size' = i32Bit \<or> size' = i64Bit) \<and>
         PRegisterZero.Idx p_z \<le> 7) \<and>
      (emits_one_word (fcmlt_zero size' pd p_z zn) buf \<longleftrightarrow>
         (size' = i16Bit \<or> size' = i32Bit \<or> size' = i64Bit) \<and>
         PRegisterZero.Idx p_z \<le> 7) \<and>
      (emits_one_word (fcmle_zero size' pd p_z zn) buf \<longleftrightarrow>
         (size' = i16Bit \<or> size' = i32Bit \<or> size' = i64Bit) \<and>
         PRegisterZero.Idx p_z \<le> 7) \<and>
      (emits_one_word (fcmeq_zero size' pd p_z zn) buf \<longleftrightarrow>
         (size' = i16Bit \<or> size' = i32Bit \<or> size' = i64Bit) \<and>
         PRegisterZero.Idx p_z \<le> 7) \<and>
      (emits_one_word (fcmne_zero size' pd p_z zn) buf \<longleftrightarrow>
         (size' = i16Bit \<or> size' = i32Bit \<or> size' = i64Bit) \<and>
         PRegisterZero.Idx p_z \<le> 7) \<and>
      (emits_one_word (fadda size' vd_v p vn zm) buf \<longleftrightarrow>
         (size' = i16Bit \<or> size' = i32Bit \<or> size' = i64Bit) \<and>
         PRegister.Idx p \<le> 7 \<and>
         vd_v = vn)) \<and>
     ((emits_one_word (cmpge_imm size' pd pg_z zn imm) buf \<longleftrightarrow>
         size' \<noteq> i128Bit \<and> - 16 \<le> sint imm \<and> sint imm \<le> 15) \<and>
      (emits_one_word (cmphi_imm size' pd pg_z zn imm) buf \<longleftrightarrow>
         size' \<noteq> i128Bit \<and> imm < 128) \<and>
      (emits_one_word (cmphs_imm size' pd pg_z zn imm) buf \<longleftrightarrow>
         size' \<noteq> i128Bit \<and> imm < 128) \<and>
      (emits_one_word (cmplo_imm size' pd pg_z zn imm) buf \<longleftrightarrow>
         size' \<noteq> i128Bit \<and> imm < 128) \<and>
      (emits_one_word (cmpls_imm size' pd pg_z zn imm) buf \<longleftrightarrow>
         size' \<noteq> i128Bit \<and> imm < 128) \<and>
      (emits_one_word (cmpeq_imm size' pd pg_z zn imm) buf \<longleftrightarrow>
         size' \<noteq> i128Bit \<and> - 16 \<le> sint imm \<and> sint imm \<le> 15) \<and>
      (emits_one_word (cmpgt_imm size' pd pg_z zn imm) buf \<longleftrightarrow>
         size' \<noteq> i128Bit \<and> - 16 \<le> sint imm \<and> sint imm \<le> 15) \<and>
      (emits_one_word (cmplt_imm size' pd pg_z zn imm) buf \<longleftrightarrow>
         size' \<noteq> i128Bit \<and> - 16 \<le> sint imm \<and> sint imm \<le> 15) \<and>
      (emits_one_word (cmple_imm size' pd pg_z zn imm) buf \<longleftrightarrow>
         size' \<noteq> i128Bit \<and> - 16 \<le> sint imm \<and> sint imm \<le> 15) \<and>
      (emits_one_word (smax size' zd pg_m zdn zm) buf \<longleftrightarrow>
         size' \<noteq> i128Bit \<and> zd = zdn) \<and>
      (emits_one_word (umax size' zd pg_m zdn zm) buf \<longleftrightarrow>
         size' \<noteq> i128Bit \<and> zd = zdn) \<and>
      (emits_one_word (smin size' zd pg_m zdn zm) buf \<longleftrightarrow>
         size' \<noteq> i128Bit \<and> zd = zdn) \<and>
      (emits_one_word (umin size' zd pg_m zdn zm) buf \<longleftrightarrow>
         size' \<noteq> i128Bit \<and> zd = zdn) \<and>
      (emits_one_word (sabd size' zd pg_m zdn zm) buf \<longleftrightarrow>
         size' \<noteq> i128Bit \<and> zd = zdn) \<and>
      (emits_one_word (uabd size' zd pg_m zdn zm) buf \<longleftrightarrow>
         size' \<noteq> i128Bit \<and> zd = zdn) \<and>
      (emits_one_word (orr_pred size' zd pg_m zdn zm) buf \<longleftrightarrow>
         size' \<noteq> i128Bit \<and> zd = zdn) \<and>
      (emits_one_word (eor_pred size' zd pg_m zdn zm) buf \<longleftrightarrow>
         size' \<noteq> i128Bit \<and> zd = zdn) \<and>
      (emits_one_word (and_pred size' zd pg_m zdn zm) buf \<longleftrightarrow>
         size' \<noteq> i128Bit \<and> zd = zdn) \<and>
      (emits_one_word (bic_pred size' zd pg_m zdn zm) buf \<longleftrightarrow>
         size' \<noteq> i128Bit \<and> zd = zdn)) \<and>
     cmpge_imm i8Bit (PRegister 0) (Zeroing PReg_p8) (ZRegister 0) 0 buf = (None, buf @ [0x25002000]) \<and>
     cmplt_imm i8Bit (PRegister 0) (Zeroing PReg_p0) (ZRegister 0) 0 buf = (None, buf @ [0x25002000])"
proof -
  have n: "\<not> PRegister.Idx pg \<le> 7" "\<not> PRegisterMerge.Idx pg_m \<le> 7" "\<not> PRegisterZero.Idx pg_z \<le> 7"
    using assms by (simp_all add: not_le)
  show ?thesis
    using n
    by (simp add: histcnt_def cmpge_def fcmeq_def fcmla_pred_def fcadd_def match_def nmatch_def faddp_def
        fmaxnmp_def fminnmp_def fmaxp_def fminp_def fcmgt_def fcmge_def fcmne_def fcmuo_def
        facge_def facgt_def facle_def faclt_def faddv_def fmaxnmv_def fminnmv_def fmaxv_def
        fminv_def mla_def mls_def mad_def msb_def add_pred_def sub_pred_def subr_def mul_pred_def
        smulh_pred_def umulh_pred_def sdiv_def udiv_def sdivr_def udivr_def saddv_def uaddv_def
        smaxv_def umaxv_def sminv_def uminv_def orv_def eorv_def andv_def asr_pred_imm_def
        lsr_pred_imm_def lsl_pred_imm_def asrd_def sqshl_def uqshl_def srshr_def urshr_def
        sqshlu_def asr_pred_def lsr_pred_def lsl_pred_def asrr_def lsrr_def lslr_def
        asr_wide_pred_def lsr_wide_pred_def lsl_wide_pred_def cpy_v_def compact_def cpy_r_def
        splice_Constructive_def splice_Destructive_def lasta_r_def lastb_r_def lasta_v_def
        lastb_v_def revb_def revh_def revw_def rbit_def clasta_def clastb_def clasta_v_def
        clastb_v_def clasta_r_def clastb_r_def cmpeq_def cmpgt_def cmphi_def cmphs_def cmpne_def
        cmpeq_wide_def cmpgt_wide_def cmpge_wide_def cmphi_wide_def cmphs_wide_def cmplt_wide_def
        cmple_wide_def cmplo_wide_def cmpls_wide_def cmpne_wide_def shadd_def uhadd_def shsub_def
        uhsub_def srhadd_def urhadd_def shsubr_def uhsubr_def addp_def smaxp_def umaxp_def
        sminp_def uminp_def sqadd_pred_def uqadd_pred_def sqsub_pred_def uqsub_pred_def suqadd_def
        usqadd_def sqsubr_def uqsubr_def fadd_pred_def fsub_pred_def fmul_pred_def fsubr_def
        fmaxnm_def fminnm_def fmax_def fmin_def fabd_def fscale_def fmulx_def fdivr_def fdiv_def
        fcmge_zero_def fcmgt_zero_def fcmlt_zero_def fcmle_zero_def fcmeq_zero_def fcmne_zero_def
        fadda_def cmpge_imm_def cmphi_imm_def cmphs_imm_def cmplo_imm_def cmpls_imm_def
        cmpeq_imm_def cmpgt_imm_def cmplt_imm_def cmple_imm_def smax_def umax_def smin_def
        umin_def sabd_def uabd_def orr_pred_def eor_pred_def and_pred_def bic_pred_def
        SVEBitwiseShiftbyVector_def SVEFloatPairwiseArithmetic_def
        SVE2IntegerHalvingPredicated_def SVEIntegerPairwiseArithmetic_def
        SVEFloatArithmeticPredicated_def SVECharacterMatch_def SVEFPRecursiveReduction_def
        SVEAddSubVectorsPredicated_def SVEIntegerMulDivVectorsPredicated_def
        SVEIntegerReductionOperation_def SVEIntegerMultiplyAddSubPredicated_def
        SVE2IntegerSaturatingAddSub_def SVEBitwiseShiftByWideElementPredicated_def
        SVEFloatCompareVector_def SVEIntegerCompareVector_def SVEIntegerCompareVectorWide_def
        SVEPermuteVectorPredicated_def SVEFPSerialReductionPredicated_def SVEFPCompareWithZero_def
        SVEIntegerCompareImm_def SVEIntegerCompareSignedImm_def
        SVEIntegerMinMaxDifferencePredicated_def SVEBitwiseLogicalPredicated_def
        governed_primitives_abort SVEBitWiseShiftImmediatePred_emits_iff aborts_simps
        emits_one_word_simps dc32_def Let_def
        PRegister_of_Zero_def PRegister_of_Merge_def PRegister_le_def PRegisterZero_le_def
        PRegisterMerge_le_def Zeroing_def Merging_def PReg_p0_def PReg_p7_def PReg_p8_def
        LOGMAN_THROW_AA_FMT_def)
qed

theorem governing_predicate_p0_to_p7_not_always_tested_witness:
  "aborts (histcnt i32Bit (ZRegister 0) (PRegisterZero 8) (ZRegister 1) (ZRegister 2)) [] \<and>
   aborts (cmpge i32Bit (PRegister 0) (PRegisterZero 8) (ZRegister 1) (ZRegister 2)) [] \<and>
   aborts (fcmeq i32Bit (PRegister 0) (PRegisterZero 8) (ZRegister 1) (ZRegister 2)) [] \<and>
   emits_one_word (histcnt i32Bit (ZRegister 0) (PRegisterZero 7) (ZRegister 1) (ZRegister 2)) [] \<and>
   emits_one_word (cmpge i32Bit (PRegister 0) (PRegisterZero 7) (ZRegister 1) (ZRegister 2)) [] \<and>
   emits_one_word (fcmeq i32Bit (PRegister 0) (PRegisterZero 7) (ZRegister 1) (ZRegister 2)) [] \<and>
   emits_one_word (cmpge_imm i32Bit (PRegister 0) (PRegisterZero 8) (ZRegister 1) 0) []"
proof -
  have h: "7 < PRegister.Idx (PRegister 8)" "7 < PRegisterMerge.Idx (PRegisterMerge 8)"
    "7 < PRegisterZero.Idx (PRegisterZero 8)"
    by simp_all
  note A = governing_predicate_p0_to_p7_not_always_tested[OF h, THEN conjunct1]
  note B = governing_predicate_p0_to_p7_not_always_tested[OF h, THEN conjunct2,
      THEN conjunct1]
  note C = governing_predicate_p0_to_p7_not_always_tested[OF h, THEN conjunct2,
      THEN conjunct2, THEN conjunct1]
  show ?thesis
    by (intro conjI)
      (rule A[THEN conjunct1], rule A[THEN conjunct2, THEN conjunct1],
        rule A[THEN conjunct2, THEN conjunct2, THEN conjunct1],
        simp_all add: B[THEN conjunct1] B[THEN conjunct2, THEN conjunct1]
          B[THEN conjunct2, THEN conjunct2, THEN conjunct1] C[THEN conjunct1])
qed

subsection \<open>Memory operands\<close>

lemma contiguous_primitives_emit:
  "emits_one_word (SVEContiguousLoadImm Op dtype Imm pg rn zt) buf"
  "emits_one_word (SVEContiguousLoadStore Op dtype rm pg rn zt) buf"
  by (simp_all add: SVEContiguousLoadImm_def SVEContiguousLoadStore_def emits_one_word_simps Let_def)

text \<open>
  Claim C9, first part as stated, fails: a helper given a scalar-plus-immediate operand
  whose offset is 8 resolves it to the immediate form, which rejects the offset; the call
  aborts and no word is emitted.
\<close>

theorem ld1b_scalar_immediate_8_aborts:
  "ld1b i8Bit (ZRegister 0) (PRegisterZero 0)
     \<lparr>MemType = TYPE_SCALAR_IMM, Operand_rn = Register 0, ScalarScalarType_rm = Register 0,
      ScalarImmType_Imm = 8\<rparr> []
   = (Some (Abort ''Invalid sized loadstore offset size''), [])"
  by (simp add: ld1b_def ld1b_imm_def LOGMAN_THROW_AA_FMT_def)

text \<open>
  Claim C9, amended. Each of the eleven load/store helpers that take a memory operand, in
  every instantiation that its forms admit, resolves a scalar-plus-scalar operand to its
  register form and emits exactly one word; resolves a scalar-plus-immediate operand to its
  immediate form, and emits exactly one word when the offset is within -8 to 7 and aborts
  with no word otherwise; and aborts with no word for a scalar-plus-vector and for a
  vector-plus-immediate operand.
\<close>

theorem memory_operand_helpers_resolve:
  "resolves_operand (ld1b size' zt pg Src)
        (ld1b_reg size' zt pg (Operand_rn Src) (ScalarScalarType_rm Src))
        (ld1b_imm size' zt pg (Operand_rn Src) (ScalarImmType_Imm Src)) Src buf \<and>
   resolves_operand (ld1sw zt pg Src)
        (ld1sw_reg zt pg (Operand_rn Src) (ScalarScalarType_rm Src))
        (ld1sw_imm zt pg (Operand_rn Src) (ScalarImmType_Imm Src)) Src buf \<and>
   (size' \<noteq> i8Bit \<longrightarrow>
      resolves_operand (ld1h size' zt pg Src)
        (ld1h_reg size' zt pg (Operand_rn Src) (ScalarScalarType_rm Src))
        (ld1h_imm size' zt pg (Operand_rn Src) (ScalarImmType_Imm Src)) Src buf) \<and>
   (size' = i32Bit \<or> size' = i64Bit \<longrightarrow>
      resolves_operand (ld1sh size' zt pg Src)
        (ld1sh_reg size' zt pg (Operand_rn Src) (ScalarScalarType_rm Src))
        (ld1sh_imm size' zt pg (Operand_rn Src) (ScalarImmType_Imm Src)) Src buf) \<and>
   (size' = i32Bit \<or> size' = i64Bit \<longrightarrow>
      resolves_operand (ld1w size' zt pg Src)
        (ld1w_reg size' zt pg (Operand_rn Src) (ScalarScalarType_rm Src))
        (ld1w_imm size' zt pg (Operand_rn Src) (ScalarImmType_Imm Src)) Src buf) \<and>
   (size' = i16Bit \<or> size' = i32Bit \<or> size' = i64Bit \<longrightarrow>
      resolves_operand (ld1sb size' zt pg Src)
        (ld1sb_reg size' zt pg (Operand_rn Src) (ScalarScalarType_rm Src))
        (ld1sb_imm size' zt pg (Operand_rn Src) (ScalarImmType_Imm Src)) Src buf) \<and>
   resolves_operand (ld1d zt pg Src)
        (ld1d_reg zt pg (Operand_rn Src) (ScalarScalarType_rm Src))
        (ld1d_imm zt pg (Operand_rn Src) (ScalarImmType_Imm Src)) Src buf \<and>
   resolves_operand (st1b size' zt pv Src)
        (st1b_reg size' zt pv (Operand_rn Src) (ScalarScalarType_rm Src))
        (st1b_imm size' zt pv (Operand_rn Src) (ScalarImmType_Imm Src)) Src buf \<and>
   (size' \<noteq> i8Bit \<longrightarrow>
      resolves_operand (st1h size' zt pv Src)
        (st1h_reg size' zt pv (Operand_rn Src) (ScalarScalarType_rm Src))
        (st1h_imm size' zt pv (Operand_rn Src) (ScalarImmType_Imm Src)) Src buf) \<and>
   (size' = i32Bit \<or> size' = i64Bit \<longrightarrow>
      resolves_operand (st1w size' zt pv Src)
        (st1w_reg size' zt pv (Operand_rn Src) (ScalarScalarType_rm Src))
        (st1w_imm size' zt pv (Operand_rn Src) (ScalarImmType_Imm Src)) Src buf) \<and>
   resolves_operand (st1d zt pv Src)
        (st1d_reg zt pv (Operand_rn Src) (ScalarScalarType_rm Src))
        (st1d_imm zt pv (Operand_rn Src) (ScalarImmType_Imm Src)) Src buf"
  by (cases "MemType Src")
    (auto simp: resolves_operand_def legal_offset_def
      ld1b_def ld1sw_def ld1h_def ld1sh_def ld1w_def ld1sb_def ld1d_def st1b_def
      st1h_def st1w_def st1d_def ld1b_reg_def ld1sw_reg_def ld1h_reg_def ld1sh_reg_def
      ld1w_reg_def ld1sb_reg_def ld1d_reg_def st1b_reg_def st1h_reg_def st1w_reg_def
      st1d_reg_def ld1b_imm_def ld1sw_imm_def ld1h_imm_def ld1sh_imm_def ld1w_imm_def
      ld1sb_imm_def ld1d_imm_def st1b_imm_def st1h_imm_def st1w_imm_def st1d_imm_def
      contiguous_primitives_emit aborts_simps emits_one_word_simps)

theorem memory_operand_helpers_resolve_witness:
  "emits_one_word (ld1h i16Bit (ZRegister 0) (PRegisterZero 0)
     \<lparr>MemType = TYPE_SCALAR_IMM, Operand_rn = Register 0, ScalarScalarType_rm = Register 0,
      ScalarImmType_Imm = - 8\<rparr>) [] \<and>
   emits_one_word (ld1h i16Bit (ZRegister 0) (PRegisterZero 0)
     \<lparr>MemType = TYPE_SCALAR_SCALAR, Operand_rn = Register 0, ScalarScalarType_rm = Register 1,
      ScalarImmType_Imm = 0\<rparr>) [] \<and>
   aborts (ld1h i16Bit (ZRegister 0) (PRegisterZero 0)
     \<lparr>MemType = TYPE_SCALAR_IMM, Operand_rn = Register 0, ScalarScalarType_rm = Register 0,
      ScalarImmType_Imm = 8\<rparr>) [] \<and>
   aborts (ld1h i16Bit (ZRegister 0) (PRegisterZero 0)
     \<lparr>MemType = TYPE_SCALAR_VECTOR, Operand_rn = Register 0, ScalarScalarType_rm = Register 0,
      ScalarImmType_Imm = 0\<rparr>) []"
proof -
  note T = memory_operand_helpers_resolve[where size' = i16Bit and buf = "[]" and zt = "ZRegister 0"
      and pg = "PRegisterZero 0", THEN conjunct2, THEN conjunct2, THEN conjunct1]
  show ?thesis
    using
      T[of "\<lparr>MemType = TYPE_SCALAR_IMM, Operand_rn = Register 0, ScalarScalarType_rm = Register 0,
        ScalarImmType_Imm = - 8\<rparr>"]
      T[of "\<lparr>MemType = TYPE_SCALAR_SCALAR, Operand_rn = Register 0, ScalarScalarType_rm = Register 1,
        ScalarImmType_Imm = 0\<rparr>"]
      T[of "\<lparr>MemType = TYPE_SCALAR_IMM, Operand_rn = Register 0, ScalarScalarType_rm = Register 0,
        ScalarImmType_Imm = 8\<rparr>"]
      T[of "\<lparr>MemType = TYPE_SCALAR_VECTOR, Operand_rn = Register 0, ScalarScalarType_rm = Register 0,
        ScalarImmType_Imm = 0\<rparr>"]
    by (simp add: resolves_operand_def legal_offset_def)
qed

end
